theory Spec2Isabelle
  imports Complex_Main
begin

section \<open>Python values that the scripts rely on\<close>

text \<open>
  The exceptions that the modelled statements can raise. \<open>SystemExit\<close> carries the
  status passed to \<open>exit\<close>.
\<close>

datatype py_error =
    ZeroDivisionError
  | ValueError
  | IndexError
  | UnboundLocalError
  | NoResultFound
  | SystemExit int

text \<open>Python's \<open>a / b\<close> on numbers: a zero divisor raises.\<close>

definition py_div :: "real \<Rightarrow> real \<Rightarrow> py_error + real" where
  "py_div a b = (if b = 0 then Inl ZeroDivisionError else Inr (a / b))"

text \<open>Sequencing of two computations that may raise.\<close>

definition py_bind :: "py_error + 'a \<Rightarrow> ('a \<Rightarrow> py_error + 'b) \<Rightarrow> py_error + 'b" where
  "py_bind r f = (case r of Inl err \<Rightarrow> Inl err | Inr v \<Rightarrow> f v)"

text \<open>
  The constants read from \<open>scipy.constants\<close>: \<open>spc.k\<close>, \<open>spc.N_A\<close>, \<open>spc.e\<close>
  and \<open>spc.erg\<close>. The library is not part of the repository, so the conversion
  functions take the record as a parameter.
\<close>

record spc =
  spc_k :: real
  spc_N_A :: real
  spc_e :: real
  spc_erg :: real

definition spc_positive :: "spc \<Rightarrow> bool" where
  "spc_positive c \<longleftrightarrow> 0 < spc_k c \<and> 0 < spc_N_A c \<and> 0 < spc_e c \<and> 0 < spc_erg c"

text \<open>The values that scipy exports (CODATA 2018, exact in the SI).\<close>

definition codata2018 :: spc where
  "codata2018 =
     \<lparr> spc_k = 1.380649 / 10 ^ 23, spc_N_A = 6.02214076 * 10 ^ 23,
       spc_e = 1.602176634 / 10 ^ 19, spc_erg = 1 / 10 ^ 7 \<rparr>"

section \<open>Strings, lists and files\<close>

abbreviation TAB :: char where
  "TAB \<equiv> CHR 0x09"

abbreviation NL :: char where
  "NL \<equiv> CHR 0x0A"

abbreviation SPACE :: char where
  "SPACE \<equiv> CHR 0x20"

text \<open>
  A \<open>for\<close> loop that appends one value per item; the first item that raises ends it.
\<close>

fun collect :: "('a \<Rightarrow> py_error + 'b) \<Rightarrow> 'a list \<Rightarrow> py_error + 'b list" where
  "collect f [] = Inr []"
| "collect f (x # xs) = py_bind (f x) (\<lambda>y. py_bind (collect f xs) (\<lambda>ys. Inr (y # ys)))"

text \<open>Python's \<open>xs[i]\<close> for a non-negative index.\<close>

definition py_index :: "'a list \<Rightarrow> nat \<Rightarrow> py_error + 'a" where
  "py_index xs i = (if i < length xs then Inr (xs ! i) else Inl IndexError)"

text \<open>
  Python's \<open>xs[i] = v\<close>: a negative index counts from the end of the list, an index
  outside \<open>-len(xs) .. len(xs) - 1\<close> raises.
\<close>

definition py_setitem :: "'a list \<Rightarrow> int \<Rightarrow> 'a \<Rightarrow> py_error + 'a list" where
  "py_setitem xs i v =
     (let n = int (length xs); j = (if i < 0 then n + i else i)
      in if 0 \<le> j \<and> j < n then Inr (xs[nat j := v]) else Inl IndexError)"

text \<open>
  \<open>s.split(sep)\<close> for a separator of one character: a cut at every occurrence, empty
  pieces kept.
\<close>

fun split_on :: "char \<Rightarrow> string \<Rightarrow> string list" where
  "split_on sep [] = [[]]"
| "split_on sep (ch # s) =
     (if ch = sep then [] # split_on sep s
      else (case split_on sep s of [] \<Rightarrow> [[ch]] | w # ws \<Rightarrow> (ch # w) # ws))"

text \<open>\<open>list(filter(None, xs))\<close> on strings drops the empty ones.\<close>

definition filter_None :: "string list \<Rightarrow> string list" where
  "filter_None xs = filter (\<lambda>s. s \<noteq> []) xs"

text \<open>\<open>s.rstrip("\n")\<close>.\<close>

definition rstrip_newline :: "string \<Rightarrow> string" where
  "rstrip_newline s = rev (dropWhile (\<lambda>ch. ch = NL) (rev s))"

text \<open>
  The lines that iterating over a text file yields: each keeps its newline, the last one
  may lack it. Contents are taken to hold no carriage return.
\<close>

fun py_lines :: "string \<Rightarrow> string list" where
  "py_lines [] = []"
| "py_lines (ch # s) =
     (if ch = NL then [ch] # py_lines s
      else (case py_lines s of [] \<Rightarrow> [[ch]] | l # ls \<Rightarrow> (ch # l) # ls))"

text \<open>\<open>str(n)\<close> for an integer.\<close>

definition digit_char :: "nat \<Rightarrow> char" where
  "digit_char d = ''0123456789'' ! d"

fun str_nat :: "nat \<Rightarrow> string" where
  "str_nat n = (if n < 10 then [digit_char n] else str_nat (n div 10) @ [digit_char (n mod 10)])"

definition str_int :: "int \<Rightarrow> string" where
  "str_int i = (if i < 0 then CHR ''-'' # str_nat (nat (- i)) else str_nat (nat i))"

text \<open>
  A file system maps a file name to the text of the file. Opening a missing file for
  reading raises \<open>FileNotFoundError\<close>; the scripts catch it, print a message and call
  \<open>exit(-1)\<close>. Opening for writing replaces the file.
\<close>

type_synonym files = "string \<Rightarrow> string option"

section \<open>Library functions\<close>

text \<open>
  An element of the \<open>mendeleev\<close> package, with the attributes that the scripts read.
\<close>

record element =
  atomic_number :: int
  symbol :: string
  name :: string
  atomic_weight :: real

text \<open>
  The functions of Python and of \<open>mendeleev\<close> that the scripts call and whose text is not
  part of the repository: \<open>int(s)\<close> and \<open>float(s)\<close> (\<open>None\<close> stands for \<open>ValueError\<close>),
  \<open>str\<close> of a float as \<open>"{}".format\<close> prints it, the formats \<open>{:.6f}\<close> and \<open>{:.6E}\<close>,
  and \<open>md.element\<close>, called with a number or with a symbol or name (\<open>None\<close> when the
  package finds no element and raises).
\<close>

record py_lib =
  py_int :: "string \<Rightarrow> int option"
  py_float :: "string \<Rightarrow> real option"
  str_float :: "real \<Rightarrow> string"
  format_6f :: "real \<Rightarrow> string"
  format_6E :: "real \<Rightarrow> string"
  md_element :: "int + string \<Rightarrow> element option"

section \<open>Conversion functions of scripts.py\<close>

subsection \<open>Entropy conversions\<close>

definition Sconvert_JmolK_to_kBatom :: "spc \<Rightarrow> real \<Rightarrow> py_error + real" where
  "Sconvert_JmolK_to_kBatom c entropy = py_div entropy (spc_k c * spc_N_A c)"

definition Sconvert_kBatom_to_JmolK :: "spc \<Rightarrow> real \<Rightarrow> real" where
  "Sconvert_kBatom_to_JmolK c entropy = entropy * (spc_k c * spc_N_A c)"

definition Sconvert_erggK_to_kBatom :: "spc \<Rightarrow> real \<Rightarrow> real \<Rightarrow> py_error + real" where
  "Sconvert_erggK_to_kBatom c entropy atomic_mass =
     py_bind (py_div (spc_k c) (spc_erg c))
       (\<lambda>q. py_div (entropy * atomic_mass) (q * spc_N_A c))"

definition Sconvert_kBatom_to_erggK :: "spc \<Rightarrow> real \<Rightarrow> real \<Rightarrow> py_error + real" where
  "Sconvert_kBatom_to_erggK c entropy atomic_mass =
     py_bind (py_div (entropy * spc_k c) (spc_erg c))
       (\<lambda>q. py_div (q * spc_N_A c) atomic_mass)"

definition Sconvert_JgK_to_kBatom :: "spc \<Rightarrow> real \<Rightarrow> real \<Rightarrow> py_error + real" where
  "Sconvert_JgK_to_kBatom c entropy atomic_mass =
     py_div (entropy * atomic_mass) (spc_k c * spc_N_A c)"

definition Sconvert_kBatom_to_JgK :: "spc \<Rightarrow> real \<Rightarrow> real \<Rightarrow> py_error + real" where
  "Sconvert_kBatom_to_JgK c entropy atomic_mass =
     py_div (entropy * spc_k c * spc_N_A c) atomic_mass"

definition Sconvert_MbarccgK_to_kBatom :: "spc \<Rightarrow> real \<Rightarrow> real \<Rightarrow> py_error + real" where
  "Sconvert_MbarccgK_to_kBatom c entropy atomic_mass =
     py_div (entropy * atomic_mass * 10 ^ 5) (spc_k c * spc_N_A c)"

definition Sconvert_kBatom_to_MbarccgK :: "spc \<Rightarrow> real \<Rightarrow> real \<Rightarrow> py_error + real" where
  "Sconvert_kBatom_to_MbarccgK c entropy atomic_mass =
     py_div (entropy * spc_k c * spc_N_A c) (atomic_mass * 10 ^ 5)"

definition Sconvert_JmolK_to_JgK :: "real \<Rightarrow> real \<Rightarrow> py_error + real" where
  "Sconvert_JmolK_to_JgK entropy atomic_mass = py_div entropy atomic_mass"

definition Sconvert_JgK_to_JmolK :: "real \<Rightarrow> real \<Rightarrow> real" where
  "Sconvert_JgK_to_JmolK entropy atomic_mass = entropy * atomic_mass"

definition Sconvert_JgK_to_erggK :: "spc \<Rightarrow> real \<Rightarrow> py_error + real" where
  "Sconvert_JgK_to_erggK c entropy = py_div entropy (spc_erg c)"

definition Sconvert_erggK_to_JgK :: "spc \<Rightarrow> real \<Rightarrow> real" where
  "Sconvert_erggK_to_JgK c entropy = entropy * spc_erg c"

definition Sconvert_MbarccgK_to_JgK :: "real \<Rightarrow> real" where
  "Sconvert_MbarccgK_to_JgK entropy = entropy * 10 ^ 5"

definition Sconvert_JgK_to_MbarccgK :: "real \<Rightarrow> real" where
  "Sconvert_JgK_to_MbarccgK entropy = entropy / 10 ^ 5"

subsection \<open>Energy conversions\<close>

definition Econvert_kJmol_to_meVatom :: "spc \<Rightarrow> real \<Rightarrow> py_error + real" where
  "Econvert_kJmol_to_meVatom c energy =
     py_div (1000 * energy) (spc_e c * spc_N_A c / 1000)"

definition Econvert_meVatom_to_kJmol :: "spc \<Rightarrow> real \<Rightarrow> real" where
  "Econvert_meVatom_to_kJmol c energy = energy * (spc_e c * spc_N_A c / 1000) / 1000"

definition Econvert_eVatom_to_ergg :: "spc \<Rightarrow> real \<Rightarrow> real \<Rightarrow> py_error + real" where
  "Econvert_eVatom_to_ergg c energy atomic_mass =
     py_bind (py_div (spc_e c * spc_N_A c) (spc_erg c))
       (\<lambda>q. py_div (energy * q) atomic_mass)"

definition Econvert_ergg_to_eVatom :: "spc \<Rightarrow> real \<Rightarrow> real \<Rightarrow> py_error + real" where
  "Econvert_ergg_to_eVatom c energy atomic_mass =
     py_bind (py_div (spc_e c * spc_N_A c) (spc_erg c))
       (\<lambda>q. py_div (energy * atomic_mass) q)"

definition Econvert_Jg_to_eVatom :: "spc \<Rightarrow> real \<Rightarrow> real \<Rightarrow> py_error + real" where
  "Econvert_Jg_to_eVatom c energy atomic_mass =
     py_div (energy * atomic_mass) (spc_e c * spc_N_A c)"

definition Econvert_eVatom_to_Jg :: "spc \<Rightarrow> real \<Rightarrow> real \<Rightarrow> py_error + real" where
  "Econvert_eVatom_to_Jg c energy atomic_mass =
     py_div (energy * spc_e c * spc_N_A c) atomic_mass"

definition Econvert_Ryatom_to_ergg :: "spc \<Rightarrow> real \<Rightarrow> real \<Rightarrow> py_error + real" where
  "Econvert_Ryatom_to_ergg c energy atomic_mass =
     py_div (energy * (2.17987 * (1 / 10 ^ 11)) * spc_N_A c) atomic_mass"

definition Econvert_ergg_to_Ryatom :: "spc \<Rightarrow> real \<Rightarrow> real \<Rightarrow> py_error + real" where
  "Econvert_ergg_to_Ryatom c energy atomic_mass =
     py_div (energy * atomic_mass) ((2.17987 * (1 / 10 ^ 11)) * spc_N_A c)"

definition Econvert_Ryatom_to_eVatom :: "real \<Rightarrow> real" where
  "Econvert_Ryatom_to_eVatom energy = energy * 13.6056"

definition Econvert_eVatom_to_Ryatom :: "real \<Rightarrow> real" where
  "Econvert_eVatom_to_Ryatom energy = energy / 13.6056"

section \<open>Conversion functions of NIST_Conversion.py\<close>

definition NIST_Sconvert_JmolK_to_kBatom :: "spc \<Rightarrow> real \<Rightarrow> py_error + real" where
  "NIST_Sconvert_JmolK_to_kBatom c entropy = py_div entropy (spc_k c * spc_N_A c)"

definition NIST_Sconvert_kBatom_to_JmolK :: "spc \<Rightarrow> real \<Rightarrow> real" where
  "NIST_Sconvert_kBatom_to_JmolK c entropy = entropy * (spc_k c * spc_N_A c)"

definition NIST_Sconvert_erggK_to_kBatom :: "spc \<Rightarrow> real \<Rightarrow> real \<Rightarrow> py_error + real" where
  "NIST_Sconvert_erggK_to_kBatom c entropy atomic_mass =
     py_bind (py_div (spc_k c) (spc_erg c))
       (\<lambda>q. py_div (entropy * atomic_mass) (q * spc_N_A c))"

definition NIST_Sconvert_kBatom_to_erggK :: "spc \<Rightarrow> real \<Rightarrow> real \<Rightarrow> py_error + real" where
  "NIST_Sconvert_kBatom_to_erggK c entropy atomic_mass =
     py_bind (py_div (entropy * spc_k c) (spc_erg c))
       (\<lambda>q. py_div (q * spc_N_A c) atomic_mass)"

definition NIST_Sconvert_JgK_to_kBatom :: "spc \<Rightarrow> real \<Rightarrow> real \<Rightarrow> py_error + real" where
  "NIST_Sconvert_JgK_to_kBatom c entropy atomic_mass =
     py_div (entropy * atomic_mass) (spc_k c * spc_N_A c)"

definition NIST_Sconvert_kBatom_to_JgK :: "spc \<Rightarrow> real \<Rightarrow> real \<Rightarrow> py_error + real" where
  "NIST_Sconvert_kBatom_to_JgK c entropy atomic_mass =
     py_div (entropy * spc_k c * spc_N_A c) atomic_mass"

definition NIST_Sconvert_MbarccgK_to_kBatom :: "spc \<Rightarrow> real \<Rightarrow> real \<Rightarrow> py_error + real" where
  "NIST_Sconvert_MbarccgK_to_kBatom c entropy atomic_mass =
     py_div (entropy * atomic_mass * 10 ^ 5) (spc_k c * spc_N_A c)"

definition NIST_Sconvert_kBatom_to_MbarccgK :: "spc \<Rightarrow> real \<Rightarrow> real \<Rightarrow> py_error + real" where
  "NIST_Sconvert_kBatom_to_MbarccgK c entropy atomic_mass =
     py_div (entropy * spc_k c * spc_N_A c) (atomic_mass * 10 ^ 5)"

definition NIST_Sconvert_JmolK_to_JgK :: "real \<Rightarrow> real \<Rightarrow> py_error + real" where
  "NIST_Sconvert_JmolK_to_JgK entropy atomic_mass = py_div entropy atomic_mass"

definition NIST_Sconvert_JgK_to_JmolK :: "real \<Rightarrow> real \<Rightarrow> real" where
  "NIST_Sconvert_JgK_to_JmolK entropy atomic_mass = entropy * atomic_mass"

definition NIST_Sconvert_JgK_to_erggK :: "spc \<Rightarrow> real \<Rightarrow> py_error + real" where
  "NIST_Sconvert_JgK_to_erggK c entropy = py_div entropy (spc_erg c)"

definition NIST_Sconvert_erggK_to_JgK :: "spc \<Rightarrow> real \<Rightarrow> real" where
  "NIST_Sconvert_erggK_to_JgK c entropy = entropy * spc_erg c"

definition NIST_Sconvert_MbarccgK_to_JgK :: "real \<Rightarrow> real" where
  "NIST_Sconvert_MbarccgK_to_JgK entropy = entropy * 10 ^ 5"

definition NIST_Sconvert_JgK_to_MbarccgK :: "real \<Rightarrow> real" where
  "NIST_Sconvert_JgK_to_MbarccgK entropy = entropy / 10 ^ 5"

definition NIST_Econvert_kJmol_to_meVatom :: "spc \<Rightarrow> real \<Rightarrow> py_error + real" where
  "NIST_Econvert_kJmol_to_meVatom c energy =
     py_div (1000 * energy) (spc_e c * spc_N_A c / 1000)"

definition NIST_Econvert_meVatom_to_kJmol :: "spc \<Rightarrow> real \<Rightarrow> real" where
  "NIST_Econvert_meVatom_to_kJmol c energy = energy * (spc_e c * spc_N_A c / 1000) / 1000"

definition NIST_Econvert_eVatom_to_ergg :: "spc \<Rightarrow> real \<Rightarrow> real \<Rightarrow> py_error + real" where
  "NIST_Econvert_eVatom_to_ergg c energy atomic_mass =
     py_bind (py_div (spc_e c * spc_N_A c) (spc_erg c))
       (\<lambda>q. py_div (energy * q) atomic_mass)"

definition NIST_Econvert_ergg_to_eVatom :: "spc \<Rightarrow> real \<Rightarrow> real \<Rightarrow> py_error + real" where
  "NIST_Econvert_ergg_to_eVatom c energy atomic_mass =
     py_bind (py_div (spc_e c * spc_N_A c) (spc_erg c))
       (\<lambda>q. py_div (energy * atomic_mass) q)"

definition NIST_Econvert_Jg_to_eVatom :: "spc \<Rightarrow> real \<Rightarrow> real \<Rightarrow> py_error + real" where
  "NIST_Econvert_Jg_to_eVatom c energy atomic_mass =
     py_div (energy * atomic_mass) (spc_e c * spc_N_A c)"

definition NIST_Econvert_eVatom_to_Jg :: "spc \<Rightarrow> real \<Rightarrow> real \<Rightarrow> py_error + real" where
  "NIST_Econvert_eVatom_to_Jg c energy atomic_mass =
     py_div (energy * spc_e c * spc_N_A c) atomic_mass"

definition NIST_Econvert_Ryatom_to_ergg :: "spc \<Rightarrow> real \<Rightarrow> real \<Rightarrow> py_error + real" where
  "NIST_Econvert_Ryatom_to_ergg c energy atomic_mass =
     py_div (energy * (2.17987 * (1 / 10 ^ 11)) * spc_N_A c) atomic_mass"

definition NIST_Econvert_ergg_to_Ryatom :: "spc \<Rightarrow> real \<Rightarrow> real \<Rightarrow> py_error + real" where
  "NIST_Econvert_ergg_to_Ryatom c energy atomic_mass =
     py_div (energy * atomic_mass) ((2.17987 * (1 / 10 ^ 11)) * spc_N_A c)"

definition NIST_Econvert_Ryatom_to_eVatom :: "real \<Rightarrow> real" where
  "NIST_Econvert_Ryatom_to_eVatom energy = energy * 13.6056"

definition NIST_Econvert_eVatom_to_Ryatom :: "real \<Rightarrow> real" where
  "NIST_Econvert_eVatom_to_Ryatom energy = energy / 13.6056"


section \<open>The supported conversions\<close>

text \<open>
  The module docstring lists the supported unit pairs; every pair has a function for each
  direction. \<open>forward\<close> and \<open>reverse\<close> select the function of a pair. A function that
  takes no atomic mass ignores the mass argument, one that cannot raise returns \<open>Inr\<close>.
\<close>

datatype conversion =
    JmolK_kBatom
  | erggK_kBatom
  | JgK_kBatom
  | MbarccgK_kBatom
  | JmolK_JgK
  | JgK_erggK
  | MbarccgK_JgK
  | kJmol_meVatom
  | eVatom_ergg
  | Jg_eVatom
  | Ryatom_ergg
  | Ryatom_eVatom

fun forward :: "conversion \<Rightarrow> spc \<Rightarrow> real \<Rightarrow> real \<Rightarrow> py_error + real" where
  "forward JmolK_kBatom c x m = Sconvert_JmolK_to_kBatom c x"
| "forward erggK_kBatom c x m = Sconvert_erggK_to_kBatom c x m"
| "forward JgK_kBatom c x m = Sconvert_JgK_to_kBatom c x m"
| "forward MbarccgK_kBatom c x m = Sconvert_MbarccgK_to_kBatom c x m"
| "forward JmolK_JgK c x m = Sconvert_JmolK_to_JgK x m"
| "forward JgK_erggK c x m = Sconvert_JgK_to_erggK c x"
| "forward MbarccgK_JgK c x m = Inr (Sconvert_MbarccgK_to_JgK x)"
| "forward kJmol_meVatom c x m = Econvert_kJmol_to_meVatom c x"
| "forward eVatom_ergg c x m = Econvert_eVatom_to_ergg c x m"
| "forward Jg_eVatom c x m = Econvert_Jg_to_eVatom c x m"
| "forward Ryatom_ergg c x m = Econvert_Ryatom_to_ergg c x m"
| "forward Ryatom_eVatom c x m = Inr (Econvert_Ryatom_to_eVatom x)"

fun reverse :: "conversion \<Rightarrow> spc \<Rightarrow> real \<Rightarrow> real \<Rightarrow> py_error + real" where
  "reverse JmolK_kBatom c x m = Inr (Sconvert_kBatom_to_JmolK c x)"
| "reverse erggK_kBatom c x m = Sconvert_kBatom_to_erggK c x m"
| "reverse JgK_kBatom c x m = Sconvert_kBatom_to_JgK c x m"
| "reverse MbarccgK_kBatom c x m = Sconvert_kBatom_to_MbarccgK c x m"
| "reverse JmolK_JgK c x m = Inr (Sconvert_JgK_to_JmolK x m)"
| "reverse JgK_erggK c x m = Inr (Sconvert_erggK_to_JgK c x)"
| "reverse MbarccgK_JgK c x m = Inr (Sconvert_JgK_to_MbarccgK x)"
| "reverse kJmol_meVatom c x m = Inr (Econvert_meVatom_to_kJmol c x)"
| "reverse eVatom_ergg c x m = Econvert_ergg_to_eVatom c x m"
| "reverse Jg_eVatom c x m = Econvert_eVatom_to_Jg c x m"
| "reverse Ryatom_ergg c x m = Econvert_ergg_to_Ryatom c x m"
| "reverse Ryatom_eVatom c x m = Inr (Econvert_eVatom_to_Ryatom x)"

text \<open>
  The names of the conversion functions, in the order of their definitions; both files
  define the same names.
\<close>

definition conversion_function_names :: "string list" where
  "conversion_function_names =
     [''Sconvert_JmolK_to_kBatom'', ''Sconvert_kBatom_to_JmolK'',
      ''Sconvert_erggK_to_kBatom'', ''Sconvert_kBatom_to_erggK'',
      ''Sconvert_JgK_to_kBatom'', ''Sconvert_kBatom_to_JgK'',
      ''Sconvert_MbarccgK_to_kBatom'', ''Sconvert_kBatom_to_MbarccgK'',
      ''Sconvert_JmolK_to_JgK'', ''Sconvert_JgK_to_JmolK'',
      ''Sconvert_JgK_to_erggK'', ''Sconvert_erggK_to_JgK'',
      ''Sconvert_MbarccgK_to_JgK'', ''Sconvert_JgK_to_MbarccgK'',
      ''Econvert_kJmol_to_meVatom'', ''Econvert_meVatom_to_kJmol'',
      ''Econvert_eVatom_to_ergg'', ''Econvert_ergg_to_eVatom'',
      ''Econvert_Jg_to_eVatom'', ''Econvert_eVatom_to_Jg'',
      ''Econvert_Ryatom_to_ergg'', ''Econvert_ergg_to_Ryatom'',
      ''Econvert_Ryatom_to_eVatom'', ''Econvert_eVatom_to_Ryatom'']"

section \<open>Python floats\<close>

text \<open>
  A Python float is an IEEE 754 double: a finite value, an infinity or a NaN. The two
  zeros are not told apart. The conversion functions above read \<open>*\<close> and \<open>/\<close> as the
  operations of the real numbers; the functions of this section read them as Python
  computes them, with the result of every operation rounded to the nearest double.
\<close>

datatype pyfloat = Finite real | PosInf | NegInf | NaN

text \<open>The nearest integer, a tie going to the even one.\<close>

definition nearest_even :: "real \<Rightarrow> int" where
  "nearest_even x =
     (let f = \<lfloor>x\<rfloor>; r = x - of_int f
      in if r < 1 / 2 then f else if 1 / 2 < r then f + 1 else if even f then f else f + 1)"

text \<open>
  The distance between neighbouring doubles at \<open>x\<close>: 52 binary places below the leading
  bit of \<open>x\<close>, and \<open>2^-1074\<close> for the subnormal numbers.
\<close>

definition double_quantum :: "real \<Rightarrow> real" where
  "double_quantum x = 2 powr (of_int (max \<lfloor>log 2 \<bar>x\<bar>\<rfloor> (- 1022)) - 52)"

text \<open>
  Rounding to the nearest double, ties to even. A magnitude of at least
  \<open>2^1024 - 2^970\<close>, half a step above the largest double, rounds to infinity.
\<close>

definition round_double :: "real \<Rightarrow> pyfloat" where
  "round_double x =
     (if 2 ^ 1024 - 2 ^ 970 \<le> \<bar>x\<bar> then (if 0 < x then PosInf else NegInf)
      else if x = 0 then Finite 0
      else Finite (of_int (nearest_even (x / double_quantum x)) * double_quantum x))"

text \<open>\<open>a * b\<close> on floats: no exception, an overflow gives an infinity.\<close>

fun float_mul :: "pyfloat \<Rightarrow> pyfloat \<Rightarrow> pyfloat" where
  "float_mul (Finite x) (Finite y) = round_double (x * y)"
| "float_mul NaN b = NaN"
| "float_mul a NaN = NaN"
| "float_mul (Finite x) PosInf = (if x = 0 then NaN else if 0 < x then PosInf else NegInf)"
| "float_mul (Finite x) NegInf = (if x = 0 then NaN else if 0 < x then NegInf else PosInf)"
| "float_mul PosInf (Finite y) = (if y = 0 then NaN else if 0 < y then PosInf else NegInf)"
| "float_mul NegInf (Finite y) = (if y = 0 then NaN else if 0 < y then NegInf else PosInf)"
| "float_mul PosInf PosInf = PosInf"
| "float_mul PosInf NegInf = NegInf"
| "float_mul NegInf PosInf = NegInf"
| "float_mul NegInf NegInf = PosInf"

text \<open>\<open>a / b\<close> on floats: a zero divisor raises, whatever the dividend.\<close>

fun float_div :: "pyfloat \<Rightarrow> pyfloat \<Rightarrow> py_error + pyfloat" where
  "float_div a (Finite y) =
     (if y = 0 then Inl ZeroDivisionError
      else Inr (case a of
                  Finite x \<Rightarrow> round_double (x / y)
                | PosInf \<Rightarrow> (if 0 < y then PosInf else NegInf)
                | NegInf \<Rightarrow> (if 0 < y then NegInf else PosInf)
                | NaN \<Rightarrow> NaN))"
| "float_div a NaN = Inr NaN"
| "float_div (Finite x) b = Inr (Finite 0)"
| "float_div a b = Inr NaN"

text \<open>
  The operations on the values of subexpressions, either of which may have raised; Python
  evaluates the left operand first.
\<close>

definition fl_mul :: "py_error + pyfloat \<Rightarrow> py_error + pyfloat \<Rightarrow> py_error + pyfloat" where
  "fl_mul a b = py_bind a (\<lambda>x. py_bind b (\<lambda>y. Inr (float_mul x y)))"

definition fl_div :: "py_error + pyfloat \<Rightarrow> py_error + pyfloat \<Rightarrow> py_error + pyfloat" where
  "fl_div a b = py_bind a (\<lambda>x. py_bind b (\<lambda>y. float_div x y))"

text \<open>
  A float variable or constant, an integer literal, and a decimal literal, which denotes
  the nearest double. \<open>pow(10, -11)\<close> is taken to be the double nearest to \<open>10^-11\<close>.
\<close>

definition fl_var :: "pyfloat \<Rightarrow> py_error + pyfloat" where
  "fl_var v = Inr v"

definition fl_const :: "real \<Rightarrow> py_error + pyfloat" where
  "fl_const x = Inr (Finite x)"

definition fl_literal :: "real \<Rightarrow> py_error + pyfloat" where
  "fl_literal x = Inr (round_double x)"

section \<open>The conversion functions on floats\<close>

definition fl_Sconvert_JmolK_to_kBatom :: "spc \<Rightarrow> pyfloat \<Rightarrow> py_error + pyfloat" where
  "fl_Sconvert_JmolK_to_kBatom c entropy =
     fl_div (fl_var entropy) (fl_mul (fl_const (spc_k c)) (fl_const (spc_N_A c)))"

definition fl_Sconvert_kBatom_to_JmolK :: "spc \<Rightarrow> pyfloat \<Rightarrow> py_error + pyfloat" where
  "fl_Sconvert_kBatom_to_JmolK c entropy =
     fl_mul (fl_var entropy) (fl_mul (fl_const (spc_k c)) (fl_const (spc_N_A c)))"

definition fl_Sconvert_erggK_to_kBatom ::
    "spc \<Rightarrow> pyfloat \<Rightarrow> pyfloat \<Rightarrow> py_error + pyfloat" where
  "fl_Sconvert_erggK_to_kBatom c entropy atomic_mass =
     fl_div (fl_mul (fl_var entropy) (fl_var atomic_mass))
       (fl_mul (fl_div (fl_const (spc_k c)) (fl_const (spc_erg c))) (fl_const (spc_N_A c)))"

definition fl_Sconvert_kBatom_to_erggK ::
    "spc \<Rightarrow> pyfloat \<Rightarrow> pyfloat \<Rightarrow> py_error + pyfloat" where
  "fl_Sconvert_kBatom_to_erggK c entropy atomic_mass =
     fl_div
       (fl_mul (fl_div (fl_mul (fl_var entropy) (fl_const (spc_k c))) (fl_const (spc_erg c)))
          (fl_const (spc_N_A c)))
       (fl_var atomic_mass)"

definition fl_Sconvert_JgK_to_kBatom ::
    "spc \<Rightarrow> pyfloat \<Rightarrow> pyfloat \<Rightarrow> py_error + pyfloat" where
  "fl_Sconvert_JgK_to_kBatom c entropy atomic_mass =
     fl_div (fl_mul (fl_var entropy) (fl_var atomic_mass))
       (fl_mul (fl_const (spc_k c)) (fl_const (spc_N_A c)))"

definition fl_Sconvert_kBatom_to_JgK ::
    "spc \<Rightarrow> pyfloat \<Rightarrow> pyfloat \<Rightarrow> py_error + pyfloat" where
  "fl_Sconvert_kBatom_to_JgK c entropy atomic_mass =
     fl_div (fl_mul (fl_mul (fl_var entropy) (fl_const (spc_k c))) (fl_const (spc_N_A c)))
       (fl_var atomic_mass)"

definition fl_Sconvert_MbarccgK_to_kBatom ::
    "spc \<Rightarrow> pyfloat \<Rightarrow> pyfloat \<Rightarrow> py_error + pyfloat" where
  "fl_Sconvert_MbarccgK_to_kBatom c entropy atomic_mass =
     fl_div (fl_mul (fl_mul (fl_var entropy) (fl_var atomic_mass)) (fl_const (10 ^ 5)))
       (fl_mul (fl_const (spc_k c)) (fl_const (spc_N_A c)))"

definition fl_Sconvert_kBatom_to_MbarccgK ::
    "spc \<Rightarrow> pyfloat \<Rightarrow> pyfloat \<Rightarrow> py_error + pyfloat" where
  "fl_Sconvert_kBatom_to_MbarccgK c entropy atomic_mass =
     fl_div (fl_mul (fl_mul (fl_var entropy) (fl_const (spc_k c))) (fl_const (spc_N_A c)))
       (fl_mul (fl_var atomic_mass) (fl_const (10 ^ 5)))"

definition fl_Sconvert_JmolK_to_JgK :: "pyfloat \<Rightarrow> pyfloat \<Rightarrow> py_error + pyfloat" where
  "fl_Sconvert_JmolK_to_JgK entropy atomic_mass = fl_div (fl_var entropy) (fl_var atomic_mass)"

definition fl_Sconvert_JgK_to_JmolK :: "pyfloat \<Rightarrow> pyfloat \<Rightarrow> py_error + pyfloat" where
  "fl_Sconvert_JgK_to_JmolK entropy atomic_mass = fl_mul (fl_var entropy) (fl_var atomic_mass)"

definition fl_Sconvert_JgK_to_erggK :: "spc \<Rightarrow> pyfloat \<Rightarrow> py_error + pyfloat" where
  "fl_Sconvert_JgK_to_erggK c entropy = fl_div (fl_var entropy) (fl_const (spc_erg c))"

definition fl_Sconvert_erggK_to_JgK :: "spc \<Rightarrow> pyfloat \<Rightarrow> py_error + pyfloat" where
  "fl_Sconvert_erggK_to_JgK c entropy = fl_mul (fl_var entropy) (fl_const (spc_erg c))"

definition fl_Sconvert_MbarccgK_to_JgK :: "pyfloat \<Rightarrow> py_error + pyfloat" where
  "fl_Sconvert_MbarccgK_to_JgK entropy = fl_mul (fl_var entropy) (fl_const (10 ^ 5))"

definition fl_Sconvert_JgK_to_MbarccgK :: "pyfloat \<Rightarrow> py_error + pyfloat" where
  "fl_Sconvert_JgK_to_MbarccgK entropy = fl_div (fl_var entropy) (fl_const (10 ^ 5))"

definition fl_Econvert_kJmol_to_meVatom :: "spc \<Rightarrow> pyfloat \<Rightarrow> py_error + pyfloat" where
  "fl_Econvert_kJmol_to_meVatom c energy =
     fl_div (fl_mul (fl_const 1000) (fl_var energy))
       (fl_div (fl_mul (fl_const (spc_e c)) (fl_const (spc_N_A c))) (fl_const 1000))"

definition fl_Econvert_meVatom_to_kJmol :: "spc \<Rightarrow> pyfloat \<Rightarrow> py_error + pyfloat" where
  "fl_Econvert_meVatom_to_kJmol c energy =
     fl_div
       (fl_mul (fl_var energy)
          (fl_div (fl_mul (fl_const (spc_e c)) (fl_const (spc_N_A c))) (fl_const 1000)))
       (fl_const 1000)"

definition fl_Econvert_eVatom_to_ergg ::
    "spc \<Rightarrow> pyfloat \<Rightarrow> pyfloat \<Rightarrow> py_error + pyfloat" where
  "fl_Econvert_eVatom_to_ergg c energy atomic_mass =
     fl_div
       (fl_mul (fl_var energy)
          (fl_div (fl_mul (fl_const (spc_e c)) (fl_const (spc_N_A c))) (fl_const (spc_erg c))))
       (fl_var atomic_mass)"

definition fl_Econvert_ergg_to_eVatom ::
    "spc \<Rightarrow> pyfloat \<Rightarrow> pyfloat \<Rightarrow> py_error + pyfloat" where
  "fl_Econvert_ergg_to_eVatom c energy atomic_mass =
     fl_div (fl_mul (fl_var energy) (fl_var atomic_mass))
       (fl_div (fl_mul (fl_const (spc_e c)) (fl_const (spc_N_A c))) (fl_const (spc_erg c)))"

definition fl_Econvert_Jg_to_eVatom ::
    "spc \<Rightarrow> pyfloat \<Rightarrow> pyfloat \<Rightarrow> py_error + pyfloat" where
  "fl_Econvert_Jg_to_eVatom c energy atomic_mass =
     fl_div (fl_mul (fl_var energy) (fl_var atomic_mass))
       (fl_mul (fl_const (spc_e c)) (fl_const (spc_N_A c)))"

definition fl_Econvert_eVatom_to_Jg ::
    "spc \<Rightarrow> pyfloat \<Rightarrow> pyfloat \<Rightarrow> py_error + pyfloat" where
  "fl_Econvert_eVatom_to_Jg c energy atomic_mass =
     fl_div (fl_mul (fl_mul (fl_var energy) (fl_const (spc_e c))) (fl_const (spc_N_A c)))
       (fl_var atomic_mass)"

definition fl_Econvert_Ryatom_to_ergg ::
    "spc \<Rightarrow> pyfloat \<Rightarrow> pyfloat \<Rightarrow> py_error + pyfloat" where
  "fl_Econvert_Ryatom_to_ergg c energy atomic_mass =
     fl_div
       (fl_mul (fl_mul (fl_var energy) (fl_mul (fl_literal 2.17987) (fl_literal (1 / 10 ^ 11))))
          (fl_const (spc_N_A c)))
       (fl_var atomic_mass)"

definition fl_Econvert_ergg_to_Ryatom ::
    "spc \<Rightarrow> pyfloat \<Rightarrow> pyfloat \<Rightarrow> py_error + pyfloat" where
  "fl_Econvert_ergg_to_Ryatom c energy atomic_mass =
     fl_div (fl_mul (fl_var energy) (fl_var atomic_mass))
       (fl_mul (fl_mul (fl_literal 2.17987) (fl_literal (1 / 10 ^ 11))) (fl_const (spc_N_A c)))"

definition fl_Econvert_Ryatom_to_eVatom :: "pyfloat \<Rightarrow> py_error + pyfloat" where
  "fl_Econvert_Ryatom_to_eVatom energy = fl_mul (fl_var energy) (fl_literal 13.6056)"

definition fl_Econvert_eVatom_to_Ryatom :: "pyfloat \<Rightarrow> py_error + pyfloat" where
  "fl_Econvert_eVatom_to_Ryatom energy = fl_div (fl_var energy) (fl_literal 13.6056)"

fun fl_forward :: "conversion \<Rightarrow> spc \<Rightarrow> pyfloat \<Rightarrow> pyfloat \<Rightarrow> py_error + pyfloat" where
  "fl_forward JmolK_kBatom c x m = fl_Sconvert_JmolK_to_kBatom c x"
| "fl_forward erggK_kBatom c x m = fl_Sconvert_erggK_to_kBatom c x m"
| "fl_forward JgK_kBatom c x m = fl_Sconvert_JgK_to_kBatom c x m"
| "fl_forward MbarccgK_kBatom c x m = fl_Sconvert_MbarccgK_to_kBatom c x m"
| "fl_forward JmolK_JgK c x m = fl_Sconvert_JmolK_to_JgK x m"
| "fl_forward JgK_erggK c x m = fl_Sconvert_JgK_to_erggK c x"
| "fl_forward MbarccgK_JgK c x m = fl_Sconvert_MbarccgK_to_JgK x"
| "fl_forward kJmol_meVatom c x m = fl_Econvert_kJmol_to_meVatom c x"
| "fl_forward eVatom_ergg c x m = fl_Econvert_eVatom_to_ergg c x m"
| "fl_forward Jg_eVatom c x m = fl_Econvert_Jg_to_eVatom c x m"
| "fl_forward Ryatom_ergg c x m = fl_Econvert_Ryatom_to_ergg c x m"
| "fl_forward Ryatom_eVatom c x m = fl_Econvert_Ryatom_to_eVatom x"

fun fl_reverse :: "conversion \<Rightarrow> spc \<Rightarrow> pyfloat \<Rightarrow> pyfloat \<Rightarrow> py_error + pyfloat" where
  "fl_reverse JmolK_kBatom c x m = fl_Sconvert_kBatom_to_JmolK c x"
| "fl_reverse erggK_kBatom c x m = fl_Sconvert_kBatom_to_erggK c x m"
| "fl_reverse JgK_kBatom c x m = fl_Sconvert_kBatom_to_JgK c x m"
| "fl_reverse MbarccgK_kBatom c x m = fl_Sconvert_kBatom_to_MbarccgK c x m"
| "fl_reverse JmolK_JgK c x m = fl_Sconvert_JgK_to_JmolK x m"
| "fl_reverse JgK_erggK c x m = fl_Sconvert_erggK_to_JgK c x"
| "fl_reverse MbarccgK_JgK c x m = fl_Sconvert_JgK_to_MbarccgK x"
| "fl_reverse kJmol_meVatom c x m = fl_Econvert_meVatom_to_kJmol c x"
| "fl_reverse eVatom_ergg c x m = fl_Econvert_ergg_to_eVatom c x m"
| "fl_reverse Jg_eVatom c x m = fl_Econvert_eVatom_to_Jg c x m"
| "fl_reverse Ryatom_ergg c x m = fl_Econvert_ergg_to_Ryatom c x m"
| "fl_reverse Ryatom_eVatom c x m = fl_Econvert_eVatom_to_Ryatom x"

text \<open>
  The bookkeeping of a rounding error analysis. \<open>unit_roundoff\<close> bounds the relative
  error of one rounding. \<open>computes r X n e\<close> says that the computation \<open>r\<close> returns a
  finite float that is within \<open>n\<close> roundings of the real number \<open>X\<close>, whose magnitude
  lies between \<open>2^-e\<close> and \<open>2^e\<close>.
\<close>

definition unit_roundoff :: real where
  "unit_roundoff = 1 / 2 ^ 53"

definition computes :: "py_error + pyfloat \<Rightarrow> real \<Rightarrow> nat \<Rightarrow> nat \<Rightarrow> bool" where
  "computes r X n e \<longleftrightarrow>
     (\<exists>v. r = Inr (Finite v)
        \<and> X * (1 - unit_roundoff) ^ n \<le> v \<and> v * (1 - unit_roundoff) ^ n \<le> X)
     \<and> 1 / 2 ^ e \<le> X \<and> X \<le> 2 ^ e"

text \<open>
  Constants of a magnitude between \<open>2^-80\<close> and \<open>2^80\<close>, which is where the values of
  \<open>scipy.constants\<close> lie.
\<close>

definition spc_in_range :: "spc \<Rightarrow> bool" where
  "spc_in_range c \<longleftrightarrow>
     1 / 2 ^ 80 \<le> spc_k c \<and> spc_k c \<le> 2 ^ 80
     \<and> 1 / 2 ^ 80 \<le> spc_N_A c \<and> spc_N_A c \<le> 2 ^ 80
     \<and> 1 / 2 ^ 80 \<le> spc_e c \<and> spc_e c \<le> 2 ^ 80
     \<and> 1 / 2 ^ 80 \<le> spc_erg c \<and> spc_erg c \<le> 2 ^ 80"

section \<open>The atomic mass list of scripts.py\<close>

text \<open>
  The loop of \<open>update_atomic_mass\<close> over the lines of \<open>howerton_atomic_masses.txt\<close>:
  the first token is the atomic number, the third the mass, which replaces the entry at
  \<open>atomic_number - 1\<close>.
\<close>

fun apply_overrides :: "py_lib \<Rightarrow> string list \<Rightarrow> real list \<Rightarrow> py_error + real list" where
  "apply_overrides L [] atomic_mass_list = Inr atomic_mass_list"
| "apply_overrides L (line # rest) atomic_mass_list =
     (let atomic_contents = split_on SPACE line in
      py_bind (py_index atomic_contents 0) (\<lambda>t0.
      py_bind (case py_int L t0 of None \<Rightarrow> Inl ValueError | Some n \<Rightarrow> Inr n) (\<lambda>atomic_number.
      py_bind (py_index atomic_contents 2) (\<lambda>t2.
      py_bind (case py_float L t2 of None \<Rightarrow> Inl ValueError | Some v \<Rightarrow> Inr v) (\<lambda>atomic_mass.
      py_bind (py_setitem atomic_mass_list (atomic_number - 1) atomic_mass)
        (\<lambda>updated. apply_overrides L rest updated))))))"

text \<open>The first loop of \<open>update_atomic_mass\<close>: the atomic weights of elements 1 to 118.\<close>

definition default_atomic_masses :: "py_lib \<Rightarrow> py_error + real list" where
  "default_atomic_masses L =
     collect (\<lambda>i. case md_element L (Inl (int i + 1)) of
                     None \<Rightarrow> Inl NoResultFound
                   | Some el \<Rightarrow> Inr (atomic_weight el)) [0..<118]"

text \<open>The text that the last loop of \<open>update_atomic_mass\<close> writes.\<close>

definition atomic_masses_text :: "py_lib \<Rightarrow> real list \<Rightarrow> string" where
  "atomic_masses_text L atomic_mass_list =
     concat (map (\<lambda>i. str_int (int i + 1) @ '': '' @ str_float L (atomic_mass_list ! i) @ [NL])
       [0..<118])"

text \<open>
  The list \<open>atomic_mass_list\<close> that \<open>update_atomic_mass\<close> holds when both loops are
  done: the default weights with the overrides of \<open>howerton_atomic_masses.txt\<close>.
\<close>

definition overridden_atomic_masses :: "py_lib \<Rightarrow> files \<Rightarrow> py_error + real list" where
  "overridden_atomic_masses L fs =
     py_bind (default_atomic_masses L) (\<lambda>atomic_mass_list.
       case fs ''howerton_atomic_masses.txt'' of
         None \<Rightarrow> Inl (SystemExit (- 1))
       | Some text \<Rightarrow> apply_overrides L (py_lines text) atomic_mass_list)"

definition update_atomic_mass :: "py_lib \<Rightarrow> files \<Rightarrow> py_error + files" where
  "update_atomic_mass L fs =
     py_bind (overridden_atomic_masses L fs) (\<lambda>atomic_mass_list.
       Inr (fs(''atomic_masses_list.txt'' \<mapsto> atomic_masses_text L atomic_mass_list)))"

definition create_atomic_mass_list :: "py_lib \<Rightarrow> files \<Rightarrow> py_error + real list" where
  "create_atomic_mass_list L fs =
     (case fs ''atomic_masses_list.txt'' of
        None \<Rightarrow> Inl (SystemExit (- 1))
      | Some text \<Rightarrow>
          collect (\<lambda>line.
              py_bind (py_index (split_on SPACE line) 1) (\<lambda>t.
                case py_float L t of None \<Rightarrow> Inl ValueError | Some v \<Rightarrow> Inr v))
            (py_lines text))"

text \<open>
  The line of the override file carries the atomic number \<open>n\<close> and the mass \<open>m\<close>:
  what the loop of \<open>update_atomic_mass\<close> reads from it.
\<close>

definition override_line :: "py_lib \<Rightarrow> string \<Rightarrow> int \<Rightarrow> real \<Rightarrow> bool" where
  "override_line L line n m \<longleftrightarrow>
     py_int L (hd (split_on SPACE line)) = Some n
     \<and> 2 < length (split_on SPACE line)
     \<and> py_float L (split_on SPACE line ! 2) = Some m"

text \<open>
  The property of Python's floats that reading the list back relies on: \<open>float\<close> of the
  printed number, with the newline that ends the line, is the number, and the printed
  number holds neither a space nor a newline.
\<close>

definition float_roundtrip :: "py_lib \<Rightarrow> real \<Rightarrow> bool" where
  "float_roundtrip L x \<longleftrightarrow>
     py_float L (str_float L x @ [NL]) = Some x
     \<and> SPACE \<notin> set (str_float L x) \<and> NL \<notin> set (str_float L x)"

section \<open>The atomic mass list of NIST_Conversion.py\<close>

text \<open>
  The same loops; the lines written carry the symbol and the name of the element as well,
  and the mass is the fifth token of a line. The symbol, the name and the printed mass are
  taken to hold no per cent sign, which the \<open>%\<close> operator would interpret.
\<close>

definition NIST_atomic_masses_line :: "py_lib \<Rightarrow> real list \<Rightarrow> nat \<Rightarrow> py_error + string" where
  "NIST_atomic_masses_line L atomic_mass_list i =
     (case md_element L (Inl (int i + 1)) of
        None \<Rightarrow> Inl NoResultFound
      | Some el \<Rightarrow>
          Inr (str_int (int i + 1) @ '' '' @ symbol el @ '' '' @ name el @ '' : ''
                 @ str_float L (atomic_mass_list ! i) @ [NL]))"

definition NIST_update_atomic_mass :: "py_lib \<Rightarrow> files \<Rightarrow> py_error + files" where
  "NIST_update_atomic_mass L fs =
     py_bind (overridden_atomic_masses L fs) (\<lambda>atomic_mass_list.
     py_bind (collect (NIST_atomic_masses_line L atomic_mass_list) [0..<118]) (\<lambda>lines.
       Inr (fs(''atomic_masses_list.txt'' \<mapsto> concat lines))))"

definition NIST_create_atomic_mass_list :: "py_lib \<Rightarrow> files \<Rightarrow> py_error + real list" where
  "NIST_create_atomic_mass_list L fs =
     (case fs ''atomic_masses_list.txt'' of
        None \<Rightarrow> Inl (SystemExit (- 1))
      | Some text \<Rightarrow>
          collect (\<lambda>line.
              py_bind (py_index (split_on SPACE line) 4) (\<lambda>t.
                case py_float L t of None \<Rightarrow> Inl ValueError | Some v \<Rightarrow> Inr v))
            (py_lines text))"

section \<open>The conversion tables of scripts.py\<close>

text \<open>
  Each table function writes two header lines, a label line and one line per element.
  The four values \<open>conversion_1\<close> to \<open>conversion_4\<close> of a row are computed from the
  value 1 and the atomic mass of the element, then formatted.
\<close>

definition entropy_header :: "string list" where
  "entropy_header =
     [''Starting Unit'' @ [TAB, TAB, TAB] @ ''erg/g/K'' @ [TAB, TAB] @ ''Mbar-cc/g/K'' @ [TAB]
        @ ''J/g/K'' @ [TAB, TAB] @ ''J/mol/K'' @ [NL],
      ''Ending Unit'' @ [TAB, TAB, TAB] @ ''kB/atom'' @ [TAB, TAB] @ ''kB/atom'' @ [TAB, TAB]
        @ ''kB/atom'' @ [TAB, TAB] @ ''J/g/K'' @ [NL],
      ''Element'' @ [TAB, TAB] @ ''AMass'' @ [NL]]"

definition entropy_reverse_header :: "string list" where
  "entropy_reverse_header =
     [''Starting Unit'' @ [TAB, TAB, TAB] @ ''kB/atom'' @ [TAB, TAB] @ ''kB/atom'' @ [TAB, TAB]
        @ ''kB/atom'' @ [TAB, TAB] @ ''J/g/K'' @ [NL],
      ''Ending Unit'' @ [TAB, TAB, TAB] @ ''erg/g/K'' @ [TAB, TAB] @ ''Mbar-cc/g/K'' @ [TAB]
        @ ''J/g/K'' @ [TAB, TAB] @ ''J/mol/K'' @ [NL],
      ''Element'' @ [TAB, TAB] @ ''AMass'' @ [NL]]"

definition energy_header :: "string list" where
  "energy_header =
     [''Starting Unit'' @ [TAB, TAB, TAB] @ ''erg/g'' @ [TAB, TAB] @ ''J/g'' @ [TAB, TAB]
        @ ''Ry/atom'' @ [TAB, TAB] @ ''Ry/atom'' @ [NL],
      ''Ending Unit'' @ [TAB, TAB, TAB] @ ''eV/atom'' @ [TAB, TAB] @ ''eV/atom'' @ [TAB, TAB]
        @ ''eV/atom'' @ [TAB, TAB] @ ''erg/g'' @ [NL],
      ''Element'' @ [TAB, TAB] @ ''AMass'' @ [NL]]"

definition energy_reverse_header :: "string list" where
  "energy_reverse_header =
     [''Starting Unit'' @ [TAB, TAB, TAB] @ ''eV/atom'' @ [TAB, TAB] @ ''eV/atom'' @ [TAB, TAB]
        @ ''eV/atom'' @ [TAB, TAB] @ ''erg/g'' @ [NL],
      ''Ending Unit'' @ [TAB, TAB, TAB] @ ''erg/g'' @ [TAB, TAB] @ ''J/g'' @ [TAB, TAB]
        @ ''Ry/atom'' @ [TAB, TAB] @ ''Ry/atom'' @ [NL],
      ''Element'' @ [TAB, TAB] @ ''AMass'' @ [NL]]"

definition entropy_factors :: "spc \<Rightarrow> real \<Rightarrow> py_error + real list" where
  "entropy_factors c m =
     py_bind (Sconvert_erggK_to_kBatom c 1 m) (\<lambda>conversion_1.
     py_bind (Sconvert_JgK_to_kBatom c 1 m) (\<lambda>conversion_2.
     py_bind (Sconvert_MbarccgK_to_kBatom c 1 m) (\<lambda>conversion_3.
     py_bind (Sconvert_JmolK_to_JgK 1 m) (\<lambda>conversion_4.
     Inr [conversion_1, conversion_2, conversion_3, conversion_4]))))"

definition entropy_reverse_factors :: "spc \<Rightarrow> real \<Rightarrow> py_error + real list" where
  "entropy_reverse_factors c m =
     py_bind (Sconvert_kBatom_to_erggK c 1 m) (\<lambda>conversion_1.
     py_bind (Sconvert_kBatom_to_JgK c 1 m) (\<lambda>conversion_2.
     py_bind (Sconvert_kBatom_to_MbarccgK c 1 m) (\<lambda>conversion_3.
     Inr [conversion_1, conversion_2, conversion_3, Sconvert_JgK_to_JmolK 1 m])))"

definition energy_factors :: "spc \<Rightarrow> real \<Rightarrow> py_error + real list" where
  "energy_factors c m =
     py_bind (Econvert_ergg_to_eVatom c 1 m) (\<lambda>conversion_1.
     py_bind (Econvert_Jg_to_eVatom c 1 m) (\<lambda>conversion_2.
     py_bind (Econvert_Ryatom_to_ergg c 1 m) (\<lambda>conversion_4.
     Inr [conversion_1, conversion_2, Econvert_Ryatom_to_eVatom 1, conversion_4])))"

definition energy_reverse_factors :: "spc \<Rightarrow> real \<Rightarrow> py_error + real list" where
  "energy_reverse_factors c m =
     py_bind (Econvert_eVatom_to_ergg c 1 m) (\<lambda>conversion_1.
     py_bind (Econvert_eVatom_to_Jg c 1 m) (\<lambda>conversion_2.
     py_bind (Econvert_ergg_to_Ryatom c 1 m) (\<lambda>conversion_4.
     Inr [conversion_1, conversion_2, Econvert_eVatom_to_Ryatom 1, conversion_4])))"

text \<open>
  A data line: the atomic number, two tabs, the mass with six decimals, and the four
  factors, each after one tab and in the format that the table's format string gives its
  column (\<open>True\<close> for \<open>{:.6E}\<close>, \<open>False\<close> for \<open>{:.6f}\<close>).
\<close>

definition format_factor :: "py_lib \<Rightarrow> bool \<Rightarrow> real \<Rightarrow> string" where
  "format_factor L sci v = (if sci then format_6E L v else format_6f L v)"

definition table_line :: "py_lib \<Rightarrow> bool list \<Rightarrow> nat \<Rightarrow> real \<Rightarrow> real list \<Rightarrow> string" where
  "table_line L formats i m factors =
     str_int (int i + 1) @ [TAB, TAB] @ format_6f L m
       @ concat (map (\<lambda>(sci, v). TAB # format_factor L sci v) (zip formats factors)) @ [NL]"

definition table_lines ::
    "py_lib \<Rightarrow> bool list \<Rightarrow> (real \<Rightarrow> py_error + real list) \<Rightarrow> real list \<Rightarrow> py_error + string list" where
  "table_lines L formats factors atomic_masses =
     collect (\<lambda>i. py_bind (py_index atomic_masses i) (\<lambda>m.
                  py_bind (factors m) (\<lambda>vs. Inr (table_line L formats i m vs)))) [0..<118]"

definition write_table ::
    "py_lib \<Rightarrow> files \<Rightarrow> py_error + real list \<Rightarrow> string \<Rightarrow> string list \<Rightarrow> bool list
       \<Rightarrow> (real \<Rightarrow> py_error + real list) \<Rightarrow> py_error + files" where
  "write_table L fs mass_list out_file_name header formats factors =
     py_bind mass_list (\<lambda>atomic_masses.
     py_bind (table_lines L formats factors atomic_masses) (\<lambda>lines.
     Inr (fs(out_file_name \<mapsto> concat (header @ lines)))))"

definition create_conversion_table_entropy :: "py_lib \<Rightarrow> spc \<Rightarrow> files \<Rightarrow> py_error + files" where
  "create_conversion_table_entropy L c fs =
     write_table L fs (create_atomic_mass_list L fs) ''entropy_conversion_table.txt''
       entropy_header
       [True, False, True, False] (entropy_factors c)"

definition create_conversion_table_entropy_reverse ::
    "py_lib \<Rightarrow> spc \<Rightarrow> files \<Rightarrow> py_error + files" where
  "create_conversion_table_entropy_reverse L c fs =
     write_table L fs (create_atomic_mass_list L fs) ''entropy_conversion_table_reverse.txt''
       entropy_reverse_header
       [True, False, True, False] (entropy_reverse_factors c)"

definition create_conversion_table_energy :: "py_lib \<Rightarrow> spc \<Rightarrow> files \<Rightarrow> py_error + files" where
  "create_conversion_table_energy L c fs =
     write_table L fs (create_atomic_mass_list L fs) ''energy_conversion_table.txt''
       energy_header
       [True, True, False, True] (energy_factors c)"

definition create_conversion_table_energy_reverse ::
    "py_lib \<Rightarrow> spc \<Rightarrow> files \<Rightarrow> py_error + files" where
  "create_conversion_table_energy_reverse L c fs =
     write_table L fs (create_atomic_mass_list L fs) ''energy_conversion_table_reverse.txt''
       energy_reverse_header
       [True, False, False, True] (energy_reverse_factors c)"

text \<open>
  The unit names of a header line, as the lookup splits the line: the items after the
  label, the newline of the last one removed.
\<close>

definition header_units :: "string \<Rightarrow> string list" where
  "header_units line = map rstrip_newline (tl (filter_None (split_on TAB line)))"

text \<open>The starting unit and the ending unit that a header gives for data column \<open>j\<close>.\<close>

definition column_units :: "string list \<Rightarrow> nat \<Rightarrow> string \<times> string" where
  "column_units header j = (header_units (header ! 0) ! j, header_units (header ! 1) ! j)"

text \<open>
  The conversion function for a pair of unit names, after the list of supported
  conversions in the module docstring and the names of the functions.
\<close>

definition conversion_for ::
    "string \<times> string \<Rightarrow> (spc \<Rightarrow> real \<Rightarrow> real \<Rightarrow> py_error + real) option" where
  "conversion_for =
     map_of
       [((''J/mol/K'', ''kB/atom''), forward JmolK_kBatom),
        ((''kB/atom'', ''J/mol/K''), reverse JmolK_kBatom),
        ((''erg/g/K'', ''kB/atom''), forward erggK_kBatom),
        ((''kB/atom'', ''erg/g/K''), reverse erggK_kBatom),
        ((''J/g/K'', ''kB/atom''), forward JgK_kBatom),
        ((''kB/atom'', ''J/g/K''), reverse JgK_kBatom),
        ((''Mbar-cc/g/K'', ''kB/atom''), forward MbarccgK_kBatom),
        ((''kB/atom'', ''Mbar-cc/g/K''), reverse MbarccgK_kBatom),
        ((''J/mol/K'', ''J/g/K''), forward JmolK_JgK),
        ((''J/g/K'', ''J/mol/K''), reverse JmolK_JgK),
        ((''J/g/K'', ''erg/g/K''), forward JgK_erggK),
        ((''erg/g/K'', ''J/g/K''), reverse JgK_erggK),
        ((''Mbar-cc/g/K'', ''J/g/K''), forward MbarccgK_JgK),
        ((''J/g/K'', ''Mbar-cc/g/K''), reverse MbarccgK_JgK),
        ((''kJ/mol'', ''meV/atom''), forward kJmol_meVatom),
        ((''meV/atom'', ''kJ/mol''), reverse kJmol_meVatom),
        ((''eV/atom'', ''erg/g''), forward eVatom_ergg),
        ((''erg/g'', ''eV/atom''), reverse eVatom_ergg),
        ((''J/g'', ''eV/atom''), forward Jg_eVatom),
        ((''eV/atom'', ''J/g''), reverse Jg_eVatom),
        ((''Ry/atom'', ''erg/g''), forward Ryatom_ergg),
        ((''erg/g'', ''Ry/atom''), reverse Ryatom_ergg),
        ((''Ry/atom'', ''eV/atom''), forward Ryatom_eVatom),
        ((''eV/atom'', ''Ry/atom''), reverse Ryatom_eVatom)]"

text \<open>
  What the lookup needs of the two number formats: a formatted number is not empty and
  holds neither a tab nor a newline.
\<close>

definition clean_token :: "string \<Rightarrow> bool" where
  "clean_token s \<longleftrightarrow> s \<noteq> [] \<and> TAB \<notin> set s \<and> NL \<notin> set s"

definition clean_formats :: "py_lib \<Rightarrow> bool" where
  "clean_formats L \<longleftrightarrow> (\<forall>x. clean_token (format_6f L x) \<and> clean_token (format_6E L x))"

section \<open>The table lookup of scripts.py\<close>

text \<open>
  \<open>common_member\<close> intersects two sets of column positions. The loop that follows it
  keeps the last member that the iteration over the set yields. CPython iterates a set of
  natural numbers below 8 in ascending order, and so does the model; the header of a
  table that the scripts write has five items, so its positions are below 8. For larger
  positions the order of CPython follows its hash table and is not modelled.
\<close>

definition common_member :: "nat list \<Rightarrow> nat list \<Rightarrow> nat list" where
  "common_member a b = sort (remdups (filter (\<lambda>i. i \<in> set b) a))"

text \<open>The positions \<open>count\<close> of \<open>enumerate(line_data)\<close> whose item equals the unit.\<close>

definition positions :: "string \<Rightarrow> string list \<Rightarrow> nat list" where
  "positions unit line_data =
     map fst (filter (\<lambda>(count, u). u = unit) (enumerate 0 line_data))"

text \<open>
  The local variables \<open>starting_index\<close>, \<open>ending_index\<close> and \<open>index\<close> of
  \<open>access_factor_from_table\<close>; \<open>index\<close> is unbound (\<open>None\<close>) until a common position
  has been found.
\<close>

type_synonym lookup_vars = "nat list \<times> nat list \<times> nat option"

text \<open>What the loop body does to them for a line with the items \<open>line_data\<close>.\<close>

definition scan_units :: "string \<Rightarrow> string \<Rightarrow> string list \<Rightarrow> lookup_vars \<Rightarrow> lookup_vars" where
  "scan_units starting_unit ending_unit line_data vars =
     (case vars of (starting_index, ending_index, index) \<Rightarrow>
        (let starting_index' =
               (if hd line_data = ''Starting Unit''
                then starting_index @ positions starting_unit line_data else starting_index);
             ending_index' =
               (if hd line_data = ''Ending Unit''
                then ending_index @ positions ending_unit line_data else ending_index);
             unit_index = common_member starting_index' ending_index'
         in (starting_index', ending_index',
             if unit_index = [] then index else Some (last unit_index))))"

text \<open>The expression \<open>line_data[index + 1]\<close>.\<close>

definition read_factor :: "string list \<Rightarrow> nat option \<Rightarrow> py_error + string option" where
  "read_factor line_data index =
     (case index of
        None \<Rightarrow> Inl UnboundLocalError
      | Some i \<Rightarrow> py_bind (py_index line_data (i + 1)) (\<lambda>v. Inr (Some v)))"

text \<open>
  The variables are settled when a line that is no header line leaves them as they are:
  \<open>index\<close> is the last common position, if there is one.
\<close>

definition settled :: "lookup_vars \<Rightarrow> bool" where
  "settled vars \<longleftrightarrow>
     (case vars of (starting_index, ending_index, index) \<Rightarrow>
        common_member starting_index ending_index = []
        \<or> index = Some (last (common_member starting_index ending_index)))"

text \<open>
  The loop over the lines of the table. \<open>key\<close> is \<open>str(element.atomic_number)\<close>. The
  result is the value that the function returns, \<open>None\<close> when the loop ends without a
  matching line.
\<close>

fun access_loop ::
    "string \<Rightarrow> string \<Rightarrow> string \<Rightarrow> string list \<Rightarrow> lookup_vars \<Rightarrow> py_error + string option" where
  "access_loop key starting_unit ending_unit [] vars = Inr None"
| "access_loop key starting_unit ending_unit (line # rest) vars =
     (let line_data = filter_None (split_on TAB line) in
      if line_data = [] then Inl IndexError
      else (let vars' = scan_units starting_unit ending_unit line_data vars in
            if hd line_data = key then read_factor line_data (snd (snd vars'))
            else access_loop key starting_unit ending_unit rest vars'))"

definition access_factor_from_table ::
    "files \<Rightarrow> string \<Rightarrow> element \<Rightarrow> string \<Rightarrow> string \<Rightarrow> py_error + string option" where
  "access_factor_from_table fs table el starting_unit ending_unit =
     (case fs (table @ ''.txt'') of
        None \<Rightarrow> Inl (SystemExit (- 1))
      | Some text \<Rightarrow>
          access_loop (str_int (atomic_number el)) starting_unit ending_unit (py_lines text)
            ([], [], None))"

text \<open>
  What a call of \<open>get_factor_from_table\<close> did: it called \<open>access_factor_from_table\<close>,
  which returned the given value (and printed it when it is a factor), or it printed
  ``Invalid input for element, starting unit, or ending unit!''.
\<close>

datatype lookup_result = Looked_up "string option" | Invalid_input

text \<open>
  The condition \<open>choice_parameters == "Ry/atom"\<close> compares the list of tokens with a
  string; in Python a list never equals a string.
\<close>

definition list_equals_str :: "string list \<Rightarrow> string \<Rightarrow> bool" where
  "list_equals_str xs s = False"

text \<open>
  \<open>get_factor_from_table\<close>, with the line typed at the prompt as the argument
  \<open>choice\<close>.
\<close>

definition get_factor_from_table :: "py_lib \<Rightarrow> files \<Rightarrow> string \<Rightarrow> py_error + lookup_result" where
  "get_factor_from_table L fs choice =
     (let choice_parameters = split_on SPACE choice;
          access = (\<lambda>table el.
            py_bind (py_index choice_parameters 1) (\<lambda>p1.
            py_bind (py_index choice_parameters 2) (\<lambda>p2.
            py_bind (access_factor_from_table fs table el p1 p2) (\<lambda>r. Inr (Looked_up r)))))
      in
      py_bind (py_index choice_parameters 0) (\<lambda>p0.
      py_bind (case md_element L (case py_int L p0 of Some n \<Rightarrow> Inl n | None \<Rightarrow> Inr p0) of
                 None \<Rightarrow> Inl NoResultFound | Some el \<Rightarrow> Inr el) (\<lambda>el.
      py_bind (py_index choice_parameters 1) (\<lambda>p1.
        if p1 = ''erg/g/K'' \<or> p1 = ''Mbar-cc/g/K'' \<or> p1 = ''J/mol/K'' then
          access ''entropy_conversion_table'' el
        else if p1 = ''J/g/K'' then
          py_bind (py_index choice_parameters 2) (\<lambda>p2.
            if p2 = ''kB/atom'' then access ''entropy_conversion_table'' el
            else access ''entropy_conversion_table_reverse'' el)
        else if p1 = ''kB/atom'' then
          access ''entropy_conversion_table_reverse'' el
        else if p1 = ''J/g'' \<or> list_equals_str choice_parameters ''Ry/atom'' then
          access ''energy_conversion_table'' el
        else if p1 = ''erg/g'' then
          py_bind (py_index choice_parameters 2) (\<lambda>p2.
            if p2 = ''eV/atom'' then access ''energy_conversion_table'' el
            else access ''energy_conversion_table_reverse'' el)
        else if p1 = ''eV/atom'' then
          access ''energy_conversion_table_reverse'' el
        else Inr Invalid_input))))"

section \<open>The table lookup of NIST_Conversion.py\<close>

text \<open>
  This copy strips the newline from the last item of every line before it compares the
  items. For the line of the element it reads the name of the element from
  \<open>atomic_masses_list.txt\<close> and prints it with the factor. The model ends there, with the
  printed factor as the result; the prompt that follows is not modelled.
\<close>

definition strip_last :: "string list \<Rightarrow> py_error + string list" where
  "strip_last line_data =
     (if line_data = [] then Inl IndexError
      else Inr (butlast line_data @ [rstrip_newline (last line_data)]))"

fun NIST_element_name :: "string \<Rightarrow> string list \<Rightarrow> string option \<Rightarrow> py_error + string option" where
  "NIST_element_name key [] element_name = Inr element_name"
| "NIST_element_name key (line # rest) element_name =
     (if key = hd (split_on SPACE line) then
        py_bind (py_index (split_on SPACE line) 2)
          (\<lambda>d2. NIST_element_name key rest (Some d2))
      else NIST_element_name key rest element_name)"

definition NIST_print_factor ::
    "files \<Rightarrow> string \<Rightarrow> string list \<Rightarrow> nat option \<Rightarrow> py_error + string option" where
  "NIST_print_factor fs key line_data index =
     (case fs ''atomic_masses_list.txt'' of
        None \<Rightarrow> Inl (SystemExit (- 1))
      | Some text \<Rightarrow>
          py_bind (NIST_element_name key (py_lines text) None) (\<lambda>element_name.
            if element_name = None then Inl UnboundLocalError
            else read_factor line_data index))"

fun NIST_access_loop ::
    "files \<Rightarrow> string \<Rightarrow> string \<Rightarrow> string \<Rightarrow> string list \<Rightarrow> lookup_vars
       \<Rightarrow> py_error + string option" where
  "NIST_access_loop fs key starting_unit ending_unit [] vars = Inr None"
| "NIST_access_loop fs key starting_unit ending_unit (line # rest) vars =
     (case strip_last (filter_None (split_on TAB line)) of
        Inl err \<Rightarrow> Inl err
      | Inr line_data \<Rightarrow>
          (let vars' = scan_units starting_unit ending_unit line_data vars in
           if hd line_data = key then NIST_print_factor fs key line_data (snd (snd vars'))
           else NIST_access_loop fs key starting_unit ending_unit rest vars'))"

definition NIST_access_factor_from_table ::
    "files \<Rightarrow> string \<Rightarrow> int \<Rightarrow> string \<Rightarrow> string \<Rightarrow> py_error + string option" where
  "NIST_access_factor_from_table fs table el starting_unit ending_unit =
     (case fs (table @ ''.txt'') of
        None \<Rightarrow> Inl (SystemExit (- 1))
      | Some text \<Rightarrow>
          NIST_access_loop fs (str_int el) starting_unit ending_unit (py_lines text)
            ([], [], None))"

text \<open>
  \<open>create_conversion_table_entropy\<close> of this copy has the text of the one in scripts.py
  and reads the masses with the \<open>create_atomic_mass_list\<close> of this copy.
\<close>

definition NIST_create_conversion_table_entropy ::
    "py_lib \<Rightarrow> spc \<Rightarrow> files \<Rightarrow> py_error + files" where
  "NIST_create_conversion_table_entropy L c fs =
     write_table L fs (NIST_create_atomic_mass_list L fs) ''entropy_conversion_table.txt''
       entropy_header [True, False, True, False] (entropy_factors c)"

section \<open>An instance of the library functions\<close>

text \<open>
  Concrete library functions for decimal numerals, used to run the scripts on sample
  inputs: \<open>int\<close> and \<open>float\<close> read an optional minus sign and decimal digits (with a
  fraction for \<open>float\<close>) between optional blanks; a float is printed in positional
  notation with the fewest fractional digits (at least one, at most 17) that give its
  value, \<open>{:.6f}\<close> rounds half to even at the sixth decimal, and \<open>{:.6E}\<close> prints one
  digit, six decimals and an exponent of at least two digits.
\<close>

definition digit_value :: "char \<Rightarrow> nat option" where
  "digit_value ch = map_of (zip ''0123456789'' [0, 1, 2, 3, 4, 5, 6, 7, 8, 9]) ch"

fun read_digits :: "nat \<Rightarrow> string \<Rightarrow> nat option" where
  "read_digits acc [] = Some acc"
| "read_digits acc (ch # s) =
     (case digit_value ch of None \<Rightarrow> None | Some d \<Rightarrow> read_digits (10 * acc + d) s)"

definition read_nat :: "string \<Rightarrow> nat option" where
  "read_nat s = (if s = [] then None else read_digits 0 s)"

definition is_blank :: "char \<Rightarrow> bool" where
  "is_blank ch \<longleftrightarrow> ch = SPACE \<or> ch = TAB \<or> ch = NL"

definition strip :: "string \<Rightarrow> string" where
  "strip s = rev (dropWhile is_blank (rev (dropWhile is_blank s)))"

definition read_int :: "string \<Rightarrow> int option" where
  "read_int s =
     (case strip s of
        [] \<Rightarrow> None
      | ch # r \<Rightarrow>
          if ch = CHR ''-'' then map_option (\<lambda>n. - int n) (read_nat r)
          else map_option int (read_nat (ch # r)))"

definition read_unsigned :: "string \<Rightarrow> real option" where
  "read_unsigned s =
     (case split_on (CHR ''.'') s of
        [a] \<Rightarrow> map_option real (read_nat a)
      | [a, b] \<Rightarrow>
          (case (read_nat a, read_nat b) of
             (Some x, Some y) \<Rightarrow> Some (real x + real y / 10 ^ length b)
           | _ \<Rightarrow> None)
      | _ \<Rightarrow> None)"

definition read_float :: "string \<Rightarrow> real option" where
  "read_float s =
     (case strip s of
        [] \<Rightarrow> None
      | ch # r \<Rightarrow>
          if ch = CHR ''-'' then map_option uminus (read_unsigned r)
          else read_unsigned (ch # r))"

definition round_half_even :: "real \<Rightarrow> nat" where
  "round_half_even x =
     (let f = nat \<lfloor>x\<rfloor>; r = x - real f
      in if r < 1 / 2 then f else if 1 / 2 < r then f + 1 else if even f then f else f + 1)"

text \<open>The last \<open>d\<close> decimal digits of \<open>n\<close>.\<close>

fun pad_digits :: "nat \<Rightarrow> nat \<Rightarrow> string" where
  "pad_digits 0 n = []"
| "pad_digits (Suc d) n = pad_digits d (n div 10) @ [digit_char (n mod 10)]"

definition sign_of :: "real \<Rightarrow> string" where
  "sign_of x = (if x < 0 then ''-'' else [])"

definition fixed :: "nat \<Rightarrow> real \<Rightarrow> string" where
  "fixed d x =
     (let n = round_half_even (\<bar>x\<bar> * 10 ^ d)
      in sign_of x @ str_nat (n div 10 ^ d) @ ''.'' @ pad_digits d (n mod 10 ^ d))"

fun find_scale :: "nat \<Rightarrow> nat \<Rightarrow> real \<Rightarrow> nat" where
  "find_scale 0 d x = d"
| "find_scale (Suc fuel) d x =
     (if real_of_int \<lfloor>x * 10 ^ d\<rfloor> = x * 10 ^ d then d else find_scale fuel (Suc d) x)"

definition print_float :: "real \<Rightarrow> string" where
  "print_float x = fixed (find_scale 16 1 \<bar>x\<bar>) x"

fun normalise :: "nat \<Rightarrow> real \<Rightarrow> int \<Rightarrow> real \<times> int" where
  "normalise 0 x e = (x, e)"
| "normalise (Suc fuel) x e =
     (if 10 \<le> x then normalise fuel (x / 10) (e + 1)
      else if x < 1 then normalise fuel (x * 10) (e - 1)
      else (x, e))"

definition scientific :: "real \<Rightarrow> string" where
  "scientific x =
     (let (mant, e) = (if x = 0 then (0, 0) else normalise 400 \<bar>x\<bar> 0);
          n = round_half_even (mant * 10 ^ 6);
          (n, e) = (if 10 ^ 7 \<le> n then (n div 10, e + 1) else (n, e))
      in sign_of x @ str_nat (n div 10 ^ 6) @ ''.'' @ pad_digits 6 (n mod 10 ^ 6) @ ''E''
           @ (if e < 0 then ''-'' else ''+'')
           @ (if \<bar>e\<bar> < 10 then ''0'' else []) @ str_nat (nat \<bar>e\<bar>))"

text \<open>
  A stand-in for the periodic table of \<open>mendeleev\<close>: hydrogen and carbon by number,
  symbol or name, every other element by number only, with its atomic number as weight.
\<close>

definition sample_element :: "int + string \<Rightarrow> element option" where
  "sample_element key =
     (let H = \<lparr>atomic_number = 1, symbol = ''H'', name = ''Hydrogen'', atomic_weight = 1.008\<rparr>;
          C = \<lparr>atomic_number = 6, symbol = ''C'', name = ''Carbon'', atomic_weight = 12.011\<rparr>
      in case key of
           Inl n \<Rightarrow>
             if n = 1 then Some H else if n = 6 then Some C
             else if 1 \<le> n \<and> n \<le> 118 then
               Some \<lparr>atomic_number = n, symbol = ''E'' @ str_int n,
                     name = ''Element'' @ str_int n, atomic_weight = of_int n\<rparr>
             else None
         | Inr s \<Rightarrow>
             if s = ''H'' \<or> s = ''Hydrogen'' then Some H
             else if s = ''C'' \<or> s = ''Carbon'' then Some C
             else None)"

definition sample_lib :: py_lib where
  "sample_lib =
     \<lparr> py_int = read_int, py_float = read_float, str_float = print_float,
       format_6f = fixed 6, format_6E = scientific, md_element = sample_element \<rparr>"

text \<open>
  A sample override file and the file system that holds it. The third line carries the
  atomic number 0.
\<close>

definition sample_overrides :: string where
  "sample_overrides =
     ''6 C 12.011'' @ [NL] @ ''118 Og 294.0'' @ [NL] @ ''0 X 1.5'' @ [NL]"

definition sample_files :: files where
  "sample_files = (\<lambda>file. None)(''howerton_atomic_masses.txt'' \<mapsto> sample_overrides)"

definition sample_defaults :: "real list" where
  "sample_defaults =
     map (\<lambda>i. if i = 0 then 1.008 else if i = 5 then 12.011 else real (i + 1)) [0..<118]"

definition sample_masses :: "real list" where
  "sample_masses = sample_defaults[5 := 12.011, 117 := 294, 117 := 1.5]"

text \<open>The sample file system after \<open>update_atomic_mass\<close>.\<close>

definition sample_mass_files :: files where
  "sample_mass_files =
     sample_files(''atomic_masses_list.txt'' \<mapsto> atomic_masses_text sample_lib sample_masses)"

text \<open>
  A second override file, whose first line gives carbon a mass that differs from its
  default weight, and the list that the overrides leave.
\<close>

definition carbon_overrides :: string where
  "carbon_overrides = ''6 C 13.5'' @ [NL] @ ''7 N 2.5'' @ [NL]"

definition carbon_files :: files where
  "carbon_files = (\<lambda>file. None)(''howerton_atomic_masses.txt'' \<mapsto> carbon_overrides)"

definition carbon_masses :: "real list" where
  "carbon_masses = sample_defaults[5 := 13.5, 6 := 2.5]"

section \<open>The formula table of the specification\<close>

text \<open>
  The closed forms as the specification's table writes them, with \<open>S\<close> the value,
  \<open>m\<close> the atomic mass, \<open>Ry = 2.17987 * 10^-11\<close> and \<open>eV_per_Ry = 13.6056\<close>. This is
  the reference that the functions of the source are compared with.
\<close>

fun spec_formula :: "conversion \<Rightarrow> spc \<Rightarrow> real \<Rightarrow> real \<Rightarrow> real" where
  "spec_formula JmolK_kBatom c S m = S / (spc_k c * spc_N_A c)"
| "spec_formula erggK_kBatom c S m = S * m / (spc_k c / spc_erg c * spc_N_A c)"
| "spec_formula JgK_kBatom c S m = S * m / (spc_k c * spc_N_A c)"
| "spec_formula MbarccgK_kBatom c S m = S * m * 10 ^ 5 / (spc_k c * spc_N_A c)"
| "spec_formula JmolK_JgK c S m = S / m"
| "spec_formula JgK_erggK c S m = S / spc_erg c"
| "spec_formula MbarccgK_JgK c S m = S * 10 ^ 5"
| "spec_formula kJmol_meVatom c S m = 1000 * S / (spc_e c * spc_N_A c / 1000)"
| "spec_formula eVatom_ergg c S m = S * (spc_e c * spc_N_A c / spc_erg c) / m"
| "spec_formula Jg_eVatom c S m = S * m / (spc_e c * spc_N_A c)"
| "spec_formula Ryatom_ergg c S m = S * (2.17987 / 10 ^ 11) * spc_N_A c / m"
| "spec_formula Ryatom_eVatom c S m = S * 13.6056"

text \<open>The pairs whose forward formula divides by the atomic mass.\<close>

fun divides_by_mass :: "conversion \<Rightarrow> bool" where
  "divides_by_mass JmolK_JgK = True"
| "divides_by_mass eVatom_ergg = True"
| "divides_by_mass Ryatom_ergg = True"
| "divides_by_mass p = False"

section \<open>Properties of the conversion functions\<close>

lemmas scripts_conversion_defs =
  Sconvert_JmolK_to_kBatom_def Sconvert_kBatom_to_JmolK_def Sconvert_erggK_to_kBatom_def
  Sconvert_kBatom_to_erggK_def Sconvert_JgK_to_kBatom_def Sconvert_kBatom_to_JgK_def
  Sconvert_MbarccgK_to_kBatom_def Sconvert_kBatom_to_MbarccgK_def Sconvert_JmolK_to_JgK_def
  Sconvert_JgK_to_JmolK_def Sconvert_JgK_to_erggK_def Sconvert_erggK_to_JgK_def
  Sconvert_MbarccgK_to_JgK_def Sconvert_JgK_to_MbarccgK_def Econvert_kJmol_to_meVatom_def
  Econvert_meVatom_to_kJmol_def Econvert_eVatom_to_ergg_def Econvert_ergg_to_eVatom_def
  Econvert_Jg_to_eVatom_def Econvert_eVatom_to_Jg_def Econvert_Ryatom_to_ergg_def
  Econvert_ergg_to_Ryatom_def Econvert_Ryatom_to_eVatom_def Econvert_eVatom_to_Ryatom_def

lemmas NIST_conversion_defs =
  NIST_Sconvert_JmolK_to_kBatom_def NIST_Sconvert_kBatom_to_JmolK_def
  NIST_Sconvert_erggK_to_kBatom_def NIST_Sconvert_kBatom_to_erggK_def
  NIST_Sconvert_JgK_to_kBatom_def NIST_Sconvert_kBatom_to_JgK_def
  NIST_Sconvert_MbarccgK_to_kBatom_def NIST_Sconvert_kBatom_to_MbarccgK_def
  NIST_Sconvert_JmolK_to_JgK_def NIST_Sconvert_JgK_to_JmolK_def
  NIST_Sconvert_JgK_to_erggK_def NIST_Sconvert_erggK_to_JgK_def
  NIST_Sconvert_MbarccgK_to_JgK_def NIST_Sconvert_JgK_to_MbarccgK_def
  NIST_Econvert_kJmol_to_meVatom_def NIST_Econvert_meVatom_to_kJmol_def
  NIST_Econvert_eVatom_to_ergg_def NIST_Econvert_ergg_to_eVatom_def
  NIST_Econvert_Jg_to_eVatom_def NIST_Econvert_eVatom_to_Jg_def
  NIST_Econvert_Ryatom_to_ergg_def NIST_Econvert_ergg_to_Ryatom_def
  NIST_Econvert_Ryatom_to_eVatom_def NIST_Econvert_eVatom_to_Ryatom_def

lemma codata2018_positive: "spc_positive codata2018"
  by (simp add: spc_positive_def codata2018_def)

lemma forward_closed_form:
  assumes "spc_positive c"
  shows "forward p c S m =
    (if m = 0 \<and> divides_by_mass p then Inl ZeroDivisionError
     else Inr (spec_formula p c S m))"
  using assms
  by (cases p) (simp_all add: scripts_conversion_defs py_div_def py_bind_def spc_positive_def)

lemma reverse_after_formula:
  assumes "spc_positive c" and "m \<noteq> 0"
  shows "reverse p c (spec_formula p c S m) m = Inr S"
  using assms
  by (cases p) (simp_all add: scripts_conversion_defs py_div_def py_bind_def spc_positive_def)

lemma formula_after_reverse:
  assumes "spc_positive c" and "m \<noteq> 0"
  shows "py_bind (reverse p c S m) (\<lambda>y. Inr (spec_formula p c y m)) = Inr S"
  using assms
  by (cases p) (simp_all add: scripts_conversion_defs py_div_def py_bind_def spc_positive_def)

lemma forward_scales:
  assumes "spc_positive c" and "m \<noteq> 0"
  shows "py_bind (forward p c 1 m) (\<lambda>f. Inr (x * f)) = forward p c x m
    \<and> \<not> isl (forward p c 1 m)"
  using assms
  by (cases p) (simp_all add: scripts_conversion_defs py_div_def py_bind_def spc_positive_def)

lemma reverse_scales:
  assumes "spc_positive c" and "m \<noteq> 0"
  shows "py_bind (reverse p c 1 m) (\<lambda>f. Inr (x * f)) = reverse p c x m
    \<and> \<not> isl (reverse p c 1 m)"
  using assms
  by (cases p) (simp_all add: scripts_conversion_defs py_div_def py_bind_def spc_positive_def)

lemma scales_exists:
  assumes "py_bind r (\<lambda>f. Inr (x * f)) = r' \<and> \<not> isl r"
  shows "\<exists>f. r = Inr f \<and> r' = Inr (x * (f::real))"
  using assms by (cases r) (auto simp add: py_bind_def)

text \<open>
  C3. Every conversion function computes the closed form of the specification's table:
  for positive constants, the forward function of each pair returns the value of the
  table's formula, for every value and every mass; where the formula divides by a mass of
  zero the function raises \<open>ZeroDivisionError\<close>. The reverse function is the inverse of
  that formula, on both sides, for every non-zero mass.
\<close>

theorem conversion_formulas:
  assumes "spc_positive c"
  shows "forward p c S m =
      (if m = 0 \<and> divides_by_mass p then Inl ZeroDivisionError
       else Inr (spec_formula p c S m))
    \<and> (m \<noteq> 0 \<longrightarrow> reverse p c (spec_formula p c S m) m = Inr S)
    \<and> (m \<noteq> 0 \<longrightarrow> py_bind (reverse p c S m) (\<lambda>y. Inr (spec_formula p c y m)) = Inr S)"
  using forward_closed_form [OF assms] reverse_after_formula [OF assms]
    formula_after_reverse [OF assms]
  by blast

theorem conversion_formulas_witness:
  "spc_positive codata2018
   \<and> Econvert_Ryatom_to_ergg codata2018 2 4 = Inr (2 * (2.17987 / 10 ^ 11) * (6.02214076 * 10 ^ 23) / 4)
   \<and> Econvert_ergg_to_Ryatom codata2018
        (2 * (2.17987 / 10 ^ 11) * (6.02214076 * 10 ^ 23) / 4) 4 = Inr 2"
  using conversion_formulas [OF codata2018_positive, of Ryatom_ergg 2 4]
  by (simp add: codata2018_positive) (simp add: codata2018_def)

text \<open>
  C9. Every conversion function is homogeneous in its value argument: for positive
  constants and a positive atomic mass, the function applied to 1 returns a factor
  \<open>f\<close>, and applied to any value \<open>x\<close> it returns \<open>x * f\<close>.
\<close>

theorem conversion_homogeneous:
  assumes "spc_positive c" and "0 < m"
  shows "(\<exists>f. forward p c 1 m = Inr f \<and> forward p c x m = Inr (x * f))
    \<and> (\<exists>f. reverse p c 1 m = Inr f \<and> reverse p c x m = Inr (x * f))"
proof -
  from assms have nz: "m \<noteq> 0" by simp
  show ?thesis
    using scales_exists [OF forward_scales [OF assms(1) nz, of p x]]
      scales_exists [OF reverse_scales [OF assms(1) nz, of p x]]
    by blast
qed

theorem conversion_homogeneous_witness:
  "spc_positive codata2018 \<and> (0::real) < 12.011
   \<and> (\<exists>f. Sconvert_JmolK_to_JgK 1 12.011 = Inr f \<and> Sconvert_JmolK_to_JgK 3 12.011 = Inr (3 * f))
   \<and> (\<exists>f. Sconvert_JgK_to_JmolK 1 12.011 = f \<and> Sconvert_JgK_to_JmolK 3 12.011 = 3 * f)"
  using conversion_homogeneous [OF codata2018_positive, of "12.011" JmolK_JgK 3]
  by (simp add: codata2018_positive)

text \<open>
  C10. The two copies of the conversion functions are equal as functions: each function
  of NIST_Conversion.py returns what the function of the same name in scripts.py returns,
  on all inputs. There are 24 such functions.
\<close>

theorem conversion_copies_equal:
  "NIST_Sconvert_JmolK_to_kBatom = Sconvert_JmolK_to_kBatom
   \<and> NIST_Sconvert_kBatom_to_JmolK = Sconvert_kBatom_to_JmolK
   \<and> NIST_Sconvert_erggK_to_kBatom = Sconvert_erggK_to_kBatom
   \<and> NIST_Sconvert_kBatom_to_erggK = Sconvert_kBatom_to_erggK
   \<and> NIST_Sconvert_JgK_to_kBatom = Sconvert_JgK_to_kBatom
   \<and> NIST_Sconvert_kBatom_to_JgK = Sconvert_kBatom_to_JgK
   \<and> NIST_Sconvert_MbarccgK_to_kBatom = Sconvert_MbarccgK_to_kBatom
   \<and> NIST_Sconvert_kBatom_to_MbarccgK = Sconvert_kBatom_to_MbarccgK
   \<and> NIST_Sconvert_JmolK_to_JgK = Sconvert_JmolK_to_JgK
   \<and> NIST_Sconvert_JgK_to_JmolK = Sconvert_JgK_to_JmolK
   \<and> NIST_Sconvert_JgK_to_erggK = Sconvert_JgK_to_erggK
   \<and> NIST_Sconvert_erggK_to_JgK = Sconvert_erggK_to_JgK
   \<and> NIST_Sconvert_MbarccgK_to_JgK = Sconvert_MbarccgK_to_JgK
   \<and> NIST_Sconvert_JgK_to_MbarccgK = Sconvert_JgK_to_MbarccgK
   \<and> NIST_Econvert_kJmol_to_meVatom = Econvert_kJmol_to_meVatom
   \<and> NIST_Econvert_meVatom_to_kJmol = Econvert_meVatom_to_kJmol
   \<and> NIST_Econvert_eVatom_to_ergg = Econvert_eVatom_to_ergg
   \<and> NIST_Econvert_ergg_to_eVatom = Econvert_ergg_to_eVatom
   \<and> NIST_Econvert_Jg_to_eVatom = Econvert_Jg_to_eVatom
   \<and> NIST_Econvert_eVatom_to_Jg = Econvert_eVatom_to_Jg
   \<and> NIST_Econvert_Ryatom_to_ergg = Econvert_Ryatom_to_ergg
   \<and> NIST_Econvert_ergg_to_Ryatom = Econvert_ergg_to_Ryatom
   \<and> NIST_Econvert_Ryatom_to_eVatom = Econvert_Ryatom_to_eVatom
   \<and> NIST_Econvert_eVatom_to_Ryatom = Econvert_eVatom_to_Ryatom
   \<and> length conversion_function_names = 24"
  by (intro conjI ext)
    (simp_all only: scripts_conversion_defs NIST_conversion_defs,
     simp add: conversion_function_names_def)

theorem conversion_function_count_counterexample:
  "length conversion_function_names \<noteq> 26"
  by (simp add: conversion_function_names_def)

section \<open>Rounding to the nearest double\<close>

text \<open>
  One rounding of a number of normal magnitude moves it by a relative error of at most
  \<open>unit_roundoff\<close>, and the result is finite.
\<close>

lemma range_positive: "1 / 2 ^ e \<le> (x::real) \<Longrightarrow> 0 < x"
proof -
  assume "1 / 2 ^ e \<le> x"
  moreover have "(0::real) < 1 / 2 ^ e" by simp
  ultimately show ?thesis by linarith
qed

lemma above_positive: "0 < (a::real) \<Longrightarrow> 0 < w \<Longrightarrow> a * w \<le> v \<Longrightarrow> 0 < v"
proof -
  assume "0 < a" and "0 < w" and "a * w \<le> v"
  moreover from \<open>0 < a\<close> \<open>0 < w\<close> have "0 < a * w" by simp
  ultimately show ?thesis by linarith
qed

lemma nearest_even_error: "\<bar>of_int (nearest_even x) - x\<bar> \<le> 1 / 2"
proof -
  define r where "r = x - of_int \<lfloor>x\<rfloor>"
  have r: "0 \<le> r" "r < 1" unfolding r_def by linarith+
  have x: "x = of_int \<lfloor>x\<rfloor> + r" unfolding r_def by simp
  have ne: "nearest_even x =
      (if r < 1 / 2 then \<lfloor>x\<rfloor> else if 1 / 2 < r then \<lfloor>x\<rfloor> + 1
       else if even \<lfloor>x\<rfloor> then \<lfloor>x\<rfloor> else \<lfloor>x\<rfloor> + 1)"
    unfolding nearest_even_def Let_def r_def by (rule refl)
  consider "r < 1 / 2" | "1 / 2 < r" | "r = 1 / 2" by linarith
  then show ?thesis
  proof cases
    case 1
    then have "nearest_even x = \<lfloor>x\<rfloor>" unfolding ne by (rule if_P)
    then have "of_int (nearest_even x) - x = - r" unfolding r_def by simp
    with 1 r show ?thesis by simp
  next
    case 2
    then have "\<not> r < 1 / 2" by simp
    with 2 have "nearest_even x = \<lfloor>x\<rfloor> + 1" unfolding ne by simp
    then have "of_int (nearest_even x) - x = 1 - r" unfolding r_def by simp
    with 2 r show ?thesis by simp
  next
    case 3
    then have "nearest_even x = \<lfloor>x\<rfloor> \<or> nearest_even x = \<lfloor>x\<rfloor> + 1"
      unfolding ne by simp
    then have "of_int (nearest_even x) - x = - r \<or> of_int (nearest_even x) - x = 1 - r"
      unfolding r_def by auto
    with 3 show ?thesis by auto
  qed
qed

lemma log2_inverse_power: "log 2 (1 / 2 ^ n) = - real n"
  by (simp add: log_divide log_nat_power)

lemma double_threshold: "(2::real) ^ 1023 < 2 ^ 1024 - 2 ^ 970"
proof -
  have "(2::real) ^ 1024 = 2 * 2 ^ 1023" by simp
  moreover have "(2::real) ^ 970 < 2 ^ 1023" by (rule power_strict_increasing) simp_all
  ultimately show ?thesis by linarith
qed

lemma round_double_normal:
  assumes lo: "1 / 2 ^ 1022 \<le> t" and hi: "t \<le> 2 ^ 1023"
  shows "\<exists>v. round_double t = Finite v
    \<and> (1 - unit_roundoff) * t \<le> v \<and> v \<le> (1 + unit_roundoff) * t"
proof -
  have pos: "0 < t" using lo by (rule range_positive)
  define e where "e = \<lfloor>log 2 t\<rfloor>"
  have "log 2 (1 / 2 ^ 1022) \<le> log 2 t"
    using lo pos by (simp add: log_le_cancel_iff del: log_divide)
  moreover have "log 2 (1 / 2 ^ 1022) = - 1022"
    using log2_inverse_power [of 1022] by simp
  ultimately have "- 1022 \<le> log 2 t" by simp
  then have elo: "- 1022 \<le> e" unfolding e_def by (simp add: le_floor_iff)
  have e1: "of_int e \<le> log 2 t" and e2: "log 2 t < of_int e + 1"
    unfolding e_def by linarith+
  have p1: "2 powr (of_int e) \<le> t"
    using e1 pos by (metis powr_le_cancel_iff less_numeral_extra(4) one_less_numeral_iff
        powr_log_cancel semiring_norm(76) zero_less_numeral)
  define q :: real where "q = 2 powr (of_int e - 52)"
  have "max \<lfloor>log 2 \<bar>t\<bar>\<rfloor> (- 1022) = e"
    using elo pos unfolding e_def by simp
  then have q: "double_quantum t = q"
    unfolding double_quantum_def q_def by simp
  have qpos: "0 < q" by (simp add: q_def)
  have half: "q / 2 = unit_roundoff * 2 powr (of_int e)"
  proof -
    have "(2::real) powr (of_int e - 52) = 2 powr (of_int e) / 2 powr 52"
      by (simp add: powr_diff)
    moreover have "(2::real) powr 52 = 2 ^ 52"
      by (simp add: powr_realpow [symmetric])
    ultimately show ?thesis by (simp add: q_def unit_roundoff_def)
  qed
  define v :: real where "v = of_int (nearest_even (t / q)) * q"
  have "\<bar>v - t\<bar> = \<bar>of_int (nearest_even (t / q)) - t / q\<bar> * q"
  proof -
    have "v - t = (of_int (nearest_even (t / q)) - t / q) * q"
      using qpos by (simp add: v_def field_simps)
    then show ?thesis using qpos by (simp add: abs_mult)
  qed
  also have "\<dots> \<le> 1 / 2 * q"
    using nearest_even_error [of "t / q"] qpos by (simp add: mult_right_mono)
  also have "\<dots> = unit_roundoff * 2 powr (of_int e)" using half by simp
  also have "\<dots> \<le> unit_roundoff * t"
    using p1 by (simp add: unit_roundoff_def)
  finally have err: "\<bar>v - t\<bar> \<le> unit_roundoff * t" .
  have "\<not> 2 ^ 1024 - 2 ^ 970 \<le> \<bar>t\<bar>" using hi double_threshold pos by simp
  then have "round_double t = Finite v"
    using pos by (simp add: round_double_def q v_def)
  moreover from err have "(1 - unit_roundoff) * t \<le> v" "v \<le> (1 + unit_roundoff) * t"
    by (simp_all add: abs_le_iff algebra_simps)
  ultimately show ?thesis by blast
qed

section \<open>Rounding errors of a product and of a quotient\<close>

text \<open>
  The rules of the error analysis: a constant is exact, a decimal literal costs one
  rounding, and a product or a quotient costs the roundings of its operands and one more,
  as long as the magnitudes stay within the normal range of the doubles.
\<close>

lemma unit_roundoff_bounds: "0 < unit_roundoff" "unit_roundoff < 1"
  by (simp_all add: unit_roundoff_def)

lemma w_pos: "0 < 1 - unit_roundoff"
  using unit_roundoff_bounds by simp

lemma w_pow_pos: "0 < (1 - unit_roundoff) ^ n"
  using w_pos by simp

lemma w_round: "(1 + unit_roundoff) * (1 - unit_roundoff) \<le> 1"
proof -
  have "(1 + unit_roundoff) * (1 - unit_roundoff) = 1 - unit_roundoff * unit_roundoff"
    by (simp add: algebra_simps)
  also have "\<dots> \<le> 1" using unit_roundoff_bounds by simp
  finally show ?thesis .
qed

lemma w_pow_half:
  assumes "n \<le> 64"
  shows "1 / 2 \<le> (1 - unit_roundoff) ^ n"
proof -
  have "1 + real n * (- unit_roundoff) \<le> (1 + (- unit_roundoff)) ^ n"
    by (rule Bernoulli_inequality) (use unit_roundoff_bounds in simp)
  moreover have "real n * unit_roundoff \<le> 64 * unit_roundoff"
    using assms unit_roundoff_bounds by simp
  moreover have "64 * unit_roundoff \<le> 1 / 2" by (simp add: unit_roundoff_def)
  ultimately show ?thesis by simp
qed

lemma track_mul:
  fixes a b w va vb :: real
  assumes "0 < a" and "0 < b" and "0 < w"
    and "a * w ^ n \<le> va" and "va * w ^ n \<le> a" and "b * w ^ k \<le> vb" and "vb * w ^ k \<le> b"
  shows "a * b * w ^ (n + k) \<le> va * vb \<and> va * vb * w ^ (n + k) \<le> a * b"
proof -
  have wn: "0 < w ^ n" "0 < w ^ k" using assms(3) by simp_all
  have va: "0 < va" by (rule above_positive [OF assms(1) wn(1) assms(4)])
  have vb: "0 < vb" by (rule above_positive [OF assms(2) wn(2) assms(6)])
  have "(a * w ^ n) * (b * w ^ k) \<le> va * vb"
    by (rule mult_mono) (use assms wn va vb in simp_all)
  moreover have "(va * w ^ n) * (vb * w ^ k) \<le> a * b"
    by (rule mult_mono) (use assms wn va vb in simp_all)
  ultimately show ?thesis by (simp add: power_add mult_ac)
qed

lemma track_div:
  fixes a b w va vb :: real
  assumes "0 < a" and "0 < b" and "0 < w"
    and "a * w ^ n \<le> va" and "va * w ^ n \<le> a" and "b * w ^ k \<le> vb" and "vb * w ^ k \<le> b"
  shows "a / b * w ^ (n + k) \<le> va / vb \<and> va / vb * w ^ (n + k) \<le> a / b \<and> 0 < vb"
proof -
  have wn: "0 < w ^ n" "0 < w ^ k" using assms(3) by simp_all
  have va: "0 < va" by (rule above_positive [OF assms(1) wn(1) assms(4)])
  have vb: "0 < vb" by (rule above_positive [OF assms(2) wn(2) assms(6)])
  have "(a * w ^ n) * (vb * w ^ k) \<le> va * b"
    by (rule mult_mono) (use assms wn va vb in simp_all)
  then have "a * w ^ (n + k) * vb \<le> va * b" by (simp add: power_add mult_ac)
  then have lo: "a / b * w ^ (n + k) \<le> va / vb"
    using assms(2) vb by (simp add: field_simps)
  have "(va * w ^ n) * (b * w ^ k) \<le> a * vb"
    by (rule mult_mono) (use assms wn va vb in simp_all)
  then have "va * w ^ (n + k) * b \<le> a * vb" by (simp add: power_add mult_ac)
  then have hi: "va / vb * w ^ (n + k) \<le> a / b"
    using assms(2) vb by (simp add: field_simps)
  from lo hi vb show ?thesis by simp
qed

lemma track_round:
  assumes "0 < X" and "X * (1 - unit_roundoff) ^ m \<le> t" and "t * (1 - unit_roundoff) ^ m \<le> X"
    and "(1 - unit_roundoff) * t \<le> v" and "v \<le> (1 + unit_roundoff) * t"
  shows "X * (1 - unit_roundoff) ^ Suc m \<le> v \<and> v * (1 - unit_roundoff) ^ Suc m \<le> X"
proof -
  let ?w = "1 - unit_roundoff"
  have wm: "0 < ?w ^ m" by (rule w_pow_pos)
  have t: "0 < t" by (rule above_positive [OF assms(1) wm assms(2)])
  have "X * ?w ^ m * ?w \<le> t * ?w"
    using assms(2) w_pos by (simp add: mult_right_mono)
  with assms(4) have lo: "X * ?w ^ Suc m \<le> v" by (simp add: mult_ac)
  have "v * (?w ^ m * ?w) \<le> (1 + unit_roundoff) * t * (?w ^ m * ?w)"
    using assms(5) wm w_pos by (simp add: mult_right_mono)
  also have "\<dots> = ((1 + unit_roundoff) * ?w) * (t * ?w ^ m)" by (simp add: mult_ac)
  also have "\<dots> \<le> 1 * (t * ?w ^ m)"
    using w_round t wm by (intro mult_right_mono) simp_all
  also have "\<dots> \<le> X" using assms(3) by simp
  finally have "v * ?w ^ Suc m \<le> X" by (simp add: mult_ac)
  with lo show ?thesis by simp
qed

lemma track_range:
  assumes "1 / 2 ^ e \<le> X" and "X \<le> 2 ^ e"
    and "X * (1 - unit_roundoff) ^ m \<le> t" and "t * (1 - unit_roundoff) ^ m \<le> X"
    and "m \<le> 64" and "e \<le> 1000"
  shows "1 / 2 ^ 1022 \<le> t \<and> t \<le> 2 ^ 1023"
proof -
  let ?w = "(1 - unit_roundoff) ^ m"
  have h: "1 / 2 \<le> ?w" by (rule w_pow_half [OF assms(5)])
  have wp: "0 < ?w" by (rule w_pow_pos)
  have X: "0 < X" using assms(1) by (rule range_positive)
  have "X * (1 / 2) \<le> X * ?w" using h X by (simp add: mult_left_mono)
  with assms(3) have lo: "X / 2 \<le> t" by simp
  have t: "0 < t" using lo X by simp
  have "t * (1 / 2) \<le> t * ?w" using h t by (simp add: mult_left_mono)
  with assms(4) have hi: "t \<le> 2 * X" by simp
  have p1: "(2::real) ^ Suc e \<le> 2 ^ 1022" using assms(6) by (intro power_increasing) simp_all
  have p2: "(2::real) ^ Suc e \<le> 2 ^ 1023" using assms(6) by (intro power_increasing) simp_all
  have "1 / (2::real) ^ 1022 \<le> 1 / 2 ^ Suc e"
    using p1 by (intro divide_left_mono) simp_all
  also have "\<dots> = (1 / 2 ^ e) / 2" by simp
  also have "\<dots> \<le> X / 2" using assms(1) by (simp add: divide_right_mono)
  finally have "1 / 2 ^ 1022 \<le> t" using lo by simp
  moreover have "t \<le> 2 ^ 1023"
  proof -
    have "t \<le> 2 * 2 ^ e" using hi assms(2) by simp
    also have "\<dots> = 2 ^ Suc e" by simp
    finally show ?thesis using p2 by simp
  qed
  ultimately show ?thesis by simp
qed

lemma computes_const:
  assumes "1 / 2 ^ e \<le> x" and "x \<le> 2 ^ e"
  shows "computes (fl_const x) x 0 e" and "computes (fl_var (Finite x)) x 0 e"
  using assms by (simp_all add: computes_def fl_const_def fl_var_def)

lemma computes_literal:
  assumes "1 / 2 ^ e \<le> x" and "x \<le> 2 ^ e" and "e \<le> 1000"
  shows "computes (fl_literal x) x 1 e"
proof -
  have X: "0 < x" using assms(1) by (rule range_positive)
  have r: "1 / 2 ^ 1022 \<le> x \<and> x \<le> 2 ^ 1023"
    by (rule track_range [OF assms(1,2), of 0]) (use assms(3) in simp_all)
  from round_double_normal [of x] r obtain v where
    v: "round_double x = Finite v" "(1 - unit_roundoff) * x \<le> v" "v \<le> (1 + unit_roundoff) * x"
    by blast
  from track_round [OF X _ _ v(2,3), of 0]
  have "x * (1 - unit_roundoff) ^ 1 \<le> v \<and> v * (1 - unit_roundoff) ^ 1 \<le> x" by simp
  with v(1) assms(1,2) show ?thesis
    unfolding computes_def fl_literal_def by blast
qed

lemma computes_mul:
  assumes "computes r1 a n e1" and "computes r2 b k e2"
    and "n + k \<le> 64" and "e1 + e2 \<le> 1000"
  shows "computes (fl_mul r1 r2) (a * b) (Suc (n + k)) (e1 + e2)"
proof -
  let ?w = "1 - unit_roundoff"
  from assms(1) obtain va where
    a: "r1 = Inr (Finite va)" "a * ?w ^ n \<le> va" "va * ?w ^ n \<le> a" "1 / 2 ^ e1 \<le> a" "a \<le> 2 ^ e1"
    unfolding computes_def by blast
  from assms(2) obtain vb where
    b: "r2 = Inr (Finite vb)" "b * ?w ^ k \<le> vb" "vb * ?w ^ k \<le> b" "1 / 2 ^ e2 \<le> b" "b \<le> 2 ^ e2"
    unfolding computes_def by blast
  have ap: "0 < a" using a(4) by (rule range_positive)
  have bp: "0 < b" using b(4) by (rule range_positive)
  from track_mul [OF ap bp w_pos a(2,3) b(2,3)]
  have t: "a * b * ?w ^ (n + k) \<le> va * vb" "va * vb * ?w ^ (n + k) \<le> a * b" by simp_all
  have "(1 / 2 ^ e1) * (1 / 2 ^ e2) \<le> a * b"
    by (rule mult_mono) (use a(4) b(4) ap bp in simp_all)
  then have m1: "1 / 2 ^ (e1 + e2) \<le> a * b" by (simp add: power_add)
  have "a * b \<le> 2 ^ e1 * 2 ^ e2"
    by (rule mult_mono) (use a(5) b(5) ap bp in simp_all)
  then have m2: "a * b \<le> 2 ^ (e1 + e2)" by (simp add: power_add)
  from track_range [OF m1 m2 t assms(3,4)]
  have "1 / 2 ^ 1022 \<le> va * vb" "va * vb \<le> 2 ^ 1023" by simp_all
  from round_double_normal [OF this] obtain v where
    v: "round_double (va * vb) = Finite v" "?w * (va * vb) \<le> v"
       "v \<le> (1 + unit_roundoff) * (va * vb)" by blast
  have abp: "0 < a * b" using ap bp by simp
  from track_round [OF abp t v(2,3)]
  have "a * b * ?w ^ Suc (n + k) \<le> v \<and> v * ?w ^ Suc (n + k) \<le> a * b" .
  moreover have "fl_mul r1 r2 = Inr (Finite v)"
    by (simp add: fl_mul_def a(1) b(1) py_bind_def v(1))
  ultimately show ?thesis using m1 m2 unfolding computes_def by blast
qed

lemma computes_div:
  assumes "computes r1 a n e1" and "computes r2 b k e2"
    and "n + k \<le> 64" and "e1 + e2 \<le> 1000"
  shows "computes (fl_div r1 r2) (a / b) (Suc (n + k)) (e1 + e2)"
proof -
  let ?w = "1 - unit_roundoff"
  from assms(1) obtain va where
    a: "r1 = Inr (Finite va)" "a * ?w ^ n \<le> va" "va * ?w ^ n \<le> a" "1 / 2 ^ e1 \<le> a" "a \<le> 2 ^ e1"
    unfolding computes_def by blast
  from assms(2) obtain vb where
    b: "r2 = Inr (Finite vb)" "b * ?w ^ k \<le> vb" "vb * ?w ^ k \<le> b" "1 / 2 ^ e2 \<le> b" "b \<le> 2 ^ e2"
    unfolding computes_def by blast
  have ap: "0 < a" using a(4) by (rule range_positive)
  have bp: "0 < b" using b(4) by (rule range_positive)
  from track_div [OF ap bp w_pos a(2,3) b(2,3)]
  have t: "a / b * ?w ^ (n + k) \<le> va / vb" "va / vb * ?w ^ (n + k) \<le> a / b" and vb: "0 < vb"
    by simp_all
  have "(1 / 2 ^ e1) * (1 / 2 ^ e2) \<le> a * (1 / b)"
  proof (rule mult_mono)
    show "1 / 2 ^ e1 \<le> a" by fact
    show "1 / 2 ^ e2 \<le> 1 / b" using b(5) bp by (simp add: frac_le)
  qed (use ap in simp_all)
  then have m1: "1 / 2 ^ (e1 + e2) \<le> a / b" by (simp add: power_add)
  have "a * (1 / b) \<le> 2 ^ e1 * 2 ^ e2"
  proof (rule mult_mono)
    show "a \<le> 2 ^ e1" by fact
    have "1 / b \<le> 1 / (1 / 2 ^ e2)" using b(4) by (intro divide_left_mono) (use bp in simp_all)
    then show "1 / b \<le> 2 ^ e2" by simp
  qed (use bp in simp_all)
  then have m2: "a / b \<le> 2 ^ (e1 + e2)" by (simp add: power_add)
  from track_range [OF m1 m2 t assms(3,4)]
  have "1 / 2 ^ 1022 \<le> va / vb" "va / vb \<le> 2 ^ 1023" by simp_all
  from round_double_normal [OF this] obtain v where
    v: "round_double (va / vb) = Finite v" "?w * (va / vb) \<le> v"
       "v \<le> (1 + unit_roundoff) * (va / vb)" by blast
  have abp: "0 < a / b" using ap bp by simp
  from track_round [OF abp t v(2,3)]
  have "a / b * ?w ^ Suc (n + k) \<le> v \<and> v * ?w ^ Suc (n + k) \<le> a / b" .
  moreover have "fl_div r1 r2 = Inr (Finite v)"
    using vb by (simp add: fl_div_def a(1) b(1) py_bind_def v(1))
  ultimately show ?thesis using m1 m2 unfolding computes_def by blast
qed

lemma computes_bind:
  assumes "computes r a n e"
    and "\<And>v. computes (fl_var v) a n e \<Longrightarrow> computes (f v) X n' e'"
  shows "computes (py_bind r f) X n' e'"
proof -
  from assms(1) obtain v where v: "r = Inr (Finite v)" unfolding computes_def by blast
  with assms(1) have "computes (fl_var (Finite v)) a n e" by (simp add: fl_var_def)
  from assms(2) [OF this] v show ?thesis by (simp add: py_bind_def)
qed

lemma computes_cong: "computes r X n e \<Longrightarrow> X = Y \<Longrightarrow> computes r Y n e"
  by simp

lemma computes_close:
  assumes "computes r X n e" and "n \<le> 64"
  shows "\<exists>v. r = Inr (Finite v) \<and> \<bar>v - X\<bar> \<le> X / 10 ^ 9"
proof -
  let ?w = "(1 - unit_roundoff) ^ n"
  from assms(1) obtain v where
    v: "r = Inr (Finite v)" "X * ?w \<le> v" "v * ?w \<le> X" "1 / 2 ^ e \<le> X"
    unfolding computes_def by blast
  have X: "0 < X" using v(4) by (rule range_positive)
  have "1 + real n * (- unit_roundoff) \<le> (1 + (- unit_roundoff)) ^ n"
    by (rule Bernoulli_inequality) (use unit_roundoff_bounds in simp)
  moreover have "real n * unit_roundoff \<le> 64 * unit_roundoff"
    using assms(2) unit_roundoff_bounds by simp
  moreover have "64 * unit_roundoff \<le> 1 / (10 ^ 9 + 1)" by (simp add: unit_roundoff_def)
  ultimately have w: "1 - 1 / (10 ^ 9 + 1) \<le> ?w" by simp
  have wle: "?w \<le> 1"
    using unit_roundoff_bounds by (intro power_le_one) simp_all
  have vpos: "0 < v" by (rule above_positive [OF X w_pow_pos v(2)])
  have lo: "X - X / 10 ^ 9 \<le> v"
  proof -
    have "X * (1 - 1 / (10 ^ 9 + 1)) \<le> X * ?w" using w X by (simp add: mult_left_mono)
    moreover have "X - X / 10 ^ 9 \<le> X * (1 - 1 / (10 ^ 9 + 1))"
      using X by (simp add: field_simps)
    ultimately show ?thesis using v(2) by linarith
  qed
  have hi: "v \<le> X + X / 10 ^ 9"
  proof -
    have "v * (1 - 1 / (10 ^ 9 + 1)) \<le> v * ?w" using w vpos by (simp add: mult_left_mono)
    with v(3) have "v * (1 - 1 / (10 ^ 9 + 1)) \<le> X" by linarith
    then have "v * 10 ^ 9 \<le> X * (10 ^ 9 + 1)" by (simp add: field_simps)
    then show ?thesis by (simp add: field_simps)
  qed
  from lo hi have "\<bar>v - X\<bar> \<le> X / 10 ^ 9" by linarith
  with v(1) show ?thesis by blast
qed

section \<open>The round trip of a conversion\<close>

lemmas fl_conversion_defs =
  fl_Sconvert_JmolK_to_kBatom_def fl_Sconvert_kBatom_to_JmolK_def
  fl_Sconvert_erggK_to_kBatom_def fl_Sconvert_kBatom_to_erggK_def
  fl_Sconvert_JgK_to_kBatom_def fl_Sconvert_kBatom_to_JgK_def
  fl_Sconvert_MbarccgK_to_kBatom_def fl_Sconvert_kBatom_to_MbarccgK_def
  fl_Sconvert_JmolK_to_JgK_def fl_Sconvert_JgK_to_JmolK_def
  fl_Sconvert_JgK_to_erggK_def fl_Sconvert_erggK_to_JgK_def
  fl_Sconvert_MbarccgK_to_JgK_def fl_Sconvert_JgK_to_MbarccgK_def
  fl_Econvert_kJmol_to_meVatom_def fl_Econvert_meVatom_to_kJmol_def
  fl_Econvert_eVatom_to_ergg_def fl_Econvert_ergg_to_eVatom_def
  fl_Econvert_Jg_to_eVatom_def fl_Econvert_eVatom_to_Jg_def
  fl_Econvert_Ryatom_to_ergg_def fl_Econvert_ergg_to_Ryatom_def
  fl_Econvert_Ryatom_to_eVatom_def fl_Econvert_eVatom_to_Ryatom_def

lemma spc_in_range_positive: "spc_in_range c \<Longrightarrow> spc_positive c"
  unfolding spc_in_range_def spc_positive_def
  using range_positive by blast

lemma computes_mono:
  assumes "computes r X n e" and "X = Y" and "n \<le> n'" and "e \<le> e'"
  shows "computes r Y n' e'"
proof -
  let ?w = "1 - unit_roundoff"
  from assms(1) obtain v where
    v: "r = Inr (Finite v)" "X * ?w ^ n \<le> v" "v * ?w ^ n \<le> X" "1 / 2 ^ e \<le> X" "X \<le> 2 ^ e"
    unfolding computes_def by blast
  have X: "0 < X" using v(4) by (rule range_positive)
  have vp: "0 < v" by (rule above_positive [OF X w_pow_pos v(2)])
  have w: "?w ^ n' \<le> ?w ^ n"
    using assms(3) unit_roundoff_bounds by (intro power_decreasing) simp_all
  have "X * ?w ^ n' \<le> X * ?w ^ n" using w X by (simp add: mult_left_mono)
  with v(2) have lo: "X * ?w ^ n' \<le> v" by linarith
  have "v * ?w ^ n' \<le> v * ?w ^ n" using w vp by (simp add: mult_left_mono)
  with v(3) have hi: "v * ?w ^ n' \<le> X" by linarith
  have p: "(2::real) ^ e \<le> 2 ^ e'" using assms(4) by (intro power_increasing) simp_all
  then have "1 / (2::real) ^ e' \<le> 1 / 2 ^ e" by (intro divide_left_mono) simp_all
  with v(4) have m1: "1 / 2 ^ e' \<le> X" by linarith
  from p v(5) have m2: "X \<le> 2 ^ e'" by linarith
  from v(1) lo hi m1 m2 show ?thesis unfolding computes_def assms(2) [symmetric] by blast
qed

lemma computes_numbers:
  "computes (fl_const 1000) 1000 0 10"
  "computes (fl_const (10 ^ 5)) (10 ^ 5) 0 17"
  "computes (fl_literal 2.17987) 2.17987 1 2"
  "computes (fl_literal (1 / 10 ^ 11)) (1 / 10 ^ 11) 1 37"
  "computes (fl_literal 13.6056) 13.6056 1 4"
  by (rule computes_const computes_literal; simp)+

lemma computes_constants:
  assumes "spc_in_range c"
  shows "computes (fl_const (spc_k c)) (spc_k c) 0 80"
    and "computes (fl_const (spc_N_A c)) (spc_N_A c) 0 80"
    and "computes (fl_const (spc_e c)) (spc_e c) 0 80"
    and "computes (fl_const (spc_erg c)) (spc_erg c) 0 80"
  using assms unfolding spc_in_range_def by (simp_all add: computes_const)

lemma fl_forward_computes:
  assumes y: "computes (fl_var y) Y n e" and n: "n \<le> 20" and e: "e \<le> 450"
    and c: "spc_in_range c" and m: "computes (fl_var (Finite m)) m 0 10"
  shows "computes (fl_forward p c y (Finite m)) (spec_formula p c Y m) (n + 6) (e + 350)"
  by (cases p; simp only: fl_forward.simps spec_formula.simps fl_conversion_defs;
      rule computes_mono,
      (rule computes_mul computes_div y m computes_numbers computes_constants [OF c]
        | (use n e in simp))+)

lemma fl_reverse_computes:
  assumes y: "computes (fl_var y) Y n e" and n: "n \<le> 20" and e: "e \<le> 450"
    and c: "spc_in_range c" and m: "computes (fl_var (Finite m)) m 0 10"
  shows "computes (fl_reverse p c y (Finite m)) (projr (reverse p c Y m)) (n + 6) (e + 350)"
proof -
  from c have "spc_positive c" by (rule spc_in_range_positive)
  then have pos: "spc_k c \<noteq> 0" "spc_N_A c \<noteq> 0" "spc_e c \<noteq> 0" "spc_erg c \<noteq> 0"
    by (simp_all add: spc_positive_def)
  from m have "0 < m" unfolding computes_def using range_positive by blast
  then have mz: "m \<noteq> 0" by simp
  show ?thesis
    by (cases p; simp only: fl_reverse.simps fl_conversion_defs;
        rule computes_mono,
        (rule computes_mul computes_div y m computes_numbers computes_constants [OF c]
          | (use n e pos mz in
              \<open>simp add: scripts_conversion_defs py_div_def py_bind_def\<close>))+)
qed

lemma forward_then_reverse_float:
  assumes c: "spc_in_range c" and x: "1 / 2 ^ 100 \<le> x" "x \<le> 2 ^ 100"
    and m: "1 / 2 ^ 10 \<le> m" "m \<le> 2 ^ 10"
  shows "computes (py_bind (fl_forward p c (Finite x) (Finite m))
            (\<lambda>y. fl_reverse p c y (Finite m))) x 12 800"
proof -
  have cp: "spc_positive c" using c by (rule spc_in_range_positive)
  have mz: "m \<noteq> 0" using range_positive [OF m(1)] by simp
  note X = computes_const(2) [OF x]
  note M = computes_const(2) [OF m]
  have F: "computes (fl_forward p c (Finite x) (Finite m)) (spec_formula p c x m) 6 450"
    using fl_forward_computes [OF X _ _ c M, of p] by simp
  have R: "computes (fl_reverse p c y (Finite m)) x 12 800"
    if "computes (fl_var y) (spec_formula p c x m) 6 450" for y
    using fl_reverse_computes [OF that _ _ c M, of p]
    by (simp add: reverse_after_formula [OF cp mz])
  show ?thesis by (rule computes_bind [OF F]) (rule R)
qed

lemma forward_then_reverse_real:
  assumes "spc_positive c" and "0 < m"
  shows "py_bind (forward p c x m) (\<lambda>y. reverse p c y m) = Inr x"
proof -
  from assms(2) have mz: "m \<noteq> 0" by simp
  show ?thesis
    by (simp add: forward_closed_form [OF assms(1)] mz py_bind_def
        reverse_after_formula [OF assms(1) mz])
qed

lemma codata2018_in_range: "spc_in_range codata2018"
  by (simp add: spc_in_range_def codata2018_def)

text \<open>
  C1. For every supported unit pair, positive constants, every positive value \<open>x\<close> and
  every positive atomic mass \<open>m\<close>, the reverse function applied to the result of the
  forward function returns \<open>x\<close> exactly when \<open>*\<close> and \<open>/\<close> are the operations of the real
  numbers. When they are the operations of the doubles, the round trip returns a finite
  float within relative error \<open>10^-9\<close> of \<open>x\<close>, provided that \<open>x\<close> lies between
  \<open>2^-100\<close> and \<open>2^100\<close>, \<open>m\<close> between \<open>2^-10\<close> and \<open>2^10\<close> and each physical
  constant between \<open>2^-80\<close> and \<open>2^80\<close>, as the CODATA 2018 values do. The second half
  does not hold for every positive \<open>x\<close> and \<open>m\<close>: the value \<open>2^1023\<close> with the mass \<open>1/2\<close>
  overflows, as shown after the theorem.
\<close>

theorem conversion_round_trip:
  assumes "spc_positive c" and "0 < x" and "0 < m"
  shows "py_bind (forward p c x m) (\<lambda>y. reverse p c y m) = Inr x
    \<and> (spc_in_range c \<and> 1 / 2 ^ 100 \<le> x \<and> x \<le> 2 ^ 100 \<and> 1 / 2 ^ 10 \<le> m \<and> m \<le> 2 ^ 10
        \<longrightarrow> (\<exists>v. py_bind (fl_forward p c (Finite x) (Finite m))
                     (\<lambda>y. fl_reverse p c y (Finite m)) = Inr (Finite v)
                 \<and> \<bar>v - x\<bar> \<le> x / 10 ^ 9))"
proof (intro conjI impI)
  show "py_bind (forward p c x m) (\<lambda>y. reverse p c y m) = Inr x"
    using assms(1,3) by (rule forward_then_reverse_real)
next
  assume r: "spc_in_range c \<and> 1 / 2 ^ 100 \<le> x \<and> x \<le> 2 ^ 100 \<and> 1 / 2 ^ 10 \<le> m \<and> m \<le> 2 ^ 10"
  then have "computes (py_bind (fl_forward p c (Finite x) (Finite m))
      (\<lambda>y. fl_reverse p c y (Finite m))) x 12 800"
    by (intro forward_then_reverse_float) simp_all
  then show "\<exists>v. py_bind (fl_forward p c (Finite x) (Finite m))
        (\<lambda>y. fl_reverse p c y (Finite m)) = Inr (Finite v) \<and> \<bar>v - x\<bar> \<le> x / 10 ^ 9"
    by (rule computes_close) simp
qed

theorem conversion_round_trip_witness:
  "spc_positive codata2018 \<and> (0::real) < 3 \<and> (0::real) < 12.011
   \<and> py_bind (Econvert_Ryatom_to_ergg codata2018 3 12.011)
       (\<lambda>y. Econvert_ergg_to_Ryatom codata2018 y 12.011) = Inr 3
   \<and> spc_in_range codata2018
   \<and> (\<exists>v. py_bind (fl_Econvert_Ryatom_to_ergg codata2018 (Finite 3) (Finite 12.011))
              (\<lambda>y. fl_Econvert_ergg_to_Ryatom codata2018 y (Finite 12.011)) = Inr (Finite v)
          \<and> \<bar>v - 3\<bar> \<le> 3 / 10 ^ 9)"
  using conversion_round_trip [OF codata2018_positive, of 3 "12.011" Ryatom_ergg]
  by (simp add: codata2018_positive codata2018_in_range)

text \<open>
  The value \<open>2^1023\<close> and the mass \<open>1/2\<close> are positive doubles. \<open>Sconvert_JmolK_to_JgK\<close>
  divides the one by the other, which overflows to \<open>inf\<close>, and \<open>Sconvert_JgK_to_JmolK\<close>
  returns \<open>inf\<close> for it: the round trip does not come back to \<open>2^1023\<close>.
\<close>

theorem double_overflow_counterexample:
  "py_bind (fl_Sconvert_JmolK_to_JgK (Finite (2 ^ 1023)) (Finite (1 / 2)))
      (\<lambda>y. fl_Sconvert_JgK_to_JmolK y (Finite (1 / 2))) = Inr PosInf"
  by (simp add: fl_Sconvert_JmolK_to_JgK_def fl_Sconvert_JgK_to_JmolK_def fl_div_def fl_mul_def
      fl_var_def py_bind_def round_double_def)

section \<open>Strings, lines and loops\<close>

declare str_nat.simps [simp del]

lemma digit_cases: "d < 10 \<Longrightarrow> d = 0 \<or> d = 1 \<or> d = 2 \<or> d = 3 \<or> d = 4 \<or> d = 5 \<or> d = 6 \<or> d = 7 \<or> d = 8 \<or> d = (9::nat)"
  by arith

lemma digit_value_digit_char: "d < 10 \<Longrightarrow> digit_value (digit_char d) = Some d"
  using digit_cases [of d] by (auto simp add: digit_value_def digit_char_def)

lemma digit_char_is_digit: "d < 10 \<Longrightarrow> digit_char d \<in> set ''0123456789''"
  using digit_cases [of d] by (auto simp add: digit_char_def)

lemma str_nat_digits: "set (str_nat n) \<subseteq> set ''0123456789''"
proof (induction n rule: str_nat.induct)
  case (1 n)
  show ?case
  proof (cases "n < 10")
    case True
    then show ?thesis using digit_char_is_digit [of n] by (subst str_nat.simps) simp
  next
    case False
    have "n mod 10 < 10" by simp
    from digit_char_is_digit [OF this] 1 [OF False] False show ?thesis
      by (subst str_nat.simps) simp
  qed
qed

lemma str_nat_nonempty: "str_nat n \<noteq> []"
  by (subst str_nat.simps) simp

lemma read_digits_snoc:
  "read_digits acc (s @ [ch]) =
     (case read_digits acc s of None \<Rightarrow> None
      | Some a \<Rightarrow> (case digit_value ch of None \<Rightarrow> None | Some d \<Rightarrow> Some (10 * a + d)))"
  by (induction s arbitrary: acc) (auto split: option.splits)

lemma read_digits_str_nat: "read_digits 0 (str_nat n) = Some n"
proof (induction n rule: str_nat.induct)
  case (1 n)
  show ?case
  proof (cases "n < 10")
    case True
    then show ?thesis by (subst str_nat.simps) (simp add: digit_value_digit_char)
  next
    case False
    have "n mod 10 < 10" by simp
    from digit_value_digit_char [OF this] 1 [OF False] False show ?thesis
      by (subst str_nat.simps) (simp add: read_digits_snoc)
  qed
qed

lemma read_nat_str_nat: "read_nat (str_nat n) = Some n"
  by (simp add: read_nat_def str_nat_nonempty read_digits_str_nat)

lemma str_nat_inject: "str_nat a = str_nat b \<longleftrightarrow> a = b"
proof
  assume "str_nat a = str_nat b"
  then have "read_nat (str_nat a) = read_nat (str_nat b)" by (rule arg_cong)
  then show "a = b" by (simp only: read_nat_str_nat option.inject)
qed simp

lemma str_int_nat: "str_int (int i + 1) = str_nat (Suc i)"
  by (simp add: str_int_def nat_add_distrib)

lemma str_nat_no: "ch \<notin> set ''0123456789'' \<Longrightarrow> ch \<notin> set (str_nat n)"
  using str_nat_digits [of n] by blast

lemma split_on_nonempty: "split_on sep s \<noteq> []"
  by (induction s) (auto split: list.splits)

lemma split_on_no_sep: "sep \<notin> set w \<Longrightarrow> split_on sep w = [w]"
  by (induction w) auto

lemma split_on_append: "sep \<notin> set w \<Longrightarrow> split_on sep (w @ sep # rest) = w # split_on sep rest"
  by (induction w) auto

lemma py_lines_append: "NL \<notin> set w \<Longrightarrow> py_lines (w @ NL # rest) = (w @ [NL]) # py_lines rest"
  by (induction w) auto

lemma py_lines_concat:
  "\<forall>l\<in>set ls. \<exists>w. l = w @ [NL] \<and> NL \<notin> set w \<Longrightarrow> py_lines (concat ls) = ls"
proof (induction ls)
  case Nil
  then show ?case by simp
next
  case (Cons l ls)
  then obtain w where w: "l = w @ [NL]" "NL \<notin> set w" by auto
  from Cons have "py_lines (concat ls) = ls" by simp
  with w show ?case by (simp add: py_lines_append)
qed

lemma collect_Inr_map: "\<forall>x\<in>set xs. f x = Inr (g x) \<Longrightarrow> collect f xs = Inr (map g xs)"
  by (induction xs) (simp_all add: py_bind_def)

lemma collect_Inr_D:
  "collect f xs = Inr ys \<Longrightarrow> length ys = length xs \<and> (\<forall>i<length xs. f (xs ! i) = Inr (ys ! i))"
proof (induction xs arbitrary: ys)
  case Nil
  then show ?case by simp
next
  case (Cons x xs)
  from Cons.prems obtain y ys' where y: "f x = Inr y" "collect f xs = Inr ys'" "ys = y # ys'"
    by (auto simp add: py_bind_def split: sum.splits)
  from Cons.IH [OF y(2)] y show ?case
    by (auto simp add: nth_Cons split: nat.splits)
qed

lemma collect_map: "collect f (map h xs) = collect (\<lambda>x. f (h x)) xs"
  by (induction xs) simp_all

lemma py_setitem_Inr:
  assumes "py_setitem xs i v = Inr ys"
  shows "length ys = length xs
    \<and> (\<exists>j<length xs. ys = xs[j := v] \<and> int j = (if i < 0 then int (length xs) + i else i))"
proof -
  define t where "t = (if i < 0 then int (length xs) + i else i)"
  from assms have *: "0 \<le> t" "t < int (length xs)" "ys = xs[nat t := v]"
    by (auto simp add: py_setitem_def Let_def t_def split: if_splits)
  then have "nat t < length xs" "int (nat t) = t" by auto
  with * have "length ys = length xs \<and> (\<exists>j<length xs. ys = xs[j := v] \<and> int j = t)"
    by auto
  then show ?thesis by (simp only: t_def)
qed

lemma apply_overrides_Cons:
  assumes "apply_overrides L (line # rest) aml = Inr aml'"
  shows "\<exists>n m aml1. override_line L line n m \<and> py_setitem aml (n - 1) m = Inr aml1
    \<and> apply_overrides L rest aml1 = Inr aml'"
  using assms split_on_nonempty [of SPACE line]
  by (auto simp add: py_bind_def py_index_def override_line_def Let_def hd_conv_nth
      split: sum.splits option.splits if_splits)

lemma override_line_fun:
  "override_line L line n m \<Longrightarrow> override_line L line n' m' \<Longrightarrow> n' = n \<and> m' = m"
  by (simp add: override_line_def)

lemma apply_overrides_length:
  "apply_overrides L lines aml = Inr aml' \<Longrightarrow> length aml' = length aml"
proof (induction lines arbitrary: aml)
  case Nil
  then show ?case by simp
next
  case (Cons line rest)
  from apply_overrides_Cons [OF Cons.prems] obtain n m aml1 where
    s: "py_setitem aml (n - 1) m = Inr aml1" "apply_overrides L rest aml1 = Inr aml'" by blast
  from Cons.IH [OF s(2)] py_setitem_Inr [OF s(1)] show ?case by simp
qed

lemma apply_overrides_untouched:
  assumes "apply_overrides L lines aml = Inr aml'" and "k < length aml"
    and "\<forall>line\<in>set lines. \<forall>n m. override_line L line n m \<longrightarrow>
           n \<noteq> int k + 1 \<and> n \<noteq> int k + 1 - int (length aml)"
  shows "aml' ! k = aml ! k"
  using assms
proof (induction lines arbitrary: aml)
  case Nil
  then show ?case by simp
next
  case (Cons line rest)
  from apply_overrides_Cons [OF Cons.prems(1)] obtain n m aml1 where
    s: "override_line L line n m" "py_setitem aml (n - 1) m = Inr aml1"
       "apply_overrides L rest aml1 = Inr aml'" by blast
  from py_setitem_Inr [OF s(2)] obtain j where
    j: "length aml1 = length aml" "j < length aml" "aml1 = aml[j := m]"
       "int j = (if n - 1 < 0 then int (length aml) + (n - 1) else n - 1)" by blast
  from Cons.prems(3) s(1) have "n \<noteq> int k + 1" "n \<noteq> int k + 1 - int (length aml)" by auto
  with j(4) have "j \<noteq> k" by (auto split: if_splits)
  with j have "aml1 ! k = aml ! k" by simp
  moreover have "aml' ! k = aml1 ! k"
    using Cons.IH [OF s(3)] Cons.prems(2,3) j(1) by simp
  ultimately show ?case by simp
qed

lemma apply_overrides_last:
  assumes "apply_overrides L lines aml = Inr aml'" and "j < length lines"
    and "override_line L (lines ! j) n m" and "1 \<le> n" and "n \<le> int (length aml)"
    and "\<forall>j'. j < j' \<and> j' < length lines \<longrightarrow>
           (\<forall>n' m'. override_line L (lines ! j') n' m' \<longrightarrow>
              n' \<noteq> n \<and> n' \<noteq> n - int (length aml))"
  shows "aml' ! nat (n - 1) = m"
  using assms
proof (induction lines arbitrary: aml j)
  case Nil
  then show ?case by simp
next
  case (Cons line rest)
  from apply_overrides_Cons [OF Cons.prems(1)] obtain n0 m0 aml1 where
    s: "override_line L line n0 m0" "py_setitem aml (n0 - 1) m0 = Inr aml1"
       "apply_overrides L rest aml1 = Inr aml'" by blast
  from py_setitem_Inr [OF s(2)] obtain i where
    i: "length aml1 = length aml" "i < length aml" "aml1 = aml[i := m0]"
       "int i = (if n0 - 1 < 0 then int (length aml) + (n0 - 1) else n0 - 1)" by blast
  show ?case
  proof (cases j)
    case 0
    with Cons.prems(3) s(1) have eq: "n0 = n" "m0 = m" using override_line_fun by auto
    with i Cons.prems(4) have "i = nat (n - 1)" by auto
    with i eq have at: "aml1 ! nat (n - 1) = m" by simp
    have later: "\<forall>l\<in>set rest. \<forall>n' m'. override_line L l n' m' \<longrightarrow>
        n' \<noteq> int (nat (n - 1)) + 1 \<and> n' \<noteq> int (nat (n - 1)) + 1 - int (length aml1)"
    proof (intro ballI allI impI)
      fix l n' m' assume l: "l \<in> set rest" and o: "override_line L l n' m'"
      from l obtain q where q: "q < length rest" "rest ! q = l" by (auto simp add: in_set_conv_nth)
      from Cons.prems(6) [rule_format, of "Suc q"] 0 q o
      have "n' \<noteq> n \<and> n' \<noteq> n - int (length aml)" by auto
      with Cons.prems(4) i(1) show "n' \<noteq> int (nat (n - 1)) + 1 \<and>
          n' \<noteq> int (nat (n - 1)) + 1 - int (length aml1)" by auto
    qed
    have "nat (n - 1) < length aml1" using Cons.prems(4,5) i(1) by auto
    from apply_overrides_untouched [OF s(3) this later] at show ?thesis by simp
  next
    case (Suc j0)
    have "aml' ! nat (n - 1) = m"
    proof (rule Cons.IH [OF s(3), of j0])
      show "j0 < length rest" using Cons.prems(2) Suc by simp
      show "override_line L (rest ! j0) n m" using Cons.prems(3) Suc by simp
      show "1 \<le> n" by fact
      show "n \<le> int (length aml1)" using Cons.prems(5) i(1) by simp
      show "\<forall>j'. j0 < j' \<and> j' < length rest \<longrightarrow>
          (\<forall>n' m'. override_line L (rest ! j') n' m' \<longrightarrow> n' \<noteq> n \<and> n' \<noteq> n - int (length aml1))"
      proof (intro allI impI)
        fix j' n' m' assume a: "j0 < j' \<and> j' < length rest" and o: "override_line L (rest ! j') n' m'"
        from Cons.prems(6) [rule_format, of "Suc j'"] a o Suc i(1)
        show "n' \<noteq> n \<and> n' \<noteq> n - int (length aml1)" by auto
      qed
    qed
    then show ?thesis .
  qed
qed

lemma apply_overrides_sources:
  assumes "apply_overrides L lines aml = Inr aml'" and "x \<in> set aml'"
  shows "x \<in> set aml \<or> (\<exists>line\<in>set lines. \<exists>n. override_line L line n x)"
  using assms
proof (induction lines arbitrary: aml)
  case Nil
  then show ?case by simp
next
  case (Cons line rest)
  from apply_overrides_Cons [OF Cons.prems(1)] obtain n0 m0 aml1 where
    s: "override_line L line n0 m0" "py_setitem aml (n0 - 1) m0 = Inr aml1"
       "apply_overrides L rest aml1 = Inr aml'" by blast
  from py_setitem_Inr [OF s(2)] obtain i where i: "aml1 = aml[i := m0]" by blast
  from Cons.IH [OF s(3) Cons.prems(2)]
  have "x \<in> set aml1 \<or> (\<exists>line\<in>set rest. \<exists>n. override_line L line n x)" .
  moreover have "x \<in> set aml1 \<Longrightarrow> x = m0 \<or> x \<in> set aml"
    using i set_update_subset_insert [of aml i m0] by auto
  ultimately show ?case using s(1) by auto
qed

lemma default_atomic_masses_Inr:
  assumes "default_atomic_masses L = Inr dm"
  shows "length dm = 118
    \<and> (\<forall>i<118. \<exists>el. md_element L (Inl (int i + 1)) = Some el \<and> dm ! i = atomic_weight el)"
proof -
  from collect_Inr_D [OF assms [unfolded default_atomic_masses_def]]
  show ?thesis by (auto split: option.splits)
qed

lemma overridden_atomic_masses_Inr:
  assumes "overridden_atomic_masses L fs = Inr aml"
  shows "\<exists>dm content. default_atomic_masses L = Inr dm
    \<and> fs ''howerton_atomic_masses.txt'' = Some content
    \<and> apply_overrides L (py_lines content) dm = Inr aml"
  using assms
  by (auto simp add: overridden_atomic_masses_def py_bind_def split: sum.splits option.splits)

lemma overridden_atomic_masses_length:
  assumes "overridden_atomic_masses L fs = Inr aml"
  shows "length aml = 118"
proof -
  from overridden_atomic_masses_Inr [OF assms] obtain dm content where
    u: "default_atomic_masses L = Inr dm" "apply_overrides L (py_lines content) dm = Inr aml"
    by blast
  from default_atomic_masses_Inr [OF u(1)] apply_overrides_length [OF u(2)]
  show ?thesis by simp
qed

lemma str_nat_no_space: "SPACE \<notin> set (str_nat n)" by (rule str_nat_no) simp
lemma str_nat_no_NL: "NL \<notin> set (str_nat n)" by (rule str_nat_no) simp
lemma str_nat_no_TAB: "TAB \<notin> set (str_nat n)" by (rule str_nat_no) simp

lemma atomic_masses_line_split:
  assumes "float_roundtrip L x"
  shows "split_on SPACE (str_int (int i + 1) @ '': '' @ str_float L x @ [NL])
    = [str_nat (Suc i) @ '':'', str_float L x @ [NL]]"
proof -
  have e: "str_int (int i + 1) @ '': '' @ str_float L x @ [NL]
      = (str_nat (Suc i) @ '':'') @ SPACE # (str_float L x @ [NL])"
    by (simp add: str_int_nat)
  have a: "SPACE \<notin> set (str_nat (Suc i) @ '':'')" by (simp add: str_nat_no_space)
  have b: "SPACE \<notin> set (str_float L x @ [NL])"
    using assms by (simp add: float_roundtrip_def)
  show ?thesis
    unfolding e by (simp only: split_on_append [OF a] split_on_no_sep [OF b])
qed

lemma read_back:
  assumes len: "length aml = 118" and rt: "\<forall>x\<in>set aml. float_roundtrip L x"
  shows "create_atomic_mass_list L (fs(''atomic_masses_list.txt'' \<mapsto> atomic_masses_text L aml))
    = Inr aml"
proof -
  let ?line = "\<lambda>i. str_int (int i + 1) @ '': '' @ str_float L (aml ! i) @ [NL]"
  let ?read = "\<lambda>line. py_bind (py_index (split_on SPACE line) 1)
      (\<lambda>t. case py_float L t of None \<Rightarrow> Inl ValueError | Some v \<Rightarrow> Inr v)"
  have ok: "float_roundtrip L (aml ! i)" if "i < 118" for i
    using rt len that by simp
  have "\<forall>l\<in>set (map ?line [0..<118]). \<exists>w. l = w @ [NL] \<and> NL \<notin> set w"
  proof
    fix l assume "l \<in> set (map ?line [0..<118])"
    then obtain i where i: "i < 118" "l = ?line i" by auto
    let ?w = "str_int (int i + 1) @ '': '' @ str_float L (aml ! i)"
    have "l = ?w @ [NL]" using i by simp
    moreover have "NL \<notin> set ?w"
      using ok [OF i(1)] by (simp add: str_int_nat str_nat_no_NL float_roundtrip_def)
    ultimately show "\<exists>w. l = w @ [NL] \<and> NL \<notin> set w" by blast
  qed
  then have lines: "py_lines (atomic_masses_text L aml) = map ?line [0..<118]"
    unfolding atomic_masses_text_def by (rule py_lines_concat)
  have "\<forall>i\<in>set [0..<118]. ?read (?line i) = Inr (aml ! i)"
  proof
    fix i assume "i \<in> set [0..<118]"
    then have i: "i < 118" by simp
    from ok [OF i] have "py_float L (str_float L (aml ! i) @ [NL]) = Some (aml ! i)"
      by (simp add: float_roundtrip_def)
    then show "?read (?line i) = Inr (aml ! i)"
      by (simp only: atomic_masses_line_split [OF ok [OF i]]) (simp add: py_index_def py_bind_def)
  qed
  then have "collect (\<lambda>i. ?read (?line i)) [0..<118] = Inr (map (\<lambda>i. aml ! i) [0..<118])"
    by (rule collect_Inr_map)
  moreover have "map (\<lambda>i. aml ! i) [0..<118] = aml"
    using map_nth [of aml] len by simp
  ultimately show ?thesis
    by (simp add: create_atomic_mass_list_def lines collect_map)
qed


section \<open>The sample library\<close>

lemma pad_digits_numeral: "pad_digits (numeral k) n = pad_digits (pred_numeral k) (n div 10) @ [digit_char (n mod 10)]"
  by (simp only: numeral_eq_Suc[of k] pad_digits.simps)
lemma find_scale_numeral: "find_scale (numeral k) d x =
     (if real_of_int \<lfloor>x * 10 ^ d\<rfloor> = x * 10 ^ d then d else find_scale (pred_numeral k) (Suc d) x)"
  by (simp only: numeral_eq_Suc[of k] find_scale.simps)

lemmas print_float_eval = print_float_def find_scale_numeral fixed_def round_half_even_def
  sign_of_def digit_char_def Let_def pad_digits_numeral str_nat.simps

lemmas read_eval = read_float_def read_int_def strip_def is_blank_def read_unsigned_def
  read_nat_def digit_value_def

lemma print_float_nat: "print_float (real n) = str_nat n @ ''.0''"
proof -
  have f: "\<lfloor>real n * 10\<rfloor> = int (n * 10)"
    by (metis floor_of_nat of_nat_mult of_nat_numeral)
  have s: "find_scale 16 (Suc 0) (real n) = Suc 0"
    by (simp add: find_scale_numeral f)
  have r: "round_half_even (real n * 10) = n * 10"
    by (simp add: round_half_even_def f Let_def)
  show ?thesis
    by (simp add: print_float_def fixed_def sign_of_def Let_def s r digit_char_def)
qed

lemma strip_unblank:
  assumes "s \<noteq> []" and "\<not> is_blank (hd s)" and "\<not> is_blank (last s)"
  shows "strip (s @ [NL]) = s"
proof -
  from assms obtain a r where ar: "s = a # r" by (cases s) auto
  from assms obtain z q where zq: "s = q @ [z]" by (cases s rule: rev_cases) auto
  have "dropWhile is_blank (s @ [NL]) = s @ [NL]" using ar assms(2) by simp
  moreover have "dropWhile is_blank (rev (s @ [NL])) = rev s"
    using zq assms(3) by (simp add: is_blank_def)
  ultimately show ?thesis by (simp add: strip_def)
qed

lemma str_nat_hd: "hd (str_nat n) \<in> set (str_nat n)"
  using str_nat_nonempty [of n] by simp

lemma str_nat_hd_not_blank: "\<not> is_blank (hd (str_nat n))"
  using str_nat_hd [of n] str_nat_no_space [of n] str_nat_no_NL [of n] str_nat_no_TAB [of n]
  unfolding is_blank_def by metis

lemma str_nat_hd_not_minus: "hd (str_nat n) \<noteq> CHR ''-''"
proof -
  have "CHR ''-'' \<notin> set (str_nat n)" by (rule str_nat_no) simp
  with str_nat_hd [of n] show ?thesis by metis
qed

lemma read_float_print_nat: "read_float (print_float (real n) @ [NL]) = Some (real n)"
proof -
  let ?s = "str_nat n @ ''.0''"
  have ne: "?s \<noteq> []" by simp
  have h: "hd ?s = hd (str_nat n)" using str_nat_nonempty [of n] by simp
  have st: "strip (?s @ [NL]) = ?s"
  proof (rule strip_unblank [OF ne])
    show "\<not> is_blank (hd ?s)" unfolding h by (rule str_nat_hd_not_blank)
    show "\<not> is_blank (last ?s)" by (simp add: is_blank_def)
  qed
  obtain ch r where hd: "str_nat n = ch # r"
    using str_nat_nonempty [of n] by (cases "str_nat n") auto
  have nm: "ch \<noteq> CHR ''-''" using str_nat_hd_not_minus [of n] hd by simp
  have dot: "CHR ''.'' \<notin> set (str_nat n)" by (rule str_nat_no) simp
  have sp: "split_on (CHR ''.'') (str_nat n @ CHR ''.'' # ''0'') = [str_nat n, ''0'']"
    by (simp add: split_on_append [OF dot])
  have un: "read_unsigned ?s = Some (real n)"
    by (simp add: read_unsigned_def sp read_nat_str_nat) (simp add: read_nat_def digit_value_def)
  have "read_float (?s @ [NL]) = read_unsigned ?s"
    unfolding read_float_def st using hd nm by simp
  with un show ?thesis by (simp add: print_float_nat)
qed

lemma sample_roundtrip_nat: "float_roundtrip sample_lib (real n)"
  by (simp add: float_roundtrip_def sample_lib_def read_float_print_nat)
    (simp add: print_float_nat str_nat_no_space str_nat_no_NL)

lemma sample_roundtrip_decimals:
  "float_roundtrip sample_lib 1.008" "float_roundtrip sample_lib 12.011"
  "float_roundtrip sample_lib 1.5"
  by (simp_all add: float_roundtrip_def sample_lib_def print_float_eval read_eval)


section \<open>Properties of the atomic mass list\<close>

text \<open>
  C7, as amended. Let the loops of \<open>update_atomic_mass\<close> end with the list \<open>aml\<close>
  (the function then succeeds), and let line \<open>j\<close> of the override file carry the atomic
  number \<open>n\<close> with \<open>1 \<le> n \<le> 118\<close> and the mass \<open>m\<close>. If no later line carries the atomic
  number \<open>n\<close> or \<open>n - 118\<close> (a number below 1 addresses the list from its end), then the
  entry \<open>n - 1\<close> of the list is \<open>m\<close>, whatever the default weight was, and the list is
  what both copies of the function write to \<open>atomic_masses_list.txt\<close>.
\<close>

theorem override_takes_precedence:
  assumes "overridden_atomic_masses L fs = Inr aml"
    and "fs ''howerton_atomic_masses.txt'' = Some content"
    and "j < length (py_lines content)"
    and "override_line L (py_lines content ! j) n m"
    and "1 \<le> n" and "n \<le> 118"
    and "\<forall>j'. j < j' \<and> j' < length (py_lines content) \<longrightarrow>
           (\<forall>n' m'. override_line L (py_lines content ! j') n' m' \<longrightarrow>
              n' \<noteq> n \<and> n' \<noteq> n - 118)"
  shows "aml ! nat (n - 1) = m \<and> length aml = 118
    \<and> update_atomic_mass L fs
        = Inr (fs(''atomic_masses_list.txt'' \<mapsto> atomic_masses_text L aml))
    \<and> (\<forall>lines. collect (NIST_atomic_masses_line L aml) [0..<118] = Inr lines \<longrightarrow>
         NIST_update_atomic_mass L fs = Inr (fs(''atomic_masses_list.txt'' \<mapsto> concat lines)))"
proof -
  from overridden_atomic_masses_Inr [OF assms(1)] assms(2) obtain dm where
    u: "default_atomic_masses L = Inr dm" "apply_overrides L (py_lines content) dm = Inr aml"
    by auto
  from default_atomic_masses_Inr [OF u(1)] have len: "length dm = 118" by simp
  have "aml ! nat (n - 1) = m"
    using apply_overrides_last [OF u(2) assms(3,4,5)] assms(6,7) len by simp
  moreover have "length aml = 118" by (rule overridden_atomic_masses_length [OF assms(1)])
  ultimately show ?thesis
    by (simp add: update_atomic_mass_def NIST_update_atomic_mass_def assms(1) py_bind_def)
qed

lemma sample_default_atomic_masses: "default_atomic_masses sample_lib = Inr sample_defaults"
  unfolding default_atomic_masses_def sample_defaults_def
  by (rule collect_Inr_map) (simp add: sample_lib_def sample_element_def)

lemma sample_lines:
  "py_lines sample_overrides
     = [''6 C 12.011'' @ [NL], ''118 Og 294.0'' @ [NL], ''0 X 1.5'' @ [NL]]"
  by (simp add: sample_overrides_def)

lemma sample_override_lines:
  "override_line sample_lib (py_lines sample_overrides ! 0) 6 12.011"
  "override_line sample_lib (py_lines sample_overrides ! 1) 118 294"
  "override_line sample_lib (py_lines sample_overrides ! 2) 0 1.5"
  by (simp_all add: sample_lines override_line_def sample_lib_def read_eval)

lemma sample_overridden: "overridden_atomic_masses sample_lib sample_files = Inr sample_masses"
proof -
  have len: "length sample_defaults = 118" by (simp add: sample_defaults_def)
  have "apply_overrides sample_lib (py_lines sample_overrides) sample_defaults
      = Inr sample_masses"
    by (simp add: sample_lines sample_lib_def read_eval py_bind_def py_index_def
        py_setitem_def len sample_masses_def)
  then show ?thesis
    by (simp add: overridden_atomic_masses_def sample_default_atomic_masses py_bind_def
        sample_files_def)
qed

lemma carbon_lines:
  "py_lines carbon_overrides = [''6 C 13.5'' @ [NL], ''7 N 2.5'' @ [NL]]"
  by (simp add: carbon_overrides_def)

lemma carbon_override_lines:
  "override_line sample_lib (py_lines carbon_overrides ! 0) 6 13.5"
  "override_line sample_lib (py_lines carbon_overrides ! 1) 7 2.5"
  by (simp_all add: carbon_lines override_line_def sample_lib_def read_eval)

lemma carbon_overridden: "overridden_atomic_masses sample_lib carbon_files = Inr carbon_masses"
proof -
  have len: "length sample_defaults = 118" by (simp add: sample_defaults_def)
  have "apply_overrides sample_lib (py_lines carbon_overrides) sample_defaults
      = Inr carbon_masses"
    by (simp add: carbon_lines sample_lib_def read_eval py_bind_def py_index_def
        py_setitem_def len carbon_masses_def)
  then show ?thesis
    by (simp add: overridden_atomic_masses_def sample_default_atomic_masses py_bind_def
        carbon_files_def)
qed

lemma carbon_default: "sample_defaults ! 5 = 12.011"
  by (simp add: sample_defaults_def)

theorem override_takes_precedence_witness:
  "default_atomic_masses sample_lib = Inr sample_defaults
   \<and> sample_defaults ! 5 = 12.011
   \<and> overridden_atomic_masses sample_lib carbon_files = Inr carbon_masses
   \<and> override_line sample_lib (py_lines carbon_overrides ! 0) 6 13.5
   \<and> carbon_masses ! 5 = 13.5 \<and> carbon_masses ! 5 \<noteq> sample_defaults ! 5
   \<and> length carbon_masses = 118
   \<and> update_atomic_mass sample_lib carbon_files
       = Inr (carbon_files(''atomic_masses_list.txt'' \<mapsto>
                atomic_masses_text sample_lib carbon_masses))"
proof -
  have f: "carbon_files ''howerton_atomic_masses.txt'' = Some carbon_overrides"
    by (simp add: carbon_files_def)
  have j: "0 < length (py_lines carbon_overrides)" by (simp add: carbon_lines)
  have later: "\<forall>j'. 0 < j' \<and> j' < length (py_lines carbon_overrides) \<longrightarrow>
      (\<forall>n' m'. override_line sample_lib (py_lines carbon_overrides ! j') n' m' \<longrightarrow>
         n' \<noteq> 6 \<and> n' \<noteq> 6 - 118)"
  proof (intro allI impI)
    fix j' n' m'
    assume b: "0 < j' \<and> j' < length (py_lines carbon_overrides)"
      and o: "override_line sample_lib (py_lines carbon_overrides ! j') n' m'"
    from b have "j' = 1" by (auto simp add: carbon_lines)
    then show "n' \<noteq> 6 \<and> n' \<noteq> 6 - 118"
      using o override_line_fun [OF carbon_override_lines(2), of n' m'] by auto
  qed
  have n1: "(1::int) \<le> 6" and n2: "(6::int) \<le> 118" by simp_all
  note t = override_takes_precedence
    [OF carbon_overridden f j carbon_override_lines(1) n1 n2 later]
  from t have a: "carbon_masses ! 5 = 13.5" by simp
  from a carbon_default have d: "carbon_masses ! 5 \<noteq> sample_defaults ! 5" by simp
  from t have b: "length carbon_masses = 118" by blast
  from t have c: "update_atomic_mass sample_lib carbon_files
       = Inr (carbon_files(''atomic_masses_list.txt'' \<mapsto>
                atomic_masses_text sample_lib carbon_masses))" by blast
  from sample_default_atomic_masses carbon_default carbon_overridden carbon_override_lines(1)
    a d b c show ?thesis by blast
qed

lemma sample_masses_roundtrip: "\<forall>x\<in>set sample_masses. float_roundtrip sample_lib x"
proof
  fix x assume "x \<in> set sample_masses"
  then have "x = 1.5 \<or> x = 294 \<or> x = 12.011 \<or> x \<in> set sample_defaults"
    unfolding sample_masses_def
    by (meson set_update_subset_insert subsetD insertE)
  moreover have "float_roundtrip sample_lib 294"
    using sample_roundtrip_nat [of 294] by simp
  moreover have "float_roundtrip sample_lib y" if "y \<in> set sample_defaults" for y
  proof -
    from that [unfolded sample_defaults_def set_map] obtain i where
      yi: "y = (if i = 0 then 1.008 else if i = 5 then 12.011 else real (i + 1))"
      by (rule imageE)
    show ?thesis
    proof (cases "i = 0")
      case True
      have "y = 1.008" unfolding yi by (simp only: if_P [OF True])
      then show ?thesis by (simp only: sample_roundtrip_decimals)
    next
      case False
      show ?thesis
      proof (cases "i = 5")
        case True
        have "y = 12.011" unfolding yi by (simp only: if_not_P [OF False] if_P [OF True])
        then show ?thesis by (simp only: sample_roundtrip_decimals)
      next
        case i5: False
        have "y = real (i + 1)" unfolding yi by (simp only: if_not_P [OF False] if_not_P [OF i5])
        then show ?thesis by (simp only: sample_roundtrip_nat)
      qed
    qed
  qed
  ultimately show "float_roundtrip sample_lib x"
    using sample_roundtrip_decimals by blast
qed

lemma sample_masses_positive: "\<forall>x\<in>set sample_masses. 0 < x"
proof
  fix x assume "x \<in> set sample_masses"
  then have "x = 1.5 \<or> x = 294 \<or> x = 12.011 \<or> x \<in> set sample_defaults"
    unfolding sample_masses_def
    by (meson set_update_subset_insert subsetD insertE)
  moreover have "0 < y" if "y \<in> set sample_defaults" for y
    using that by (auto simp add: sample_defaults_def)
  ultimately show "0 < x" by auto
qed

text \<open>
  C8. When \<open>update_atomic_mass\<close> has succeeded, and the floats that it wrote read back
  as printed, \<open>create_atomic_mass_list\<close> returns the 118 values that were written, in the
  order of the lines, whose line \<open>i + 1\<close> holds entry \<open>i\<close>; every value is positive when
  every default weight and every mass of an override line is.
\<close>

theorem atomic_mass_list_read_back:
  assumes "overridden_atomic_masses L fs = Inr aml"
    and "\<forall>x\<in>set aml. float_roundtrip L x"
  shows "update_atomic_mass L fs
      = Inr (fs(''atomic_masses_list.txt'' \<mapsto> atomic_masses_text L aml))
    \<and> create_atomic_mass_list L (fs(''atomic_masses_list.txt'' \<mapsto> atomic_masses_text L aml))
      = Inr aml
    \<and> length aml = 118
    \<and> ((\<forall>i<118. \<forall>el. md_element L (Inl (int i + 1)) = Some el \<longrightarrow> 0 < atomic_weight el)
        \<and> (\<forall>content. fs ''howerton_atomic_masses.txt'' = Some content \<longrightarrow>
             (\<forall>line\<in>set (py_lines content). \<forall>n m. override_line L line n m \<longrightarrow> 0 < m))
        \<longrightarrow> (\<forall>x\<in>set aml. 0 < x))"
proof -
  from overridden_atomic_masses_Inr [OF assms(1)] obtain dm content where
    u: "default_atomic_masses L = Inr dm" "fs ''howerton_atomic_masses.txt'' = Some content"
       "apply_overrides L (py_lines content) dm = Inr aml" by blast
  from default_atomic_masses_Inr [OF u(1)] have dm: "length dm = 118"
    "\<forall>i<118. \<exists>el. md_element L (Inl (int i + 1)) = Some el \<and> dm ! i = atomic_weight el"
    by simp_all
  have len: "length aml = 118" by (rule overridden_atomic_masses_length [OF assms(1)])
  have pos: "\<forall>x\<in>set aml. 0 < x"
    if d: "\<forall>i<118. \<forall>el. md_element L (Inl (int i + 1)) = Some el \<longrightarrow> 0 < atomic_weight el"
      and o: "\<forall>content. fs ''howerton_atomic_masses.txt'' = Some content \<longrightarrow>
             (\<forall>line\<in>set (py_lines content). \<forall>n m. override_line L line n m \<longrightarrow> 0 < m)"
  proof
    fix x assume "x \<in> set aml"
    from apply_overrides_sources [OF u(3) this]
    show "0 < x"
    proof
      assume "x \<in> set dm"
      then obtain i where "i < 118" "dm ! i = x" using dm(1) by (auto simp add: in_set_conv_nth)
      with dm(2) d show ?thesis by fastforce
    next
      assume "\<exists>line\<in>set (py_lines content). \<exists>n. override_line L line n x"
      with o u(2) show ?thesis by blast
    qed
  qed
  have "update_atomic_mass L fs
      = Inr (fs(''atomic_masses_list.txt'' \<mapsto> atomic_masses_text L aml))"
    by (simp add: update_atomic_mass_def assms(1) py_bind_def)
  with read_back [OF len assms(2)] len pos show ?thesis by blast
qed

theorem atomic_mass_list_read_back_witness:
  "overridden_atomic_masses sample_lib sample_files = Inr sample_masses
   \<and> list_all (float_roundtrip sample_lib) sample_masses
   \<and> create_atomic_mass_list sample_lib
        (sample_files(''atomic_masses_list.txt'' \<mapsto> atomic_masses_text sample_lib sample_masses))
      = Inr sample_masses
   \<and> length sample_masses = 118
   \<and> list_all (\<lambda>x. 0 < x) sample_masses"
  using atomic_mass_list_read_back [OF sample_overridden sample_masses_roundtrip]
    sample_overridden sample_masses_roundtrip sample_masses_positive
  unfolding list_all_iff by blast

theorem override_wraparound_counterexample:
  "update_atomic_mass sample_lib sample_files
     = Inr (sample_files(''atomic_masses_list.txt'' \<mapsto>
              atomic_masses_text sample_lib sample_masses))
   \<and> create_atomic_mass_list sample_lib
        (sample_files(''atomic_masses_list.txt'' \<mapsto> atomic_masses_text sample_lib sample_masses))
      = Inr sample_masses
   \<and> length (py_lines sample_overrides) = 3
   \<and> override_line sample_lib (py_lines sample_overrides ! 0) 6 12.011
   \<and> override_line sample_lib (py_lines sample_overrides ! 1) 118 294
   \<and> override_line sample_lib (py_lines sample_overrides ! 2) 0 1.5
   \<and> sample_masses ! 117 = 1.5"
proof -
  have "update_atomic_mass sample_lib sample_files
     = Inr (sample_files(''atomic_masses_list.txt'' \<mapsto>
              atomic_masses_text sample_lib sample_masses))"
    by (simp add: update_atomic_mass_def sample_overridden py_bind_def)
  moreover have "create_atomic_mass_list sample_lib
        (sample_files(''atomic_masses_list.txt'' \<mapsto> atomic_masses_text sample_lib sample_masses))
      = Inr sample_masses"
    by (rule read_back [OF _ sample_masses_roundtrip]) (simp add: sample_masses_def sample_defaults_def)
  moreover have "sample_masses ! 117 = 1.5"
    by (simp add: sample_masses_def sample_defaults_def)
  moreover have "length (py_lines sample_overrides) = 3"
    by (simp add: sample_lines)
  ultimately show ?thesis
    using sample_override_lines by blast
qed

section \<open>Lines of a table and the lookup loop\<close>

lemma py_lines_proper:
  assumes "\<forall>l\<in>set ls. l \<noteq> [] \<and> last l = NL \<and> NL \<notin> set (butlast l)"
  shows "py_lines (concat ls) = ls"
proof (rule py_lines_concat, rule ballI)
  fix l assume "l \<in> set ls"
  with assms have "l \<noteq> []" "last l = NL" "NL \<notin> set (butlast l)" by auto
  then have "l = butlast l @ [NL] \<and> NL \<notin> set (butlast l)"
    using append_butlast_last_id [of l] by simp
  then show "\<exists>w. l = w @ [NL] \<and> NL \<notin> set w" by blast
qed

lemma header_proper:
  "\<forall>l\<in>set entropy_header. l \<noteq> [] \<and> last l = NL \<and> NL \<notin> set (butlast l)"
  "\<forall>l\<in>set entropy_reverse_header. l \<noteq> [] \<and> last l = NL \<and> NL \<notin> set (butlast l)"
  "\<forall>l\<in>set energy_header. l \<noteq> [] \<and> last l = NL \<and> NL \<notin> set (butlast l)"
  "\<forall>l\<in>set energy_reverse_header. l \<noteq> [] \<and> last l = NL \<and> NL \<notin> set (butlast l)"
  by (simp_all add: entropy_header_def entropy_reverse_header_def energy_header_def
      energy_reverse_header_def)

lemma entropy_header_data:
  "map (\<lambda>l. filter_None (split_on TAB l)) entropy_header =
     [[''Starting Unit'', ''erg/g/K'', ''Mbar-cc/g/K'', ''J/g/K'', ''J/mol/K'' @ [NL]],
      [''Ending Unit'', ''kB/atom'', ''kB/atom'', ''kB/atom'', ''J/g/K'' @ [NL]],
      [''Element'', ''AMass'' @ [NL]]]"
  by (simp add: entropy_header_def filter_None_def)

lemma entropy_reverse_header_data:
  "map (\<lambda>l. filter_None (split_on TAB l)) entropy_reverse_header =
     [[''Starting Unit'', ''kB/atom'', ''kB/atom'', ''kB/atom'', ''J/g/K'' @ [NL]],
      [''Ending Unit'', ''erg/g/K'', ''Mbar-cc/g/K'', ''J/g/K'', ''J/mol/K'' @ [NL]],
      [''Element'', ''AMass'' @ [NL]]]"
  by (simp add: entropy_reverse_header_def filter_None_def)

lemma energy_header_data:
  "map (\<lambda>l. filter_None (split_on TAB l)) energy_header =
     [[''Starting Unit'', ''erg/g'', ''J/g'', ''Ry/atom'', ''Ry/atom'' @ [NL]],
      [''Ending Unit'', ''eV/atom'', ''eV/atom'', ''eV/atom'', ''erg/g'' @ [NL]],
      [''Element'', ''AMass'' @ [NL]]]"
  by (simp add: energy_header_def filter_None_def)

lemma energy_reverse_header_data:
  "map (\<lambda>l. filter_None (split_on TAB l)) energy_reverse_header =
     [[''Starting Unit'', ''eV/atom'', ''eV/atom'', ''eV/atom'', ''erg/g'' @ [NL]],
      [''Ending Unit'', ''erg/g'', ''J/g'', ''Ry/atom'', ''Ry/atom'' @ [NL]],
      [''Element'', ''AMass'' @ [NL]]]"
  by (simp add: energy_reverse_header_def filter_None_def)

lemma split_on_sep_Cons: "split_on sep (sep # s) = [] # split_on sep s"
  by simp

lemma proper_snoc:
  "NL \<notin> set w \<Longrightarrow> w @ [NL] \<noteq> [] \<and> last (w @ [NL]) = NL \<and> NL \<notin> set (butlast (w @ [NL]))"
  by simp

lemma format_factor_clean:
  assumes "clean_formats L"
  shows "clean_token (format_factor L sci v)" and "clean_token (format_6f L v)"
  using assms by (simp_all add: clean_formats_def format_factor_def)

lemma table_line_split:
  assumes "clean_formats L"
  shows "split_on TAB (table_line L [s1, s2, s3, s4] i m [v1, v2, v3, v4]) =
     [str_nat (Suc i), [], format_6f L m, format_factor L s1 v1, format_factor L s2 v2,
      format_factor L s3 v3, format_factor L s4 v4 @ [NL]]"
proof -
  note c = format_factor_clean [OF assms, unfolded clean_token_def]
  have t0: "TAB \<notin> set (str_nat (Suc i))" by (rule str_nat_no_TAB)
  have tm: "TAB \<notin> set (format_6f L m)" using c(2) by simp
  have t1: "TAB \<notin> set (format_factor L s1 v1)" using c(1) by simp
  have t2: "TAB \<notin> set (format_factor L s2 v2)" using c(1) by simp
  have t3: "TAB \<notin> set (format_factor L s3 v3)" using c(1) by simp
  have t4: "TAB \<notin> set (format_factor L s4 v4 @ [NL])" using c(1) by simp
  have e: "table_line L [s1, s2, s3, s4] i m [v1, v2, v3, v4] =
      str_nat (Suc i) @ TAB # (TAB # (format_6f L m @ TAB # (format_factor L s1 v1 @ TAB #
        (format_factor L s2 v2 @ TAB # (format_factor L s3 v3 @ TAB #
          (format_factor L s4 v4 @ [NL]))))))"
    by (simp add: table_line_def str_int_nat)
  show ?thesis
    unfolding e
    by (simp only: split_on_append [OF t0] split_on_append [OF tm] split_on_append [OF t1]
        split_on_append [OF t2] split_on_append [OF t3] split_on_no_sep [OF t4]
        split_on_sep_Cons)
qed

lemma table_line_data:
  assumes "clean_formats L"
  shows "filter_None (split_on TAB (table_line L [s1, s2, s3, s4] i m [v1, v2, v3, v4])) =
     [str_nat (Suc i), format_6f L m, format_factor L s1 v1, format_factor L s2 v2,
      format_factor L s3 v3, format_factor L s4 v4 @ [NL]]"
  using format_factor_clean [OF assms, unfolded clean_token_def] str_nat_nonempty
  by (simp add: table_line_split [OF assms] filter_None_def)

lemma table_line_proper:
  assumes "clean_formats L"
  shows "table_line L [s1, s2, s3, s4] i m [v1, v2, v3, v4] \<noteq> []
    \<and> last (table_line L [s1, s2, s3, s4] i m [v1, v2, v3, v4]) = NL
    \<and> NL \<notin> set (butlast (table_line L [s1, s2, s3, s4] i m [v1, v2, v3, v4]))"
proof -
  note c = format_factor_clean [OF assms, unfolded clean_token_def]
  let ?w = "str_nat (Suc i) @ [TAB, TAB] @ format_6f L m @ TAB # format_factor L s1 v1
      @ TAB # format_factor L s2 v2 @ TAB # format_factor L s3 v3 @ TAB # format_factor L s4 v4"
  have e: "table_line L [s1, s2, s3, s4] i m [v1, v2, v3, v4] = ?w @ [NL]"
    by (simp add: table_line_def str_int_nat)
  have "NL \<notin> set ?w" using c by (simp add: str_nat_no_NL)
  then show ?thesis unfolding e by (rule proper_snoc)
qed

lemma py_bind_Inr: "py_bind r f = Inr y \<Longrightarrow> \<exists>v. r = Inr v \<and> f v = Inr y"
  by (cases r) (simp_all add: py_bind_def)

lemma py_index_Inr: "py_index xs i = Inr v \<Longrightarrow> i < length xs \<and> v = xs ! i"
  by (auto simp add: py_index_def split: if_splits)

lemma table_lines_Inr:
  assumes "table_lines L formats factors masses = Inr lines"
  shows "length lines = 118
    \<and> (\<forall>i<118. \<exists>vs. i < length masses \<and> factors (masses ! i) = Inr vs
          \<and> lines ! i = table_line L formats i (masses ! i) vs)"
proof -
  let ?f = "\<lambda>i. py_bind (py_index masses i) (\<lambda>m.
      py_bind (factors m) (\<lambda>vs. Inr (table_line L formats i m vs)))"
  from collect_Inr_D [OF assms [unfolded table_lines_def]]
  have len: "length lines = 118" and each: "\<forall>i<118. ?f ([0..<118] ! i) = Inr (lines ! i)"
    by simp_all
  have "\<exists>vs. i < length masses \<and> factors (masses ! i) = Inr vs
      \<and> lines ! i = table_line L formats i (masses ! i) vs" if i: "i < 118" for i
  proof -
    from each i have "?f i = Inr (lines ! i)" by simp
    from py_bind_Inr [OF this] obtain m where
      m: "py_index masses i = Inr m"
         "py_bind (factors m) (\<lambda>vs. Inr (table_line L formats i m vs)) = Inr (lines ! i)"
      by blast
    from py_bind_Inr [OF m(2)] obtain vs where
      vs: "factors m = Inr vs" "table_line L formats i m vs = lines ! i" by auto
    from py_index_Inr [OF m(1)] vs show ?thesis by auto
  qed
  with len show ?thesis by blast
qed

lemma access_loop_skip:
  assumes "filter_None (split_on TAB line) = ld" and "ld \<noteq> []" and "hd ld \<noteq> key"
  shows "access_loop key su eu (line # rest) vars
    = access_loop key su eu rest (scan_units su eu ld vars)"
  using assms by (simp add: Let_def)

lemma access_loop_hit:
  assumes "filter_None (split_on TAB line) = ld" and "ld \<noteq> []" and "hd ld = key"
  shows "access_loop key su eu (line # rest) vars
    = read_factor ld (snd (snd (scan_units su eu ld vars)))"
  using assms by (simp add: Let_def)

lemma scan_units_settled:
  assumes "settled vars" and "hd ld \<noteq> ''Starting Unit''" and "hd ld \<noteq> ''Ending Unit''"
  shows "scan_units su eu ld vars = vars"
  using assms by (cases vars) (auto simp add: settled_def scan_units_def Let_def)

lemma access_loop_rows:
  assumes "settled vars"
    and "\<forall>l\<in>set pre. filter_None (split_on TAB l) \<noteq> []
           \<and> hd (filter_None (split_on TAB l)) \<noteq> key
           \<and> hd (filter_None (split_on TAB l)) \<noteq> ''Starting Unit''
           \<and> hd (filter_None (split_on TAB l)) \<noteq> ''Ending Unit''"
  shows "access_loop key su eu (pre @ rest) vars = access_loop key su eu rest vars"
  using assms(2)
proof (induction pre)
  case Nil
  then show ?case by simp
next
  case (Cons l pre)
  let ?ld = "filter_None (split_on TAB l)"
  from Cons.prems have l: "?ld \<noteq> []" "hd ?ld \<noteq> key" "hd ?ld \<noteq> ''Starting Unit''"
    "hd ?ld \<noteq> ''Ending Unit''" by simp_all
  have "access_loop key su eu ((l # pre) @ rest) vars
      = access_loop key su eu (pre @ rest) (scan_units su eu ?ld vars)"
    using access_loop_skip [OF refl l(1,2)] by simp
  also have "scan_units su eu ?ld vars = vars"
    by (rule scan_units_settled [OF assms(1) l(3,4)])
  finally show ?case using Cons by simp
qed


lemma str_nat_not_label:
  "str_nat n \<noteq> ''Starting Unit''" "str_nat n \<noteq> ''Ending Unit''" "str_nat n \<noteq> ''Element''"
proof -
  have S: "CHR ''S'' \<notin> set (str_nat n)" by (rule str_nat_no) simp
  have E: "CHR ''E'' \<notin> set (str_nat n)" by (rule str_nat_no) simp
  show "str_nat n \<noteq> ''Starting Unit''" using S by auto
  show "str_nat n \<noteq> ''Ending Unit''" using E by auto
  show "str_nat n \<noteq> ''Element''" using E by auto
qed

lemma access_loop_table_rows:
  assumes clean: "clean_formats L"
    and lines: "table_lines L [s1, s2, s3, s4] factors masses = Inr lines"
    and four: "\<forall>m vs. factors m = Inr vs \<longrightarrow> (\<exists>v1 v2 v3 v4. vs = [v1, v2, v3, v4])"
    and vars: "settled vars" and n: "0 < n" "n \<le> 118"
  shows "\<exists>v1 v2 v3 v4. n - 1 < length masses
    \<and> factors (masses ! (n - 1)) = Inr [v1, v2, v3, v4]
    \<and> access_loop (str_nat n) su eu lines vars =
        read_factor [str_nat n, format_6f L (masses ! (n - 1)), format_factor L s1 v1,
          format_factor L s2 v2, format_factor L s3 v3, format_factor L s4 v4 @ [NL]]
          (snd (snd vars))"
proof -
  from table_lines_Inr [OF lines] have len: "length lines = 118"
    and each: "\<forall>i<118. \<exists>vs. i < length masses \<and> factors (masses ! i) = Inr vs
          \<and> lines ! i = table_line L [s1, s2, s3, s4] i (masses ! i) vs" by simp_all
  have data: "\<exists>v1 v2 v3 v4. i < length masses \<and> factors (masses ! i) = Inr [v1, v2, v3, v4]
      \<and> filter_None (split_on TAB (lines ! i)) =
          [str_nat (Suc i), format_6f L (masses ! i), format_factor L s1 v1,
           format_factor L s2 v2, format_factor L s3 v3, format_factor L s4 v4 @ [NL]]"
    if "i < 118" for i
  proof -
    from each that obtain vs where vs: "i < length masses" "factors (masses ! i) = Inr vs"
      "lines ! i = table_line L [s1, s2, s3, s4] i (masses ! i) vs" by blast
    from four vs(2) obtain v1 v2 v3 v4 where "vs = [v1, v2, v3, v4]" by blast
    with vs table_line_data [OF clean] show ?thesis by auto
  qed
  have split: "lines = take (n - 1) lines @ lines ! (n - 1) # drop n lines"
    using id_take_nth_drop [of "n - 1" lines] n len by simp
  have pre: "\<forall>l\<in>set (take (n - 1) lines). filter_None (split_on TAB l) \<noteq> []
           \<and> hd (filter_None (split_on TAB l)) \<noteq> str_nat n
           \<and> hd (filter_None (split_on TAB l)) \<noteq> ''Starting Unit''
           \<and> hd (filter_None (split_on TAB l)) \<noteq> ''Ending Unit''"
  proof
    fix l assume "l \<in> set (take (n - 1) lines)"
    then obtain i where i: "i < n - 1" "l = lines ! i"
      using len n by (auto simp add: in_set_conv_nth)
    then have "i < 118" using n by simp
    from data [OF this] obtain v1 v2 v3 v4 where
      d: "filter_None (split_on TAB (lines ! i)) =
          [str_nat (Suc i), format_6f L (masses ! i), format_factor L s1 v1,
           format_factor L s2 v2, format_factor L s3 v3, format_factor L s4 v4 @ [NL]]"
      by blast
    have "str_nat (Suc i) \<noteq> str_nat n" using i(1) by (simp add: str_nat_inject)
    then show "filter_None (split_on TAB l) \<noteq> []
           \<and> hd (filter_None (split_on TAB l)) \<noteq> str_nat n
           \<and> hd (filter_None (split_on TAB l)) \<noteq> ''Starting Unit''
           \<and> hd (filter_None (split_on TAB l)) \<noteq> ''Ending Unit''"
      unfolding i(2) d using str_nat_not_label [of "Suc i"] by simp
  qed
  have "n - 1 < 118" using n by simp
  from data [OF this] n obtain v1 v2 v3 v4 where
    m: "n - 1 < length masses" "factors (masses ! (n - 1)) = Inr [v1, v2, v3, v4]"
    and d: "filter_None (split_on TAB (lines ! (n - 1))) =
          [str_nat n, format_6f L (masses ! (n - 1)), format_factor L s1 v1,
           format_factor L s2 v2, format_factor L s3 v3, format_factor L s4 v4 @ [NL]]"
    by auto
  let ?ld = "[str_nat n, format_6f L (masses ! (n - 1)), format_factor L s1 v1,
           format_factor L s2 v2, format_factor L s3 v3, format_factor L s4 v4 @ [NL]]"
  have "access_loop (str_nat n) su eu lines vars
      = access_loop (str_nat n) su eu (lines ! (n - 1) # drop n lines) vars"
    by (subst split) (rule access_loop_rows [OF vars pre])
  also have "\<dots> = read_factor ?ld (snd (snd (scan_units su eu ?ld vars)))"
    by (rule access_loop_hit [OF d]) simp_all
  also have "scan_units su eu ?ld vars = vars"
    by (rule scan_units_settled [OF vars]) (simp_all add: str_nat_not_label)
  finally show ?thesis using m by blast
qed

lemma header_scan:
  assumes "map (\<lambda>l. filter_None (split_on TAB l)) header = [d0, d1, d2]"
    and "d0 \<noteq> [] \<and> hd d0 \<noteq> key" and "d1 \<noteq> [] \<and> hd d1 \<noteq> key"
    and "d2 \<noteq> [] \<and> hd d2 \<noteq> key"
  shows "access_loop key su eu (header @ rest) vars =
    access_loop key su eu rest
      (scan_units su eu d2 (scan_units su eu d1 (scan_units su eu d0 vars)))"
proof -
  from assms(1) obtain h0 h1 h2 where h: "header = [h0, h1, h2]"
    "filter_None (split_on TAB h0) = d0" "filter_None (split_on TAB h1) = d1"
    "filter_None (split_on TAB h2) = d2"
    by (auto simp add: map_eq_Cons_conv)
  have "access_loop key su eu (header @ rest) vars
      = access_loop key su eu (h0 # h1 # h2 # rest) vars"
    by (simp add: h(1))
  also have "\<dots> = access_loop key su eu (h1 # h2 # rest) (scan_units su eu d0 vars)"
    by (rule access_loop_skip [OF h(2)]) (use assms(2) in simp_all)
  also have "\<dots> = access_loop key su eu (h2 # rest)
      (scan_units su eu d1 (scan_units su eu d0 vars))"
    by (rule access_loop_skip [OF h(3)]) (use assms(3) in simp_all)
  also have "\<dots> = access_loop key su eu rest
      (scan_units su eu d2 (scan_units su eu d1 (scan_units su eu d0 vars)))"
    by (rule access_loop_skip [OF h(4)]) (use assms(4) in simp_all)
  finally show ?thesis .
qed

lemma write_table_Inr:
  assumes "write_table L fs0 mass_list out_file_name header formats factors = Inr fs"
  shows "\<exists>masses lines. mass_list = Inr masses
    \<and> table_lines L formats factors masses = Inr lines
    \<and> fs = fs0(out_file_name \<mapsto> concat (header @ lines))"
proof -
  from py_bind_Inr [OF assms [unfolded write_table_def]] obtain masses where
    m: "mass_list = Inr masses"
       "py_bind (table_lines L formats factors masses)
          (\<lambda>lines. Inr (fs0(out_file_name \<mapsto> concat (header @ lines)))) = Inr fs" by blast
  from py_bind_Inr [OF m(2)] m(1) show ?thesis by auto
qed

lemma entropy_factors_four:
  "\<forall>m vs. entropy_factors c m = Inr vs \<longrightarrow> (\<exists>v1 v2 v3 v4. vs = [v1, v2, v3, v4])"
  by (auto simp add: entropy_factors_def dest!: py_bind_Inr)

lemma energy_reverse_factors_four:
  "\<forall>m vs. energy_reverse_factors c m = Inr vs \<longrightarrow> (\<exists>v1 v2 v3 v4. vs = [v1, v2, v3, v4])"
  by (auto simp add: energy_reverse_factors_def dest!: py_bind_Inr)

lemma entropy_factors_values:
  assumes "entropy_factors c m = Inr [v1, v2, v3, v4]"
  shows "Sconvert_erggK_to_kBatom c 1 m = Inr v1 \<and> Sconvert_JgK_to_kBatom c 1 m = Inr v2
    \<and> Sconvert_MbarccgK_to_kBatom c 1 m = Inr v3 \<and> Sconvert_JmolK_to_JgK 1 m = Inr v4"
  using assms by (auto simp add: entropy_factors_def dest!: py_bind_Inr)

lemma table_text_lines:
  assumes clean: "clean_formats L"
    and lines: "table_lines L [s1, s2, s3, s4] factors masses = Inr lines"
    and four: "\<forall>m vs. factors m = Inr vs \<longrightarrow> (\<exists>v1 v2 v3 v4. vs = [v1, v2, v3, v4])"
    and hdr: "\<forall>l\<in>set header. l \<noteq> [] \<and> last l = NL \<and> NL \<notin> set (butlast l)"
  shows "py_lines (concat (header @ lines)) = header @ lines"
proof (rule py_lines_proper, rule ballI)
  fix l assume "l \<in> set (header @ lines)"
  then consider "l \<in> set header" | "l \<in> set lines" by auto
  then show "l \<noteq> [] \<and> last l = NL \<and> NL \<notin> set (butlast l)"
  proof cases
    case 1
    with hdr show ?thesis by blast
  next
    case 2
    from table_lines_Inr [OF lines] 2 obtain i vs where
      "factors (masses ! i) = Inr vs" "l = table_line L [s1, s2, s3, s4] i (masses ! i) vs"
      by (auto simp add: in_set_conv_nth)
    moreover from this four obtain v1 v2 v3 v4 where "vs = [v1, v2, v3, v4]" by blast
    ultimately show ?thesis using table_line_proper [OF clean] by simp
  qed
qed

lemma get_factor_choice:
  "split_on SPACE ''6 J/mol/K J/g/K'' = [''6'', ''J/mol/K'', ''J/g/K'']"
  "split_on SPACE ''6 eV/atom Mbar-cc/g/K'' = [''6'', ''eV/atom'', ''Mbar-cc/g/K'']"
  "split_on SPACE ''1 Ry/atom eV/atom'' = [''1'', ''Ry/atom'', ''eV/atom'']"
  "split_on SPACE ''1 Ry/atom erg/g'' = [''1'', ''Ry/atom'', ''erg/g'']"
  "split_on SPACE ''1 Mbar-cc/g/K kB/atom'' = [''1'', ''Mbar-cc/g/K'', ''kB/atom'']"
  by simp_all

text \<open>
  C4. A request with the starting unit Ry/atom and the ending unit eV/atom or erg/g
  reaches no table: the branch for the energy table tests \<open>choice_parameters == "Ry/atom"\<close>,
  a list against a string, so the request falls through to the final \<open>else\<close> and is
  answered with the message for invalid input.
\<close>

theorem Ry_atom_not_dispatched:
  assumes "py_int L ''1'' = Some 1" and "md_element L (Inl 1) = Some el"
  shows "get_factor_from_table L fs ''1 Ry/atom eV/atom'' = Inr Invalid_input
    \<and> get_factor_from_table L fs ''1 Ry/atom erg/g'' = Inr Invalid_input"
  using assms
  by (simp add: get_factor_from_table_def get_factor_choice py_bind_def py_index_def
      list_equals_str_def)

lemma access_table:
  assumes clean: "clean_formats L"
    and built: "write_table L fs0 mass_list file header [s1, s2, s3, s4] factors = Inr fs"
    and fname: "table @ ''.txt'' = file"
    and four: "\<forall>m vs. factors m = Inr vs \<longrightarrow> (\<exists>v1 v2 v3 v4. vs = [v1, v2, v3, v4])"
    and hdr: "\<forall>l\<in>set header. l \<noteq> [] \<and> last l = NL \<and> NL \<notin> set (butlast l)"
    and hdata: "map (\<lambda>l. filter_None (split_on TAB l)) header = [d0, d1, d2]"
    and labels: "d0 \<noteq> [] \<and> hd d0 = ''Starting Unit''" "d1 \<noteq> [] \<and> hd d1 = ''Ending Unit''"
      "d2 \<noteq> [] \<and> hd d2 = ''Element''"
    and n: "0 < n" "n \<le> 118" and el: "atomic_number el = int n"
    and vars: "scan_units su eu d2 (scan_units su eu d1 (scan_units su eu d0 ([], [], None)))
       = vars"
    and settled: "settled vars"
  shows "\<exists>masses v1 v2 v3 v4. mass_list = Inr masses
    \<and> n - 1 < length masses
    \<and> factors (masses ! (n - 1)) = Inr [v1, v2, v3, v4]
    \<and> access_factor_from_table fs table el su eu =
        read_factor [str_nat n, format_6f L (masses ! (n - 1)), format_factor L s1 v1,
          format_factor L s2 v2, format_factor L s3 v3, format_factor L s4 v4 @ [NL]]
          (snd (snd vars))"
proof -
  from write_table_Inr [OF built]
  obtain masses lines where
    w: "mass_list = Inr masses"
       "table_lines L [s1, s2, s3, s4] factors masses = Inr lines"
       "fs = fs0(file \<mapsto> concat (header @ lines))"
    by blast
  have "py_lines (concat (header @ lines)) = header @ lines"
    by (rule table_text_lines [OF clean w(2) four hdr])
  then have pl: "py_lines (concat header @ concat lines) = header @ lines"
    by simp
  have key: "str_int (atomic_number el) = str_nat n"
    using el n by (simp add: str_int_def)
  from access_loop_table_rows [OF clean w(2) four settled n, of su eu]
  obtain v1 v2 v3 v4 where
    r: "n - 1 < length masses" "factors (masses ! (n - 1)) = Inr [v1, v2, v3, v4]"
       "access_loop (str_nat n) su eu lines vars =
        read_factor [str_nat n, format_6f L (masses ! (n - 1)), format_factor L s1 v1,
          format_factor L s2 v2, format_factor L s3 v3, format_factor L s4 v4 @ [NL]]
          (snd (snd vars))" by blast
  have "access_factor_from_table fs table el su eu
      = access_loop (str_nat n) su eu (header @ lines) ([], [], None)"
    by (simp add: access_factor_from_table_def fname w(3) pl key)
  also have "\<dots> = access_loop (str_nat n) su eu lines vars"
    unfolding vars [symmetric]
    by (rule header_scan [OF hdata]) (use labels str_nat_not_label [of n] in simp_all)
  finally show ?thesis using w(1) r by auto
qed

lemma element_key:
  assumes "py_int L p0 = Some k" and "md_element L (Inl k) = Some el"
  shows "(case md_element L (case py_int L p0 of Some n \<Rightarrow> Inl n | None \<Rightarrow> Inr p0) of
            None \<Rightarrow> Inl NoResultFound | Some el \<Rightarrow> Inr el) = Inr el"
  using assms by simp

text \<open>
  C5 on scripts.py. The request ``6 J/mol/K J/g/K'' selects the entropy forward table. In
  that table, as \<open>create_conversion_table_entropy\<close> writes it, the units J/mol/K and J/g/K
  stand in the last column of the header lines, and the lookup of scripts.py compares
  them with the newline still attached. No common position is found, \<open>index\<close> stays
  unbound, and the line of element 6 raises \<open>UnboundLocalError\<close> where the factor
  \<open>1/12.011\<close> should be returned.
\<close>

theorem lookup_JmolK_JgK_unbound:
  assumes "clean_formats L"
    and "create_conversion_table_entropy L c fs0 = Inr fs"
    and "py_int L ''6'' = Some 6" and "md_element L (Inl 6) = Some el"
    and "atomic_number el = 6"
  shows "get_factor_from_table L fs ''6 J/mol/K J/g/K''
      = py_bind (access_factor_from_table fs ''entropy_conversion_table'' el
          ''J/mol/K'' ''J/g/K'') (\<lambda>r. Inr (Looked_up r))
    \<and> access_factor_from_table fs ''entropy_conversion_table'' el ''J/mol/K'' ''J/g/K''
      = Inl UnboundLocalError
    \<and> get_factor_from_table L fs ''6 J/mol/K J/g/K'' = Inl UnboundLocalError"
proof -
  have vars: "scan_units ''J/mol/K'' ''J/g/K'' [''Element'', ''AMass'' @ [NL]]
      (scan_units ''J/mol/K'' ''J/g/K''
         [''Ending Unit'', ''kB/atom'', ''kB/atom'', ''kB/atom'', ''J/g/K'' @ [NL]]
        (scan_units ''J/mol/K'' ''J/g/K''
           [''Starting Unit'', ''erg/g/K'', ''Mbar-cc/g/K'', ''J/g/K'', ''J/mol/K'' @ [NL]]
           ([], [], None))) = ([], [], None)"
    by (simp add: scan_units_def positions_def common_member_def)
  have st: "settled ([], [], None)" by (simp add: settled_def common_member_def)
  from access_table [OF assms(1) assms(2) [unfolded create_conversion_table_entropy_def] _
      entropy_factors_four header_proper(1) entropy_header_data _ _ _ _ _ _ vars st,
      of "''entropy_conversion_table''" 6 el]
  have a: "access_factor_from_table fs ''entropy_conversion_table'' el ''J/mol/K'' ''J/g/K''
      = Inl UnboundLocalError"
    using assms(5) by (auto simp add: read_factor_def)
  have g: "get_factor_from_table L fs ''6 J/mol/K J/g/K''
      = py_bind (access_factor_from_table fs ''entropy_conversion_table'' el
          ''J/mol/K'' ''J/g/K'') (\<lambda>r. Inr (Looked_up r))"
    using assms(3,4)
    by (simp add: get_factor_from_table_def get_factor_choice py_bind_def py_index_def)
  from g a show ?thesis by (simp add: py_bind_def)
qed

text \<open>
  C6. The request ``6 eV/atom Mbar-cc/g/K'' names two known units without a conversion. The
  starting unit selects the energy reverse table; no column of its header has the ending
  unit, \<open>index\<close> stays unbound, and the line of element 6 raises \<open>UnboundLocalError\<close>,
  which nothing catches. No factor is returned.
\<close>

theorem unsupported_pair_unbound:
  assumes "clean_formats L"
    and "create_conversion_table_energy_reverse L c fs0 = Inr fs"
    and "py_int L ''6'' = Some 6" and "md_element L (Inl 6) = Some el"
    and "atomic_number el = 6"
  shows "get_factor_from_table L fs ''6 eV/atom Mbar-cc/g/K''
      = py_bind (access_factor_from_table fs ''energy_conversion_table_reverse'' el
          ''eV/atom'' ''Mbar-cc/g/K'') (\<lambda>r. Inr (Looked_up r))
    \<and> get_factor_from_table L fs ''6 eV/atom Mbar-cc/g/K'' = Inl UnboundLocalError"
proof -
  have vars: "scan_units ''eV/atom'' ''Mbar-cc/g/K'' [''Element'', ''AMass'' @ [NL]]
      (scan_units ''eV/atom'' ''Mbar-cc/g/K''
         [''Ending Unit'', ''erg/g'', ''J/g'', ''Ry/atom'', ''Ry/atom'' @ [NL]]
        (scan_units ''eV/atom'' ''Mbar-cc/g/K''
           [''Starting Unit'', ''eV/atom'', ''eV/atom'', ''eV/atom'', ''erg/g'' @ [NL]]
           ([], [], None))) = ([1, 2, 3], [], None)"
    by (simp add: scan_units_def positions_def common_member_def enumerate_eq_zip)
  have st: "settled ([1, 2, 3], [], None)" by (simp add: settled_def common_member_def)
  from access_table [OF assms(1) assms(2) [unfolded create_conversion_table_energy_reverse_def] _
      energy_reverse_factors_four header_proper(4) energy_reverse_header_data _ _ _ _ _ _ vars st,
      of "''energy_conversion_table_reverse''" 6 el]
  have a: "access_factor_from_table fs ''energy_conversion_table_reverse'' el
      ''eV/atom'' ''Mbar-cc/g/K'' = Inl UnboundLocalError"
    using assms(5) by (auto simp add: read_factor_def)
  have g: "get_factor_from_table L fs ''6 eV/atom Mbar-cc/g/K''
      = py_bind (access_factor_from_table fs ''energy_conversion_table_reverse'' el
          ''eV/atom'' ''Mbar-cc/g/K'') (\<lambda>r. Inr (Looked_up r))"
    using assms(3,4)
    by (simp add: get_factor_from_table_def get_factor_choice py_bind_def py_index_def
        list_equals_str_def)
  from g a show ?thesis by (simp add: py_bind_def)
qed

lemma entropy_column_units:
  "column_units entropy_header 0 = (''erg/g/K'', ''kB/atom'')"
  "column_units entropy_header 1 = (''Mbar-cc/g/K'', ''kB/atom'')"
  "column_units entropy_header 2 = (''J/g/K'', ''kB/atom'')"
  "column_units entropy_header 3 = (''J/mol/K'', ''J/g/K'')"
  by (simp_all add: column_units_def header_units_def entropy_header_def filter_None_def
      rstrip_newline_def)

lemma JgK_differs_from_MbarccgK:
  assumes "spc_positive c" and "m \<noteq> 0"
  shows "Sconvert_JgK_to_kBatom c 1 m \<noteq> Sconvert_MbarccgK_to_kBatom c 1 m"
  using assms
  by (simp add: Sconvert_JgK_to_kBatom_def Sconvert_MbarccgK_to_kBatom_def py_div_def
      spc_positive_def)

text \<open>
  C2. The second data column of the entropy table is headed Mbar-cc/g/K and kB/atom, but
  the rows hold \<open>conversion_2\<close> there, the factor of \<open>Sconvert_JgK_to_kBatom\<close>. A lookup of
  Mbar-cc/g/K to kB/atom for element 1 returns that factor, which is not what the
  conversion function of the header's pair gives for the value 1 and the mass of the
  element.
\<close>

theorem entropy_column_mislabelled:
  assumes "clean_formats L" and "spc_positive c"
    and "create_conversion_table_entropy L c fs0 = Inr fs"
    and "py_int L ''1'' = Some 1" and "md_element L (Inl 1) = Some el"
    and "atomic_number el = 1"
  shows "\<exists>masses v. create_atomic_mass_list L fs0 = Inr masses
    \<and> Sconvert_JgK_to_kBatom c 1 (masses ! 0) = Inr v
    \<and> get_factor_from_table L fs ''1 Mbar-cc/g/K kB/atom'' = Inr (Looked_up (Some (format_6f L v)))
    \<and> column_units entropy_header 1 = (''Mbar-cc/g/K'', ''kB/atom'')
    \<and> conversion_for (''Mbar-cc/g/K'', ''kB/atom'') = Some (forward MbarccgK_kBatom)
    \<and> forward MbarccgK_kBatom c 1 (masses ! 0) \<noteq> Inr v"
proof -
  have vars: "scan_units ''Mbar-cc/g/K'' ''kB/atom'' [''Element'', ''AMass'' @ [NL]]
      (scan_units ''Mbar-cc/g/K'' ''kB/atom''
         [''Ending Unit'', ''kB/atom'', ''kB/atom'', ''kB/atom'', ''J/g/K'' @ [NL]]
        (scan_units ''Mbar-cc/g/K'' ''kB/atom''
           [''Starting Unit'', ''erg/g/K'', ''Mbar-cc/g/K'', ''J/g/K'', ''J/mol/K'' @ [NL]]
           ([], [], None))) = ([2], [1, 2, 3], Some 2)"
    by (simp add: scan_units_def positions_def common_member_def enumerate_eq_zip)
  have st: "settled ([2], [1, 2, 3], Some 2)" by (simp add: settled_def common_member_def)
  from access_table [OF assms(1) assms(3) [unfolded create_conversion_table_entropy_def] _
      entropy_factors_four header_proper(1) entropy_header_data _ _ _ _ _ _ vars st,
      of "''entropy_conversion_table''" 1 el]
  obtain masses v1 v2 v3 v4 where
    m: "create_atomic_mass_list L fs0 = Inr masses"
       "entropy_factors c (masses ! 0) = Inr [v1, v2, v3, v4]"
       "access_factor_from_table fs ''entropy_conversion_table'' el ''Mbar-cc/g/K'' ''kB/atom''
          = Inr (Some (format_6f L v2))"
    using assms(6)
    by (auto simp add: read_factor_def py_index_def py_bind_def format_factor_def)
  from entropy_factors_values [OF m(2)] have v: "Sconvert_JgK_to_kBatom c 1 (masses ! 0) = Inr v2"
    "Sconvert_MbarccgK_to_kBatom c 1 (masses ! 0) = Inr v3" "Sconvert_JmolK_to_JgK 1 (masses ! 0) = Inr v4"
    by simp_all
  from v(3) have nz: "masses ! 0 \<noteq> 0"
    by (auto simp add: Sconvert_JmolK_to_JgK_def py_div_def split: if_splits)
  from JgK_differs_from_MbarccgK [OF assms(2) nz] v
  have d: "forward MbarccgK_kBatom c 1 (masses ! 0) \<noteq> Inr v2" by simp
  have g: "get_factor_from_table L fs ''1 Mbar-cc/g/K kB/atom''
      = py_bind (access_factor_from_table fs ''entropy_conversion_table'' el
          ''Mbar-cc/g/K'' ''kB/atom'') (\<lambda>r. Inr (Looked_up r))"
    using assms(4,5)
    by (simp add: get_factor_from_table_def get_factor_choice py_bind_def py_index_def)
  have cf: "conversion_for (''Mbar-cc/g/K'', ''kB/atom'') = Some (forward MbarccgK_kBatom)"
    by (simp add: conversion_for_def)
  from m(1) v(1) g m(3) d cf entropy_column_units(2) show ?thesis
    by (auto simp add: py_bind_def)
qed

section \<open>The scripts on the sample files\<close>

lemma digit_char_no: "ch \<notin> set ''0123456789'' \<Longrightarrow> digit_char (n mod 10) \<noteq> ch"
proof -
  have "n mod 10 < 10" by simp
  from digit_char_is_digit [OF this] show "ch \<notin> set ''0123456789'' \<Longrightarrow> digit_char (n mod 10) \<noteq> ch"
    by metis
qed

lemma pad_digits_no: "ch \<notin> set ''0123456789'' \<Longrightarrow> ch \<notin> set (pad_digits d n)"
proof (induction d arbitrary: n)
  case 0
  then show ?case by simp
next
  case (Suc d)
  from Suc.IH [OF Suc.prems, of "n div 10"] digit_char_no [OF Suc.prems, of n]
  show ?case by auto
qed

lemma sign_of_no: "ch \<noteq> CHR ''-'' \<Longrightarrow> ch \<notin> set (sign_of x)"
  by (simp add: sign_of_def)

lemma fixed_clean: "clean_token (fixed d x)"
proof -
  have "TAB \<notin> set (fixed d x)" "NL \<notin> set (fixed d x)"
    by (simp_all add: fixed_def Let_def sign_of_no str_nat_no pad_digits_no)
  then show ?thesis by (simp add: clean_token_def fixed_def Let_def)
qed

lemma scientific_clean: "clean_token (scientific x)"
proof -
  have "TAB \<notin> set (scientific x)" "NL \<notin> set (scientific x)"
    by (simp_all add: scientific_def Let_def split_def sign_of_no str_nat_no pad_digits_no)
  then show ?thesis by (simp add: clean_token_def scientific_def Let_def split_def)
qed

lemma sample_clean_formats: "clean_formats sample_lib"
  by (simp add: clean_formats_def sample_lib_def fixed_clean scientific_clean)

lemma collect_not_isl: "\<forall>x\<in>set xs. \<not> isl (f x) \<Longrightarrow> \<not> isl (collect f xs)"
proof (induction xs)
  case Nil
  then show ?case by simp
next
  case (Cons x xs)
  then obtain y ys where "f x = Inr y" "collect f xs = Inr ys"
    by (cases "f x"; cases "collect f xs") auto
  then show ?case by (simp add: py_bind_def)
qed

lemma write_table_ok:
  assumes "mass_list = Inr masses" and "118 \<le> length masses"
    and "\<forall>i<118. \<not> isl (factors (masses ! i))"
  shows "\<not> isl (write_table L fs mass_list out_file_name header formats factors)"
proof -
  have "\<not> isl (table_lines L formats factors masses)"
    unfolding table_lines_def
  proof (rule collect_not_isl, rule ballI)
    fix i assume "i \<in> set [0..<118]"
    then have i: "i < 118" by simp
    with assms(3) obtain vs where "factors (masses ! i) = Inr vs"
      by (cases "factors (masses ! i)") auto
    with i assms(2) show "\<not> isl (py_bind (py_index masses i) (\<lambda>m.
        py_bind (factors m) (\<lambda>vs. Inr (table_line L formats i m vs))))"
      by (simp add: py_index_def py_bind_def)
  qed
  then obtain lines where "table_lines L formats factors masses = Inr lines"
    by (cases "table_lines L formats factors masses") auto
  with assms(1) show ?thesis by (simp add: write_table_def py_bind_def)
qed

lemma entropy_factors_ok: "spc_positive c \<Longrightarrow> m \<noteq> 0 \<Longrightarrow> \<not> isl (entropy_factors c m)"
  by (simp add: entropy_factors_def scripts_conversion_defs py_div_def py_bind_def
      spc_positive_def)

lemma energy_reverse_factors_ok:
  "spc_positive c \<Longrightarrow> m \<noteq> 0 \<Longrightarrow> \<not> isl (energy_reverse_factors c m)"
  by (simp add: energy_reverse_factors_def scripts_conversion_defs py_div_def py_bind_def
      spc_positive_def)

lemma sample_masses_length: "length sample_masses = 118"
  by (simp add: sample_masses_def sample_defaults_def)

lemma sample_create_atomic_mass_list:
  "create_atomic_mass_list sample_lib sample_mass_files = Inr sample_masses"
  unfolding sample_mass_files_def
  by (rule read_back [OF sample_masses_length sample_masses_roundtrip])

lemma sample_masses_nonzero: "\<forall>i<118. sample_masses ! i \<noteq> 0"
  using sample_masses_positive sample_masses_length by (metis less_irrefl nth_mem)

lemma sample_entropy_table:
  "\<not> isl (create_conversion_table_entropy sample_lib codata2018 sample_mass_files)"
  unfolding create_conversion_table_entropy_def
  by (rule write_table_ok [OF sample_create_atomic_mass_list])
    (use sample_masses_length sample_masses_nonzero entropy_factors_ok [OF codata2018_positive]
      in auto)

lemma sample_energy_reverse_table:
  "\<not> isl (create_conversion_table_energy_reverse sample_lib codata2018 sample_mass_files)"
  unfolding create_conversion_table_energy_reverse_def
  by (rule write_table_ok [OF sample_create_atomic_mass_list])
    (use sample_masses_length sample_masses_nonzero
      energy_reverse_factors_ok [OF codata2018_positive] in auto)

lemma not_isl_projr: "\<not> isl r \<Longrightarrow> r = Inr (projr r)"
  by (cases r) simp_all

lemma sample_elements:
  "py_int sample_lib ''1'' = Some 1" "py_int sample_lib ''6'' = Some 6"
  "md_element sample_lib (Inl 1)
     = Some \<lparr>atomic_number = 1, symbol = ''H'', name = ''Hydrogen'', atomic_weight = 1.008\<rparr>"
  "md_element sample_lib (Inl 6)
     = Some \<lparr>atomic_number = 6, symbol = ''C'', name = ''Carbon'', atomic_weight = 12.011\<rparr>"
  by (simp_all add: sample_lib_def read_eval sample_element_def)

theorem Ry_atom_not_dispatched_witness:
  "get_factor_from_table sample_lib sample_mass_files ''1 Ry/atom eV/atom'' = Inr Invalid_input
   \<and> get_factor_from_table sample_lib sample_mass_files ''1 Ry/atom erg/g'' = Inr Invalid_input"
  by (rule Ry_atom_not_dispatched [OF sample_elements(1) sample_elements(3)])

lemma sample_atomic_numbers:
  "atomic_number \<lparr>atomic_number = 1, symbol = ''H'', name = ''Hydrogen'',
      atomic_weight = 1.008\<rparr> = 1"
  "atomic_number \<lparr>atomic_number = 6, symbol = ''C'', name = ''Carbon'',
      atomic_weight = 12.011\<rparr> = 6"
  by simp_all

theorem lookup_JmolK_JgK_unbound_witness:
  "clean_formats sample_lib
   \<and> \<not> isl (create_conversion_table_entropy sample_lib codata2018 sample_mass_files)
   \<and> create_atomic_mass_list sample_lib sample_mass_files = Inr sample_masses
   \<and> sample_masses ! 5 = 12.011
   \<and> get_factor_from_table sample_lib
        (projr (create_conversion_table_entropy sample_lib codata2018 sample_mass_files))
        ''6 J/mol/K J/g/K'' = Inl UnboundLocalError"
proof -
  have "sample_masses ! 5 = 12.011" by (simp add: sample_masses_def sample_defaults_def)
  with lookup_JmolK_JgK_unbound [OF sample_clean_formats
      not_isl_projr [OF sample_entropy_table] sample_elements(2) sample_elements(4)
      sample_atomic_numbers(2)]
    sample_clean_formats sample_entropy_table sample_create_atomic_mass_list
  show ?thesis by blast
qed

theorem unsupported_pair_unbound_witness:
  "clean_formats sample_lib
   \<and> \<not> isl (create_conversion_table_energy_reverse sample_lib codata2018 sample_mass_files)
   \<and> get_factor_from_table sample_lib
        (projr (create_conversion_table_energy_reverse sample_lib codata2018 sample_mass_files))
        ''6 eV/atom Mbar-cc/g/K'' = Inl UnboundLocalError"
  using unsupported_pair_unbound [OF sample_clean_formats
      not_isl_projr [OF sample_energy_reverse_table] sample_elements(2) sample_elements(4)
      sample_atomic_numbers(2)]
    sample_clean_formats sample_energy_reverse_table
  by blast

theorem entropy_column_mislabelled_witness:
  "clean_formats sample_lib \<and> spc_positive codata2018
   \<and> \<not> isl (create_conversion_table_entropy sample_lib codata2018 sample_mass_files)
   \<and> create_atomic_mass_list sample_lib sample_mass_files = Inr sample_masses
   \<and> sample_masses ! 0 = 1.008
   \<and> get_factor_from_table sample_lib
        (projr (create_conversion_table_entropy sample_lib codata2018 sample_mass_files))
        ''1 Mbar-cc/g/K kB/atom'' = Inr (Looked_up (Some ''0.121235''))
   \<and> Sconvert_JgK_to_kBatom codata2018 1 1.008 = Inr (1.008 / (1.380649 * 6.02214076))
   \<and> Sconvert_MbarccgK_to_kBatom codata2018 1 1.008
        = Inr (1.008 * 10 ^ 5 / (1.380649 * 6.02214076))"
proof -
  have m0: "sample_masses ! 0 = 1.008" by (simp add: sample_masses_def sample_defaults_def)
  from entropy_column_mislabelled [OF sample_clean_formats codata2018_positive
      not_isl_projr [OF sample_entropy_table] sample_elements(1) sample_elements(3)
      sample_atomic_numbers(1)]
  obtain v where v: "Sconvert_JgK_to_kBatom codata2018 1 (sample_masses ! 0) = Inr v"
    "get_factor_from_table sample_lib
        (projr (create_conversion_table_entropy sample_lib codata2018 sample_mass_files))
        ''1 Mbar-cc/g/K kB/atom'' = Inr (Looked_up (Some (format_6f sample_lib v)))"
    by (auto simp add: sample_create_atomic_mass_list)
  have j: "Sconvert_JgK_to_kBatom codata2018 1 1.008 = Inr (1.008 / (1.380649 * 6.02214076))"
    by (simp add: Sconvert_JgK_to_kBatom_def py_div_def codata2018_def)
  have k: "Sconvert_MbarccgK_to_kBatom codata2018 1 1.008
        = Inr (1.008 * 10 ^ 5 / (1.380649 * 6.02214076))"
    by (simp add: Sconvert_MbarccgK_to_kBatom_def py_div_def codata2018_def)
  have f: "fixed 6 (1.008 / (1.380649 * 6.02214076)) = ''0.121235''"
    by (simp add: print_float_eval)
  from v(1) j m0 have "v = 1.008 / (1.380649 * 6.02214076)" by simp
  with v(2) f have "get_factor_from_table sample_lib
        (projr (create_conversion_table_entropy sample_lib codata2018 sample_mass_files))
        ''1 Mbar-cc/g/K kB/atom'' = Inr (Looked_up (Some ''0.121235''))"
    by (simp add: sample_lib_def)
  with sample_clean_formats codata2018_positive sample_entropy_table
    sample_create_atomic_mass_list m0 j k
  show ?thesis by blast
qed

end
